theory Spec2Isabelle
  imports Main "HOL-Library.Monad_Syntax"
begin

section \<open>JavaScript values and strings\<close>

text \<open>
  The job payloads of \<^verbatim>\<open>jsearchService.ts\<close> are typed \<^verbatim>\<open>any\<close>: they are whatever JSON
  the API returned. They are modelled as JSON values, with \<open>JUndefined\<close> for a property
  that is not there and \<open>JFunc name\<close> for a built-in function object (the code can reach
  \<^verbatim>\<open>String.prototype.link\<close>, when a raw job is itself a string, and the methods of
  \<^verbatim>\<open>Object.prototype\<close>, when \<^verbatim>\<open>runCrawlers\<close> looks a country up in its table).
  A JavaScript \<^verbatim>\<open>TypeError\<close> is the value \<open>None\<close> of an option type.

  Numbers are integers, printed with all their digits: this is what JavaScript prints
  for an integer below \<open>2^53\<close>; fractions, and the exponent notation of larger numbers,
  are outside the model.

  Strings are byte strings in UTF-8. Comparing, concatenating, splitting at a comma and
  searching for a substring are the same on the bytes as on the characters. The methods
  \<^verbatim>\<open>toLowerCase\<close>, \<^verbatim>\<open>toUpperCase\<close> and \<^verbatim>\<open>trim\<close> of \<^verbatim>\<open>String.prototype\<close> consult the tables of
  Unicode; \<open>toLowerCase\<close>, \<open>toUpperCase\<close> and \<open>trim\<close> below are these methods on strings of
  ASCII characters only, and leave every other character as it is. Where a statement is
  about all strings, the function it is about takes the methods it calls as parameters.
\<close>

datatype jsval =
    JUndefined
  | JNull
  | JBool bool
  | JNum int
  | JStr string
  | JArr "jsval list"
  | JObj "(string \<times> jsval) list"
  | JFunc string

fun truthy :: "jsval \<Rightarrow> bool" where
  "truthy JUndefined = False"
| "truthy JNull = False"
| "truthy (JBool b) = b"
| "truthy (JNum n) = (n \<noteq> 0)"
| "truthy (JStr s) = (s \<noteq> [])"
| "truthy (JArr xs) = True"
| "truthy (JObj kvs) = True"
| "truthy (JFunc n) = True"

text \<open>\<^verbatim>\<open>a || b\<close>\<close>

definition jsOr :: "jsval \<Rightarrow> jsval \<Rightarrow> jsval" where
  "jsOr a b = (if truthy a then a else b)"

text \<open>
  \<^verbatim>\<open>v.k\<close> and \<^verbatim>\<open>v[k]\<close> for a value that is neither null nor undefined, at the property
  names the source reads. None of them is inherited by objects, arrays, numbers or
  booleans; a string inherits \<^verbatim>\<open>link\<close>.
\<close>

fun getProp :: "jsval \<Rightarrow> string \<Rightarrow> jsval" where
  "getProp (JObj kvs) k = (case map_of kvs k of Some v \<Rightarrow> v | None \<Rightarrow> JUndefined)"
| "getProp (JStr s) k = (if k = ''link'' then JFunc ''link'' else JUndefined)"
| "getProp v k = JUndefined"

definition isSpace :: "char \<Rightarrow> bool" where
  "isSpace c = (let n = (of_char c :: nat) in n = 32 \<or> (9 \<le> n \<and> n \<le> 13))"

definition isDigit :: "char \<Rightarrow> bool" where
  "isDigit c = (let n = (of_char c :: nat) in 48 \<le> n \<and> n \<le> 57)"

definition isUpper :: "char \<Rightarrow> bool" where
  "isUpper c = (let n = (of_char c :: nat) in 65 \<le> n \<and> n \<le> 90)"

definition isLower :: "char \<Rightarrow> bool" where
  "isLower c = (let n = (of_char c :: nat) in 97 \<le> n \<and> n \<le> 122)"

definition lowerChar :: "char \<Rightarrow> char" where
  "lowerChar c = (if isUpper c then char_of ((of_char c :: nat) + 32) else c)"

definition upperChar :: "char \<Rightarrow> char" where
  "upperChar c = (if isLower c then char_of ((of_char c :: nat) - 32) else c)"

definition toLowerCase :: "string \<Rightarrow> string" where
  "toLowerCase s = map lowerChar s"

definition toUpperCase :: "string \<Rightarrow> string" where
  "toUpperCase s = map upperChar s"

definition trim :: "string \<Rightarrow> string" where
  "trim s = rev (dropWhile isSpace (rev (dropWhile isSpace s)))"

fun startsWith :: "string \<Rightarrow> string \<Rightarrow> bool" where
  "startsWith s [] = True"
| "startsWith [] (p # ps) = False"
| "startsWith (c # cs) (p # ps) = (c = p \<and> startsWith cs ps)"

definition endsWith :: "string \<Rightarrow> string \<Rightarrow> bool" where
  "endsWith s p = startsWith (rev s) (rev p)"

fun includesStr :: "string \<Rightarrow> string \<Rightarrow> bool" where
  "includesStr [] p = (p = [])"
| "includesStr (c # cs) p = (startsWith (c # cs) p \<or> includesStr cs p)"

text \<open>\<^verbatim>\<open>s.split(',')\<close>\<close>

fun split :: "char \<Rightarrow> string \<Rightarrow> string list" where
  "split d [] = [[]]"
| "split d (c # cs) =
     (if c = d then [] # split d cs
      else (case split d cs of [] \<Rightarrow> [[c]] | w # ws \<Rightarrow> (c # w) # ws))"

fun joinStrings :: "string \<Rightarrow> string list \<Rightarrow> string" where
  "joinStrings sep [] = []"
| "joinStrings sep [s] = s"
| "joinStrings sep (s # t # ts) = s @ sep @ joinStrings sep (t # ts)"

definition digitChar :: "nat \<Rightarrow> char" where
  "digitChar d = char_of (48 + d)"

fun showNat :: "nat \<Rightarrow> string" where
  "showNat n = (if n < 10 then [digitChar n] else showNat (n div 10) @ [digitChar (n mod 10)])"

declare showNat.simps [simp del]

definition showInt :: "int \<Rightarrow> string" where
  "showInt i = (if i < 0 then CHR ''-'' # showNat (nat (- i)) else showNat (nat i))"

text \<open>
  \<^verbatim>\<open>String(v)\<close>, as \<^verbatim>\<open>Array.prototype.join\<close> and template literals apply it. An
  array prints its elements joined by commas, null and undefined elements as nothing;
  an object prints as \<^verbatim>\<open>[object Object]\<close>, unless it has a property \<^verbatim>\<open>toString\<close> of
  its own, which in JSON is never callable: then the conversion throws. A number prints
  as an integer with all its digits.
\<close>

fun toStr :: "jsval \<Rightarrow> string option"
  and elemStrs :: "jsval list \<Rightarrow> string list option" where
  "toStr JUndefined = Some ''undefined''"
| "toStr JNull = Some ''null''"
| "toStr (JBool b) = Some (if b then ''true'' else ''false'')"
| "toStr (JNum n) = Some (showInt n)"
| "toStr (JStr s) = Some s"
| "toStr (JArr xs) = map_option (joinStrings '','') (elemStrs xs)"
| "toStr (JObj kvs) =
     (if ''toString'' \<in> set (map fst kvs) then None else Some ''[object Object]'')"
| "toStr (JFunc n) = Some (''function '' @ n @ ''() { [native code] }'')"
| "elemStrs [] = Some []"
| "elemStrs (x # xs) =
     do {
       s \<leftarrow> (if x = JUndefined \<or> x = JNull then Some [] else toStr x);
       ss \<leftarrow> elemStrs xs;
       Some (s # ss)
     }"

text \<open>\<^verbatim>\<open>xs.join(sep)\<close>\<close>

definition joinJs :: "string \<Rightarrow> jsval list \<Rightarrow> string option" where
  "joinJs sep xs = map_option (joinStrings sep) (elemStrs xs)"

section \<open>Location classifier\<close>

definition COUNTRY_LOCATIONS :: "(string \<times> string list) list" where
  "COUNTRY_LOCATIONS = [
    (''in'', [
      ''bangalore'', ''bengaluru'', ''mumbai'', ''delhi'', ''gurgaon'', ''gurugram'',
      ''pune'', ''hyderabad'', ''kolkata'', ''chennai'', ''jaipur'', ''lucknow'', ''ahmedabad'',
      ''chandigarh'', ''indore'', ''bhopal'', ''visakhapatnam'', ''kochi'', ''vadodara'',
      ''surat'', ''nagpur'', ''coimbatore'', ''ghaziabad'', ''ludhiana'', ''noida'', ''faridabad'',
      ''trivandrum'', ''thiruvananthapuram'', ''kottayam'', ''thrissur'', ''ernakulam'',
      ''kozhikode'', ''kannur'', ''palakkad'', ''malappuram'', ''pathanamthitta'']),
    (''us'', [
      ''new york'', ''los angeles'', ''chicago'', ''houston'', ''phoenix'', ''philadelphia'',
      ''san antonio'', ''san diego'', ''dallas'', ''san jose'', ''austin'', ''jacksonville'',
      ''fort worth'', ''columbus'', ''indianapolis'', ''charlotte'', ''san francisco'',
      ''seattle'', ''denver'', ''boston'', ''el paso'', ''detroit'', ''nashville'', ''portland'',
      ''memphis'', ''oklahoma city'', ''las vegas'', ''louisville'', ''baltimore'', ''milwaukee'',
      ''albuquerque'', ''tucson'', ''fresno'', ''mesa'', ''sacramento'', ''atlanta'', ''kansas city'',
      ''colorado springs'', ''miami'', ''raleigh'', ''omaha'', ''long beach'', ''virginia beach'',
      ''oakland'', ''minneapolis'', ''tulsa'', ''arlington'', ''tampa'', ''new orleans'']),
    (''uk'', [
      ''london'', ''birmingham'', ''manchester'', ''leeds'', ''glasgow'', ''newcastle'',
      ''sheffield'', ''liverpool'', ''bristol'', ''nottingham'', ''leicester'', ''brighton'',
      ''plymouth'', ''southampton'', ''reading'', ''derby'', ''dundee'', ''cardiff'', ''edinburgh'',
      ''belfast'', ''oxford'', ''cambridge'', ''york'', ''bath'', ''norwich'', ''portsmouth'']),
    (''ca'', [
      ''toronto'', ''montreal'', ''vancouver'', ''calgary'', ''edmonton'', ''ottawa'',
      ''winnipeg'', ''quebec city'', ''hamilton'', ''kitchener'', ''london'', ''halifax'',
      ''victoria'', ''saskatoon'', ''regina'', ''sherbrooke'', ''kelowna'', ''abbotsford'',
      ''sudbury'', ''kingston'', ''sault ste marie'', ''thunder bay'', ''north bay'']),
    (''au'', [
      ''sydney'', ''melbourne'', ''brisbane'', ''perth'', ''adelaide'', ''gold coast'',
      ''canberra'', ''newcastle'', ''wollongong'', ''logan'', ''geelong'', ''hobart'',
      ''townsville'', ''cairns'', ''darwin'', ''toowoomba'', ''ballarat'', ''bendigo'']),
    (''de'', [
      ''berlin'', ''hamburg'', ''munich'', ''cologne'', ''frankfurt'', ''stuttgart'',
      ''d'' @ [CHR 0xC3, CHR 0xBC] @ ''sseldorf'', ''dortmund'', ''essen'', ''leipzig'', ''bremen'',
      ''dresden'', ''hanover'', ''nuremberg'', ''duisburg'', ''bochum'', ''wuppertal'', ''bielefeld'']),
    (''fr'', [
      ''paris'', ''marseille'', ''lyon'', ''toulouse'', ''nice'', ''nantes'', ''strasbourg'',
      ''montpellier'', ''bordeaux'', ''lille'', ''rennes'', ''reims'', ''le havre'', ''saint-etienne'',
      ''toulon'', ''grenoble'', ''dijon'', ''angers'', ''n'' @ [CHR 0xC3, CHR 0xAE] @ ''mes'',
      ''villeurbanne'']),
    (''nl'', [
      ''amsterdam'', ''rotterdam'', ''the hague'', ''utrecht'', ''eindhoven'', ''tilburg'',
      ''groningen'', ''almere'', ''breda'', ''nijmegen'', ''enschede'', ''haarlem'', ''arnhem'',
      ''amersfoort'', ''zwolle'', ''zoetermeer'', ''den haag'', ''apeldoorn'', ''heerlen'']),
    (''sg'', [
      ''singapore'', ''jurong'', ''tampines'', ''yishun'', ''bedok'', ''woodlands'', ''ang mo kio'',
      ''hougang'', ''choa chu kang'', ''sengkang'', ''punggol'', ''bukit batok'', ''bukit panjang'']),
    (''es'', [
      ''madrid'', ''barcelona'', ''valencia'', ''seville'', ''zaragoza'',
      ''m'' @ [CHR 0xC3, CHR 0xA1] @ ''laga'', ''murcia'',
      ''palma'', ''las palmas'', ''bilbao'', ''alicante'',
      ''c'' @ [CHR 0xC3, CHR 0xB3] @ ''rdoba'', ''valladolid'', ''vigo'',
      ''gij'' @ [CHR 0xC3, CHR 0xB3] @ ''n'', ''hospitalet de llobregat'',
      ''la coru'' @ [CHR 0xC3, CHR 0xB1] @ ''a'', ''granada'', ''vitoria-gasteiz''])]"

definition COUNTRY_STATE_CODES :: "(string \<times> string list) list" where
  "COUNTRY_STATE_CODES = [
    (''in'', [''in'', ''in-ka'', ''in-tn'', ''in-mh'', ''in-dl'', ''in-hr'', ''in-up'', ''in-ap'',
              ''in-jk'', ''in-hp'', ''in-pb'', ''in-gj'']),
    (''us'', [''al'', ''ak'', ''az'', ''ar'', ''ca'', ''co'', ''ct'', ''de'', ''fl'', ''ga'', ''hi'',
              ''id'', ''il'', ''in'', ''ia'', ''ks'', ''ky'', ''la'', ''me'', ''md'', ''ma'', ''mi'',
              ''mn'', ''ms'', ''mo'', ''mt'', ''ne'', ''nv'', ''nh'', ''nj'', ''nm'', ''ny'', ''nc'',
              ''nd'', ''oh'', ''ok'', ''or'', ''pa'', ''ri'', ''sc'', ''sd'', ''tn'', ''tx'', ''ut'',
              ''vt'', ''va'', ''wa'', ''wv'', ''wi'', ''wy'']),
    (''uk'', [''england'', ''scotland'', ''wales'', ''northern ireland'']),
    (''ca'', [''on'', ''qc'', ''bc'', ''ab'', ''mb'', ''sk'', ''ns'', ''nb'', ''nl'', ''pe'', ''nt'',
              ''yt'', ''nu'']),
    (''au'', [''nsw'', ''vic'', ''qld'', ''wa'', ''sa'', ''tas'', ''act'', ''nt'']),
    (''de'', [''bw'', ''by'', ''be'', ''bb'', ''hb'', ''hh'', ''he'', ''mv'', ''ni'', ''nw'', ''rp'',
              ''sl'', ''sn'', ''st'', ''sh'', ''th'']),
    (''fr'', [''ara'', ''bfc'', ''bre'', ''cvl'', ''cor'', ''ges'', ''hdf'', ''idf'', ''nor'', ''nau'',
              ''occ'', ''pac'', ''pdl'']),
    (''nl'', [''dr'', ''fl'', ''fr'', ''ge'', ''gr'', ''li'', ''nb'', ''nh'', ''ov'', ''ut'', ''ze'',
              ''zh'']),
    (''sg'', [''central'', ''north'', ''north-east'', ''east'', ''west'']),
    (''es'', [''an'', ''ar'', ''as'', ''ib'', ''cn'', ''cb'', ''cl'', ''cm'', ''ct'', ''ce'', ''ga'',
              ''ri'', ''md'', ''mc'', ''nc'', ''pv'', ''vc''])]"

definition EXCLUDE_US_STATES :: "string list" where
  "EXCLUDE_US_STATES = [''alabama'', ''alaska'', ''arizona'', ''arkansas'', ''california'',
    ''colorado'', ''connecticut'', ''delaware'', ''florida'', ''georgia'', ''hawaii'', ''idaho'',
    ''illinois'', ''indiana'', ''iowa'', ''kansas'', ''kentucky'', ''louisiana'', ''maine'',
    ''maryland'', ''massachusetts'', ''michigan'', ''minnesota'', ''mississippi'', ''missouri'',
    ''montana'', ''nebraska'', ''nevada'', ''hampshire'', ''jersey'', ''mexico'', ''york'',
    ''carolina'', ''dakota'', ''ohio'', ''oklahoma'', ''oregon'', ''pennsylvania'', ''rhode'',
    ''south'', ''tennessee'', ''texas'', ''utah'', ''vermont'', ''virginia'', ''washington'',
    ''wisconsin'', ''wyoming'']"

definition countryNames :: "(string \<times> string list) list" where
  "countryNames = [
    (''in'', [''india'']),
    (''us'', [''united states'', ''usa'', ''america'']),
    (''uk'', [''united kingdom'', ''uk'', ''britain'', ''england'', ''scotland'', ''wales'']),
    (''ca'', [''canada'']),
    (''au'', [''australia'']),
    (''de'', [''germany'', ''deutschland'']),
    (''fr'', [''france'']),
    (''nl'', [''netherlands'', ''holland'']),
    (''sg'', [''singapore'']),
    (''es'', [''spain'', ''espa'' @ [CHR 0xC3, CHR 0xB1] @ ''a''])]"

text \<open>
  \<^verbatim>\<open>TABLE[key] || []\<close> followed by \<^verbatim>\<open>for (const x of ...)\<close>. A key that is not in the
  table gives the empty list, except the names every object literal inherits: there the
  lookup gives a function or an object, and iterating over it throws.
\<close>

definition objectPrototypeKeys :: "string list" where
  "objectPrototypeKeys = [''constructor'', ''__proto__'', ''hasOwnProperty'', ''isPrototypeOf'',
    ''propertyIsEnumerable'', ''toLocaleString'', ''toString'', ''valueOf'',
    ''__defineGetter__'', ''__defineSetter__'', ''__lookupGetter__'', ''__lookupSetter__'']"

definition tableLookup :: "(string \<times> string list) list \<Rightarrow> string \<Rightarrow> string list option" where
  "tableLookup tbl k =
     (case map_of tbl k of
        Some xs \<Rightarrow> Some xs
      | None \<Rightarrow> if k \<in> set objectPrototypeKeys then None else Some [])"

text \<open>
  The test of lines 136 to 147: does the explicit country name the target country?
  \<open>targetCountryLower\<close> is the constant of line 129.
\<close>

definition countryMatches :: "string \<Rightarrow> string \<Rightarrow> string \<Rightarrow> bool" where
  "countryMatches targetCountryIso targetCountryLower countryLower =
    (countryLower = targetCountryLower \<or>
     countryLower = targetCountryIso \<or>
     (targetCountryIso = ''in'' \<and> (countryLower = ''india'' \<or> startsWith countryLower ''in-'' \<or> countryLower = ''in,'')) \<or>
     (targetCountryIso = ''us'' \<and> (countryLower = ''united states'' \<or> countryLower = ''usa'' \<or> countryLower = ''us,'' \<or> countryLower = ''u.s.'')) \<or>
     (targetCountryIso = ''uk'' \<and> (countryLower = ''united kingdom'' \<or> countryLower = ''uk,'' \<or> countryLower = ''great britain'')) \<or>
     (targetCountryIso = ''ca'' \<and> (countryLower = ''canada'' \<or> countryLower = ''ca,'')) \<or>
     (targetCountryIso = ''au'' \<and> (countryLower = ''australia'' \<or> countryLower = ''au,'')) \<or>
     (targetCountryIso = ''de'' \<and> (countryLower = ''germany'' \<or> countryLower = ''deutschland'' \<or> countryLower = ''de,'')) \<or>
     (targetCountryIso = ''fr'' \<and> (countryLower = ''france'' \<or> countryLower = ''fr,'')) \<or>
     (targetCountryIso = ''nl'' \<and> (countryLower = ''netherlands'' \<or> countryLower = ''holland'' \<or> countryLower = ''nl,'')) \<or>
     (targetCountryIso = ''sg'' \<and> (countryLower = ''singapore'' \<or> countryLower = ''sg,'')) \<or>
     (targetCountryIso = ''es'' \<and> (countryLower = ''spain'' \<or> countryLower = ''espa'' @ [CHR 0xC3, CHR 0xB1] @ ''a'' \<or> countryLower = ''es,'')))"

text \<open>
  \<^verbatim>\<open>new RegExp(`(^|\\s|,)${cityName}(\\s|,|$)`, 'i').test(s)\<close>: the city name stands at
  the start of \<open>s\<close> or after white space or a comma, and is followed by white space, a
  comma or the end. No city name of the tables holds a character that is special in a
  regular expression.
\<close>

definition isSep :: "char \<Rightarrow> bool" where
  "isSep c = (isSpace c \<or> c = CHR '','')"

definition wordHere :: "string \<Rightarrow> string \<Rightarrow> bool" where
  "wordHere w s =
     (startsWith s w \<and> (case drop (length w) s of [] \<Rightarrow> True | c # cs \<Rightarrow> isSep c))"

fun wordFrom :: "bool \<Rightarrow> string \<Rightarrow> string \<Rightarrow> bool" where
  "wordFrom ok w [] = (ok \<and> wordHere w [])"
| "wordFrom ok w (c # cs) = ((ok \<and> wordHere w (c # cs)) \<or> wordFrom (isSep c) w cs)"

definition cityPatternTest :: "string \<Rightarrow> string \<Rightarrow> bool" where
  "cityPatternTest cityName s = wordFrom True (toLowerCase cityName) (toLowerCase s)"

text \<open>
  \<^verbatim>\<open>isLocationInCountry\<close>, given the two methods of \<^verbatim>\<open>String.prototype\<close> that it calls on its
  arguments: \<open>lowerCase\<close> for \<^verbatim>\<open>toLowerCase\<close> and \<open>trimmed\<close> for \<^verbatim>\<open>trim\<close>. The state names that
  line 156 puts in upper case, and the city names of the patterns, are ASCII constants of
  the source.
\<close>

definition isLocationInCountryWith ::
  "(string \<Rightarrow> string) \<Rightarrow> (string \<Rightarrow> string) \<Rightarrow>
     string \<Rightarrow> string \<Rightarrow> jsval \<Rightarrow> jsval \<Rightarrow> jsval \<Rightarrow> bool option" where
  "isLocationInCountryWith lowerCase trimmed targetCountryIso location city state country =
    (if location = [] \<and> \<not> truthy city \<and> \<not> truthy state \<and> \<not> truthy country then Some False
     else do {
       let locLower = lowerCase location;
       joined \<leftarrow> joinJs '' '' (filter truthy [city, state, country]);
       let fullLocation = lowerCase joined;
       let targetCountryLower = lowerCase targetCountryIso;
       if truthy country then
         (case country of
            JStr c \<Rightarrow>
              Some (countryMatches targetCountryIso targetCountryLower (trimmed (lowerCase c)))
          | _ \<Rightarrow> None)
       else if targetCountryIso \<noteq> ''us'' \<and>
           list_ex (\<lambda>usState.
              includesStr locLower ('', '' @ usState) \<or>
              includesStr locLower ('', '' @ toUpperCase usState) \<or>
              endsWith locLower ('', '' @ usState)) EXCLUDE_US_STATES
       then Some False
       else do {
         stateCodes \<leftarrow> tableLookup COUNTRY_STATE_CODES targetCountryIso;
         if list_ex (\<lambda>stateCode. includesStr locLower stateCode \<or> includesStr fullLocation stateCode) stateCodes
         then Some True
         else do {
           cities \<leftarrow> tableLookup COUNTRY_LOCATIONS targetCountryIso;
           if list_ex (\<lambda>cityName. cityPatternTest cityName locLower \<or> cityPatternTest cityName fullLocation) cities
           then Some True
           else do {
             countryKeywords \<leftarrow> tableLookup countryNames targetCountryIso;
             Some (list_ex (\<lambda>keyword.
                includesStr locLower ('', '' @ keyword) \<or>
                endsWith locLower ('', '' @ keyword) \<or>
                locLower = keyword \<or> fullLocation = keyword) countryKeywords)
           }
         }
       }
     })"

text \<open>The classifier on strings of ASCII characters.\<close>

definition isLocationInCountry ::
  "string \<Rightarrow> string \<Rightarrow> jsval \<Rightarrow> jsval \<Rightarrow> jsval \<Rightarrow> bool option" where
  "isLocationInCountry targetCountryIso location city state country =
     isLocationInCountryWith toLowerCase trim targetCountryIso location city state country"

text \<open>An optional parameter declared \<^verbatim>\<open>x?: string\<close>: undefined when it is left out.\<close>

definition optStr :: "string option \<Rightarrow> jsval" where
  "optStr x = (case x of None \<Rightarrow> JUndefined | Some s \<Rightarrow> JStr s)"

section \<open>Response normalizer\<close>

record ParsedJob =
  title :: jsval
  company :: string
  location :: string
  city :: jsval
  state :: jsval
  country :: jsval
  description :: jsval
  minSalary :: jsval
  maxSalary :: jsval
  salaryPeriod :: jsval
  jobType :: jsval
  postedDate :: jsval
  externalLink :: jsval
  jobId :: jsval
  source :: string
  isRemote :: jsval
  rawData :: jsval

definition possibleCompanyFields :: "string list" where
  "possibleCompanyFields = [''employer_name'', ''company'', ''employer'', ''job_publisher'',
     ''employer_name_simple'', ''publisher_name'', ''hiring_company'', ''job_company'',
     ''business_name'', ''employer_company'', ''company_name'']"

text \<open>
  The loop over \<open>possibleCompanyFields\<close>: the first field that holds a string with
  something left after trimming, trimmed; the empty string when there is none.
\<close>

fun firstCompanyField :: "jsval \<Rightarrow> string list \<Rightarrow> string" where
  "firstCompanyField jobData [] = []"
| "firstCompanyField jobData (field # rest) =
     (case getProp jobData field of
        JStr s \<Rightarrow> if trim s \<noteq> [] then trim s else firstCompanyField jobData rest
      | _ \<Rightarrow> firstCompanyField jobData rest)"

definition isLineTerminator :: "char \<Rightarrow> bool" where
  "isLineTerminator c = (c = CHR 0x0A \<or> c = CHR 0x0D)"

text \<open>
  \<open>invalidCompanyPatterns.some(pattern => pattern.test(companyName))\<close>. The length that
  the sixth pattern bounds is counted in bytes, and the line terminators that its dot
  excludes are the two of ASCII: this is the pattern on names of ASCII characters.
\<close>

definition matchesInvalidCompanyPattern :: "string \<Rightarrow> bool" where
  "matchesInvalidCompanyPattern companyName =
    (let lower = toLowerCase companyName in
       startsWith lower ''test'' \<or>
       startsWith lower ''example'' \<or>
       lower = ''unknown'' \<or>
       startsWith lower ''bebe'' \<or>
       ((length companyName = 1 \<or> length companyName = 2) \<and> list_all isLower companyName) \<or>
       (50 \<le> length companyName \<and> \<not> list_ex isLineTerminator companyName) \<or>
       (companyName \<noteq> [] \<and> list_all isDigit companyName) \<or>
       startsWith lower ''http'' \<or>
       lower = ''confidential'' \<or>
       lower = ''private'')"

text \<open>
  The two extraction patterns. Both are: a keyword, white space, a letter, then the
  shortest non-empty run of name characters after which the closing part matches. A
  match is looked for at the leftmost position first.
\<close>

definition isNameChar :: "char \<Rightarrow> bool" where
  "isNameChar c = (isUpper c \<or> isLower c \<or> isSpace c \<or> c = CHR ''&'' \<or> c = CHR '','' \<or> c = CHR ''.'')"

fun lazyRun :: "(string \<Rightarrow> bool) \<Rightarrow> string \<Rightarrow> string option" where
  "lazyRun closing [] = None"
| "lazyRun closing (c # cs) =
     (if isNameChar c
      then (if closing cs then Some [c] else map_option ((#) c) (lazyRun closing cs))
      else None)"

fun firstMatch :: "(string \<Rightarrow> string option) \<Rightarrow> string \<Rightarrow> string option" where
  "firstMatch f [] = f []"
| "firstMatch f (c # cs) = (case f (c # cs) of Some g \<Rightarrow> Some g | None \<Rightarrow> firstMatch f cs)"

text \<open>
  The alternatives of a keyword group, tried in order at the start of \<open>s\<close>; \<open>canon\<close> is
  \<open>toLowerCase\<close> under the flag \<^verbatim>\<open>i\<close>. The result is what follows the keyword.
\<close>

fun afterKeyword :: "(string \<Rightarrow> string) \<Rightarrow> string list \<Rightarrow> string \<Rightarrow> string option" where
  "afterKeyword canon [] s = None"
| "afterKeyword canon (k # ks) s =
     (if startsWith (canon s) k then Some (drop (length k) s) else afterKeyword canon ks s)"

text \<open>\<^verbatim>\<open>/(?:at|for|with|@)\s+([A-Z][A-Za-z\s&,\.]+?)(?:\s|$)/i\<close>, group 1, at the start of \<open>s\<close>\<close>

definition titlePatternHere :: "string \<Rightarrow> string option" where
  "titlePatternHere s =
     (case afterKeyword toLowerCase [''at'', ''for'', ''with'', ''@''] s of
        None \<Rightarrow> None
      | Some r \<Rightarrow>
          (case r of
             [] \<Rightarrow> None
           | w # ws \<Rightarrow>
               if isSpace w then
                 (case dropWhile isSpace ws of
                    [] \<Rightarrow> None
                  | l # ls \<Rightarrow>
                      if isUpper l \<or> isLower l
                      then map_option ((#) l)
                             (lazyRun (\<lambda>cs. case cs of [] \<Rightarrow> True | c # cs' \<Rightarrow> isSpace c) ls)
                      else None)
               else None))"

definition titleMatch :: "string \<Rightarrow> string option" where
  "titleMatch s = firstMatch titlePatternHere s"

text \<open>
  \<^verbatim>\<open>/(?:At|About|Join|For|Working at|Company:|Employer:) ([A-Z][A-Za-z\s&,\.]+?)(?:\,|\.|\s(?:is|we|are|has|offers))/\<close>,
  group 1, at the start of \<open>s\<close>
\<close>

definition descClosing :: "string \<Rightarrow> bool" where
  "descClosing cs =
     (case cs of
        [] \<Rightarrow> False
      | c # r \<Rightarrow>
          c = CHR '','' \<or> c = CHR ''.'' \<or>
          (isSpace c \<and> (startsWith r ''is'' \<or> startsWith r ''we'' \<or> startsWith r ''are'' \<or>
                         startsWith r ''has'' \<or> startsWith r ''offers'')))"

definition descPatternHere :: "string \<Rightarrow> string option" where
  "descPatternHere s =
     (case afterKeyword (\<lambda>x. x) [''At'', ''About'', ''Join'', ''For'', ''Working at'', ''Company:'',
                         ''Employer:''] s of
        None \<Rightarrow> None
      | Some r \<Rightarrow>
          (case r of
             w # l # ls \<Rightarrow>
               if w = CHR '' '' \<and> isUpper l then map_option ((#) l) (lazyRun descClosing ls)
               else None
           | _ \<Rightarrow> None))"

definition descMatch :: "string \<Rightarrow> string option" where
  "descMatch s = firstMatch descPatternHere s"

text \<open>\<^verbatim>\<open>s.replace(/^["']|["']$/g, '')\<close>\<close>

definition isQuote :: "char \<Rightarrow> bool" where
  "isQuote c = (c = CHR 0x22 \<or> c = CHR 0x27)"

definition stripQuotes :: "string \<Rightarrow> string" where
  "stripQuotes s =
     (let s1 = (case s of [] \<Rightarrow> [] | c # cs \<Rightarrow> if isQuote c then cs else s)
      in if s1 \<noteq> [] \<and> isQuote (last s1) then butlast s1 else s1)"

text \<open>
  A method call \<^verbatim>\<open>v.match(...)\<close>, \<^verbatim>\<open>v.split(...)\<close> on a value that is not a string
  throws: no JSON value but a string has these methods. \<^verbatim>\<open>v.includes(x)\<close> also
  exists on arrays, where it looks for an element equal to \<open>x\<close>.
\<close>

text \<open>
  A template literal \<^verbatim>\<open>`... ${v} ...`\<close> converts each value to a string before the logger
  is called, whatever the log level: the log lines can throw, and nothing else of them is
  modelled.
\<close>

definition logged :: "jsval list \<Rightarrow> unit option" where
  "logged vs = (if list_all (\<lambda>v. toStr v \<noteq> None) vs then Some () else None)"

definition asString :: "jsval \<Rightarrow> string option" where
  "asString v = (case v of JStr s \<Rightarrow> Some s | _ \<Rightarrow> None)"

definition jsIncludes :: "jsval \<Rightarrow> string \<Rightarrow> bool option" where
  "jsIncludes v x =
     (case v of
        JStr s \<Rightarrow> Some (includesStr s x)
      | JArr xs \<Rightarrow> Some (JStr x \<in> set xs)
      | _ \<Rightarrow> None)"

text \<open>Lines 476 to 500: city, state and country, from their own fields or from \<^verbatim>\<open>job_location\<close>.\<close>

definition extractLocationFields :: "jsval \<Rightarrow> (jsval \<times> jsval \<times> jsval) option" where
  "extractLocationFields jobData =
    (let city' = jsOr (jsOr (getProp jobData ''job_city'') (getProp jobData ''city'')) (JStr []);
         state' = jsOr (jsOr (getProp jobData ''job_state'') (getProp jobData ''state'')) (JStr []);
         country' = jsOr (jsOr (getProp jobData ''job_country'') (getProp jobData ''country'')) (JStr []);
         rawLocation = jsOr (getProp jobData ''job_location'') (JStr [])
     in if truthy rawLocation \<and> \<not> truthy city' \<and> \<not> truthy state' then
          do {
            r \<leftarrow> asString rawLocation;
            let parts = map trim (split (CHR '','') r);
            Some (if 2 \<le> length parts then
                    (jsOr city' (JStr (joinStrings '', '' (take (length parts - 2) parts))),
                     jsOr state' (JStr (parts ! (length parts - 2))),
                     jsOr country' (JStr (parts ! (length parts - 1))))
                  else if length parts = 1 then (jsOr city' (JStr (parts ! 0)), state', country')
                  else (city', state', country'))
          }
        else Some (city', state', country'))"

text \<open>Lines 502 to 507: the display location.\<close>

definition buildLocation :: "jsval \<Rightarrow> jsval \<Rightarrow> jsval \<Rightarrow> string option" where
  "buildLocation city' state' country' =
     (let locationParts = filter truthy [city', state', country']
      in if locationParts \<noteq> [] then joinJs '', '' locationParts else Some ''Remote'')"

text \<open>Lines 512 to 586: the company name.\<close>

definition extractCompanyName :: "jsval \<Rightarrow> string option" where
  "extractCompanyName jobData =
    (let found = firstCompanyField jobData possibleCompanyFields;
         companyName = (if found \<noteq> [] \<and> \<not> matchesInvalidCompanyPattern found then found else [])
     in do {
       fromTitle \<leftarrow>
         (if companyName = [] \<and> truthy (getProp jobData ''job_title'') then
            do {
              t \<leftarrow> asString (getProp jobData ''job_title'');
              Some (case titleMatch t of Some g \<Rightarrow> trim g | None \<Rightarrow> companyName)
            }
          else Some companyName);
       fromDescription \<leftarrow>
         (if companyName = [] \<and> fromTitle = [] \<and> truthy (getProp jobData ''job_description'') then
            do {
              d \<leftarrow> asString (getProp jobData ''job_description'');
              Some (case descMatch d of Some g \<Rightarrow> trim g | None \<Rightarrow> fromTitle)
            }
          else Some fromTitle);
       Some (stripQuotes (trim (if fromDescription = [] then ''Unknown Company'' else fromDescription)))
     })"

text \<open>Line 590: the apply link.\<close>

definition extractApplyLink :: "jsval \<Rightarrow> jsval" where
  "extractApplyLink jobData =
     jsOr (jsOr (jsOr (jsOr (jsOr (getProp jobData ''job_apply_link'') (getProp jobData ''apply_link''))
       (getProp jobData ''job_url'')) (getProp jobData ''google_link'')) (getProp jobData ''link''))
       (JStr [])"

text \<open>
  Lines 592 to 610: the object literal, from the values computed before it;
  \<open>placeholder\<close> is the value of \<^verbatim>\<open>applyLink.includes('example.com')\<close>.
\<close>

definition buildParsedJob ::
  "jsval \<Rightarrow> jsval \<Rightarrow> jsval \<Rightarrow> jsval \<Rightarrow> string \<Rightarrow> string \<Rightarrow> jsval \<Rightarrow> bool \<Rightarrow> ParsedJob" where
  "buildParsedJob jobData city' state' country' location' companyName applyLink placeholder =
     \<lparr> title = jsOr (jsOr (getProp jobData ''job_title'') (getProp jobData ''title'')) (JStr ''Untitled''),
       company = (if companyName \<noteq> [] then companyName else ''Unknown Company''),
       location = location',
       city = city',
       state = state',
       country = country',
       description = jsOr (jsOr (getProp jobData ''job_description'') (getProp jobData ''description'')) (JStr []),
       minSalary = jsOr (jsOr (getProp jobData ''job_min_salary'') (getProp jobData ''min_salary'')) (getProp jobData ''minSalary''),
       maxSalary = jsOr (jsOr (getProp jobData ''job_max_salary'') (getProp jobData ''max_salary'')) (getProp jobData ''maxSalary''),
       salaryPeriod = jsOr (jsOr (getProp jobData ''job_salary_period'') (getProp jobData ''salary_period'')) (JStr ''YEARLY''),
       jobType = jsOr (jsOr (getProp jobData ''job_employment_type'') (getProp jobData ''jobType'')) (JStr ''Full-time''),
       postedDate = jsOr (jsOr (getProp jobData ''job_posted_at_datetime_utc'') (getProp jobData ''job_posted_at_timestamp'')) (getProp jobData ''posted_date''),
       externalLink = applyLink,
       jobId = jsOr (getProp jobData ''job_id'') (getProp jobData ''id''),
       source = (if truthy applyLink \<and> \<not> placeholder then ''JSearch API'' else ''Fallback Data''),
       isRemote = jsOr (jsOr (getProp jobData ''job_is_remote'') (getProp jobData ''is_remote''))
                    (JBool (includesStr (toLowerCase location') ''remote'')),
       rawData = jobData \<rparr>"

definition parseJobDataBody :: "jsval \<Rightarrow> ParsedJob option" where
  "parseJobDataBody jobData =
    do {
      _ \<leftarrow> logged [getProp jobData ''job_city'', getProp jobData ''job_state'',
                  getProp jobData ''job_country'', getProp jobData ''job_location''];
      (city', state', country') \<leftarrow> extractLocationFields jobData;
      location' \<leftarrow> buildLocation city' state' country';
      _ \<leftarrow> logged [city', state', country'];
      companyName \<leftarrow> extractCompanyName jobData;
      let applyLink = extractApplyLink jobData;
      placeholder \<leftarrow> (if truthy applyLink then jsIncludes applyLink ''example.com'' else Some False);
      let parsed = buildParsedJob jobData city' state' country' location' companyName applyLink placeholder;
      _ \<leftarrow> logged (if source parsed = ''JSearch API'' then [title parsed]
                   else [title parsed, externalLink parsed]);
      Some parsed
    }"

text \<open>
  \<^verbatim>\<open>parseJobData\<close>: null for a falsy input, and null when anything in the body throws
  (the \<^verbatim>\<open>catch\<close> of line 620).
\<close>

definition parseJobData :: "jsval \<Rightarrow> ParsedJob option" where
  "parseJobData jobData = (if \<not> truthy jobData then None else parseJobDataBody jobData)"

text \<open>
  Payloads whose text fields are typed as the API documents them: each of the fields the
  normalizer reads as text is absent, null or a string.
\<close>

definition isText :: "jsval \<Rightarrow> bool" where
  "isText v = (case v of JUndefined \<Rightarrow> True | JNull \<Rightarrow> True | JStr s \<Rightarrow> True | _ \<Rightarrow> False)"

definition isStr :: "jsval \<Rightarrow> bool" where
  "isStr v = (case v of JStr s \<Rightarrow> True | _ \<Rightarrow> False)"

definition isArray :: "jsval \<Rightarrow> bool" where
  "isArray v = (case v of JArr xs \<Rightarrow> True | _ \<Rightarrow> False)"

definition textFields :: "string list" where
  "textFields = [''job_city'', ''city'', ''job_state'', ''state'', ''job_country'', ''country'',
     ''job_location'', ''job_title'', ''title'', ''job_description'',
     ''job_apply_link'', ''apply_link'', ''job_url'', ''google_link'', ''link'']"

definition textFieldsOk :: "jsval \<Rightarrow> bool" where
  "textFieldsOk jobData = list_all (\<lambda>f. isText (getProp jobData f)) textFields"

section \<open>Paginated fetcher\<close>

text \<open>
  \<^verbatim>\<open>JobSearchParams\<close>. The fields \<^verbatim>\<open>location\<close> and \<^verbatim>\<open>country\<close> carry a suffix, since
  \<open>ParsedJob\<close> has fields of these names. An optional field that is left out is \<open>None\<close>.
  The country is the value the caller passes: \<^verbatim>\<open>runCrawlers\<close> takes it from a table lookup
  that can yield something else than a string.
\<close>

record JobSearchParams =
  query :: string
  location_param :: "string option"
  country_param :: jsval
  numPages :: "int option"
  pageSize :: "int option"
  page :: "int option"

text \<open>The configuration the constructor reads from the environment.\<close>

record JSearchService =
  apiKey :: string
  requestDelay :: nat
  maxRetries :: nat

text \<open>
  One HTTP request to the endpoint \<^verbatim>\<open>search\<close>, by its query parameters, and what comes
  back. The body is modelled as far as \<^verbatim>\<open>searchJobs\<close> reads it: its property \<^verbatim>\<open>data\<close> is
  missing (or a value that holds no jobs), an array of raw jobs, or an object, given by the
  value of its property \<^verbatim>\<open>jobs\<close>. The raw jobs themselves are arbitrary JSON.
\<close>

datatype request =
  Request (req_query: string) (req_country: jsval) (req_page: int)
          (req_num_pages: int) (req_page_size: int)

datatype apiData = NoData | DataArray "jsval list" | DataObject jsval

datatype httpResult =
    FetchFailed
  | StatusNotOk
  | ErrorInBody
  | Ok apiData

text \<open>
  What the service cannot decide itself: the answer to the \<open>i\<close>-th HTTP request, the
  numbers \<^verbatim>\<open>Math.random()\<close> draws, the clock, and the runtime's date formatting.
  \<^verbatim>\<open>Math.floor(Math.random() * n)\<close> is a number from \<open>0\<close> to \<open>n - 1\<close>: the \<open>k\<close>-th draw
  of the stream, reduced modulo \<open>n\<close>. The clock does not advance during a call.
\<close>

record runtime =
  fetch :: "nat \<Rightarrow> request \<Rightarrow> httpResult"
  mathRandom :: "nat \<Rightarrow> nat"
  dateNow :: int
  toISOString :: "int \<Rightarrow> string"

text \<open>What a call changes outside itself: the requests it sent, in order, and how many
  random numbers it drew.\<close>

record world =
  requests :: "request list"
  draws :: nat

definition randomBelow :: "runtime \<Rightarrow> nat \<Rightarrow> nat \<Rightarrow> nat" where
  "randomBelow rt n k = mathRandom rt k mod n"

definition fallbackCompanies :: "string list" where
  "fallbackCompanies = [''Google'', ''Microsoft'', ''Apple'', ''Amazon'', ''Facebook'', ''Netflix'',
     ''Uber'', ''Airbnb'', ''Tesla'', ''SpaceX'', ''Meta'', ''LinkedIn'',
     ''Adobe'', ''Salesforce'', ''Cisco'', ''Intel'', ''Oracle'', ''IBM'',
     ''GitHub'', ''Stripe'', ''Figma'', ''Slack'', ''Zoom'', ''Notion'']"

definition fallbackLocations :: "string list" where
  "fallbackLocations = [''San Francisco, CA'', ''New York, NY'', ''Austin, TX'', ''Seattle, WA'', ''Remote'']"

definition fallbackJobTypes :: "string list" where
  "fallbackJobTypes = [''Full-time'', ''Contract'', ''Part-time'']"

text \<open>
  The body of the loop of \<^verbatim>\<open>generateFallbackJobs\<close> for index \<open>i\<close>; it draws seven random
  numbers, the first of them being draw number \<open>k\<close>.
\<close>

definition fallbackJob :: "runtime \<Rightarrow> JobSearchParams \<Rightarrow> nat \<Rightarrow> nat \<Rightarrow> ParsedJob" where
  "fallbackJob rt params k i =
    (let company' = fallbackCompanies ! randomBelow rt (length fallbackCompanies) k;
         location' = fallbackLocations ! randomBelow rt (length fallbackLocations) (k + 1)
     in \<lparr> title = JStr (query params @ '' - Level '' @ showNat (randomBelow rt 3 (k + 2) + 1)),
          company = company',
          location = location',
          city = JUndefined,
          state = JUndefined,
          country = JUndefined,
          description = JStr (query params @ '' position at '' @ company' @
                              ''. We are looking for experienced professionals...''),
          minSalary = JNum (80000 + int (randomBelow rt 100000 (k + 3))),
          maxSalary = JNum (150000 + int (randomBelow rt 100000 (k + 4))),
          salaryPeriod = JStr ''YEARLY'',
          jobType = JStr (fallbackJobTypes ! randomBelow rt (length fallbackJobTypes) (k + 5)),
          postedDate = JStr (toISOString rt
                         (dateNow rt - int (randomBelow rt (30 * 24 * 60 * 60 * 1000) (k + 6)))),
          externalLink = JStr (''https://example.com/jobs/'' @ showNat i),
          jobId = JStr (''job_'' @ showInt (dateNow rt) @ ''_'' @ showNat i),
          source = ''Fallback Data'',
          isRemote = JUndefined,
          rawData = JUndefined \<rparr>)"

definition generateFallbackJobs ::
  "runtime \<Rightarrow> JobSearchParams \<Rightarrow> world \<Rightarrow> ParsedJob list \<times> world" where
  "generateFallbackJobs rt params w =
    (let count = randomBelow rt 30 (draws w) + 20
     in (map (\<lambda>i. fallbackJob rt params (draws w + 1 + 7 * i) i) [0..<count],
         w\<lparr>draws := draws w + 1 + 7 * count\<rparr>))"

text \<open>
  \<^verbatim>\<open>makeRequestWithRetry\<close>: one request per attempt; a failed attempt is repeated while
  \<^verbatim>\<open>retryCount < maxRetries\<close>, and then the error is thrown (\<open>None\<close>). The delays are not
  modelled.
\<close>

function makeRequestWithRetry ::
  "runtime \<Rightarrow> JSearchService \<Rightarrow> request \<Rightarrow> nat \<Rightarrow> world \<Rightarrow> apiData option \<times> world" where
  "makeRequestWithRetry rt svc req retryCount w =
    (let w' = w\<lparr>requests := requests w @ [req]\<rparr>
     in case fetch rt (length (requests w)) req of
          Ok d \<Rightarrow> (Some d, w')
        | _ \<Rightarrow>
            if retryCount < maxRetries svc
            then makeRequestWithRetry rt svc req (retryCount + 1) w'
            else (None, w'))"
  by pat_completeness auto
termination
  by (relation "measure (\<lambda>(rt, svc, req, retryCount, w). maxRetries svc - retryCount)") auto

declare makeRequestWithRetry.simps [simp del]

text \<open>
  \<^verbatim>\<open>params.country || 'in'\<close>, \<^verbatim>\<open>params.numPages || 5\<close>, \<^verbatim>\<open>params.pageSize || 50\<close>. The
  loop that reads the country is reached only when the country is a string or absent.
\<close>

definition targetCountry :: "JobSearchParams \<Rightarrow> string" where
  "targetCountry params =
     (case country_param params of JStr c \<Rightarrow> if c = [] then ''in'' else c | _ \<Rightarrow> ''in'')"

definition numPagesOf :: "JobSearchParams \<Rightarrow> int" where
  "numPagesOf params = (case numPages params of None \<Rightarrow> 5 | Some n \<Rightarrow> if n = 0 then 5 else n)"

definition pageSizeOf :: "JobSearchParams \<Rightarrow> int" where
  "pageSizeOf params = (case pageSize params of None \<Rightarrow> 50 | Some n \<Rightarrow> if n = 0 then 50 else n)"

text \<open>Lines 267 to 273: the request for one page.\<close>

definition pageRequest :: "JobSearchParams \<Rightarrow> int \<Rightarrow> request" where
  "pageRequest params pageNo =
     Request (query params) (country_param params) pageNo 1 (pageSizeOf params)"

text \<open>
  Line 281: the jobs of a response, \<open>None\<close> when \<^verbatim>\<open>response.data\<close> is falsy. Then
  \<^verbatim>\<open>apiJobs.length\<close> and \<^verbatim>\<open>for (const job of apiJobs)\<close>, for whatever value
  \<^verbatim>\<open>data.jobs\<close> was: only arrays and strings can be iterated.
\<close>

definition responseJobs :: "apiData \<Rightarrow> jsval option" where
  "responseJobs d =
     (case d of
        NoData \<Rightarrow> None
      | DataArray xs \<Rightarrow> Some (JArr xs)
      | DataObject v \<Rightarrow> Some (jsOr v (JArr [])))"

definition jsLength :: "jsval \<Rightarrow> jsval" where
  "jsLength v =
     (case v of
        JArr xs \<Rightarrow> JNum (int (length xs))
      | JStr s \<Rightarrow> JNum (int (length s))
      | JObj kvs \<Rightarrow> getProp v ''length''
      | _ \<Rightarrow> JUndefined)"

definition iterate :: "jsval \<Rightarrow> jsval list option" where
  "iterate v =
     (case v of
        JArr xs \<Rightarrow> Some xs
      | JStr s \<Rightarrow> Some (map (\<lambda>c. JStr [c]) s)
      | _ \<Rightarrow> None)"

text \<open>
  Lines 290 to 305: the jobs of one page, each normalized and classified; the accepted
  ones are appended to \<open>jobs\<close>. The first component says whether an exception left the
  loop; the jobs pushed before it stay pushed.
\<close>

fun processJobs :: "string \<Rightarrow> jsval list \<Rightarrow> ParsedJob list \<Rightarrow> bool \<times> ParsedJob list" where
  "processJobs target [] jobs = (False, jobs)"
| "processJobs target (job # rest) jobs =
     (case parseJobData job of
        None \<Rightarrow> processJobs target rest jobs
      | Some parsed \<Rightarrow>
          (case do {
                  _ \<leftarrow> logged [title parsed, city parsed, state parsed, country parsed];
                  isLocationInCountry target (location parsed) (city parsed) (state parsed)
                    (country parsed)
                } of
             None \<Rightarrow> (True, jobs)
           | Some True \<Rightarrow> processJobs target rest (jobs @ [parsed])
           | Some False \<Rightarrow> processJobs target rest jobs))"

datatype pageOutcome = PageError | PageBreak | PageNext

text \<open>
  Lines 280 to 314: what the loop body does with a response, given the jobs accepted so
  far.
\<close>

definition processResponse ::
  "JobSearchParams \<Rightarrow> apiData \<Rightarrow> ParsedJob list \<Rightarrow> pageOutcome \<times> ParsedJob list" where
  "processResponse params d jobs =
    (case responseJobs d of
       None \<Rightarrow> (PageBreak, jobs)
     | Some apiJobs \<Rightarrow>
         (case logged [jsLength apiJobs] of
            None \<Rightarrow> (PageError, jobs)
          | Some u \<Rightarrow>
              if jsLength apiJobs = JNum 0 then (PageBreak, jobs)
              else
                (case iterate apiJobs of
                   None \<Rightarrow> (PageError, jobs)
                 | Some items \<Rightarrow>
                     (case processJobs (targetCountry params) items jobs of
                        (True, jobs') \<Rightarrow> (PageError, jobs')
                      | (False, jobs') \<Rightarrow> (PageNext, jobs')))))"

text \<open>The body of the loop over the pages, lines 260 to 324.\<close>

definition fetchPage ::
  "runtime \<Rightarrow> JSearchService \<Rightarrow> JobSearchParams \<Rightarrow> int \<Rightarrow> world \<times> ParsedJob list
     \<Rightarrow> pageOutcome \<times> world \<times> ParsedJob list" where
  "fetchPage rt svc params pageNo st =
    (case st of (w, jobs) \<Rightarrow>
      (case makeRequestWithRetry rt svc (pageRequest params pageNo) 0 w of
         (None, w') \<Rightarrow> (PageError, w', jobs)
       | (Some d, w') \<Rightarrow>
           (case processResponse params d jobs of (out, jobs') \<Rightarrow> (out, w', jobs'))))"

text \<open>Lines 327 to 334: what \<^verbatim>\<open>searchJobs\<close> returns once the loop is left.\<close>

definition finish ::
  "runtime \<Rightarrow> JobSearchParams \<Rightarrow> world \<times> ParsedJob list \<Rightarrow> ParsedJob list \<times> world" where
  "finish rt params st =
     (case st of (w, jobs) \<Rightarrow> if jobs = [] then generateFallbackJobs rt params w else (jobs, w))"

text \<open>
  The loop \<^verbatim>\<open>for (let page = 1; page <= numPages; page++)\<close> over the pages still to
  fetch, and what \<^verbatim>\<open>searchJobs\<close> returns after it.
\<close>

fun runPages ::
  "runtime \<Rightarrow> JSearchService \<Rightarrow> JobSearchParams \<Rightarrow> int list \<Rightarrow> world \<times> ParsedJob list
     \<Rightarrow> ParsedJob list \<times> world" where
  "runPages rt svc params [] st = finish rt params st"
| "runPages rt svc params (pageNo # rest) st =
     (case fetchPage rt svc params pageNo st of
        (PageError, w', jobs') \<Rightarrow>
          if pageNo = 1 then generateFallbackJobs rt params w' else finish rt params (w', jobs')
      | (PageBreak, w', jobs') \<Rightarrow> finish rt params (w', jobs')
      | (PageNext, w', jobs') \<Rightarrow> runPages rt svc params rest (w', jobs'))"

text \<open>
  \<^verbatim>\<open>searchJobs\<close>. Without an API key it returns fallback jobs at once. Line 257 evaluates
  \<^verbatim>\<open>params.country?.toUpperCase()\<close>, which throws for a country that is neither undefined,
  null nor a string: the \<^verbatim>\<open>catch\<close> of line 335 then returns fallback jobs. Nothing else
  outside the loop can throw.
\<close>

definition searchJobs ::
  "runtime \<Rightarrow> JSearchService \<Rightarrow> JobSearchParams \<Rightarrow> world \<Rightarrow> ParsedJob list \<times> world" where
  "searchJobs rt svc params w =
     (if apiKey svc = [] then generateFallbackJobs rt params w
      else if \<not> isText (country_param params) then generateFallbackJobs rt params w
      else runPages rt svc params [1..numPagesOf params] (w, []))"

text \<open>\<^verbatim>\<open>filterJobsByCountry\<close>; \<open>None\<close> when the classifier throws on one of the jobs.\<close>

fun filterJobsByCountry :: "ParsedJob list \<Rightarrow> string \<Rightarrow> ParsedJob list option" where
  "filterJobsByCountry [] targetCountryIso = Some []"
| "filterJobsByCountry (job # rest) targetCountryIso =
     do {
       keep \<leftarrow> isLocationInCountry targetCountryIso (location job) (city job) (state job) (country job);
       kept \<leftarrow> filterJobsByCountry rest targetCountryIso;
       Some (if keep then job # kept else kept)
     }"

text \<open>
  Notions the properties of the fetcher are stated with: an answer that carries a body;
  all attempts of a request, from the state \<open>w\<close> on, failing; an answer whose list of jobs
  is empty; and a list of requests in which only the last one got such an answer.
\<close>

definition isOk :: "httpResult \<Rightarrow> bool" where
  "isOk r = (case r of Ok d \<Rightarrow> True | _ \<Rightarrow> False)"

definition allAttemptsFail :: "runtime \<Rightarrow> JSearchService \<Rightarrow> request \<Rightarrow> world \<Rightarrow> bool" where
  "allAttemptsFail rt svc req w =
     list_all (\<lambda>i. \<not> isOk (fetch rt (length (requests w) + i) req)) [0..<Suc (maxRetries svc)]"




text \<open>
  A sample environment for concrete runs: a mock API that answers every attempt for page
  \<open>n\<close> with the \<open>n\<close>-th entry of a list (a page of raw jobs, or \<open>None\<close> for a failure)
  and with an empty array beyond the list; a random source that always draws \<open>0\<close>; and
  the clock at 2026-01-01T00:00:00.000Z.
\<close>

definition mockApi :: "jsval list option list \<Rightarrow> nat \<Rightarrow> request \<Rightarrow> httpResult" where
  "mockApi pages i req =
     (let n = nat (req_page req)
      in if 1 \<le> n \<and> n \<le> length pages
         then (case pages ! (n - 1) of None \<Rightarrow> FetchFailed | Some jobs \<Rightarrow> Ok (DataArray jobs))
         else Ok (DataArray []))"

definition sampleRuntime :: "(nat \<Rightarrow> request \<Rightarrow> httpResult) \<Rightarrow> runtime" where
  "sampleRuntime f =
     \<lparr> fetch = f, mathRandom = (\<lambda>k. 0), dateNow = 1767225600000,
       toISOString = (\<lambda>t. ''2026-01-01T00:00:00.000Z'') \<rparr>"

definition sampleService :: JSearchService where
  "sampleService = \<lparr> apiKey = ''test-key'', requestDelay = 1000, maxRetries = 3 \<rparr>"

definition sampleParams :: "int \<Rightarrow> JobSearchParams" where
  "sampleParams n =
     \<lparr> query = ''engineer'', location_param = Some ''India'', country_param = JStr ''in'',
       numPages = Some n, pageSize = Some 50, page = None \<rparr>"

definition emptyWorld :: world where
  "emptyWorld = \<lparr> requests = [], draws = 0 \<rparr>"

definition puneJob :: jsval where
  "puneJob = JObj [(''job_title'', JStr ''Data Engineer''), (''employer_name'', JStr ''Initech''),
                   (''job_city'', JStr ''Pune''), (''job_country'', JStr ''IN'')]"

definition berlinJob :: jsval where
  "berlinJob = JObj [(''job_title'', JStr ''Data Engineer''), (''employer_name'', JStr ''Initech''),
                     (''job_city'', JStr ''Berlin''), (''job_country'', JStr ''Germany'')]"

section \<open>Persistence of the accepted jobs\<close>

text \<open>
  The object \<^verbatim>\<open>runCrawlers\<close> builds for each job before saving it (lines 495 to 513).
  Fields that \<open>ParsedJob\<close> also has carry the suffix \<open>_d\<close>; the three fields of
  \<^verbatim>\<open>meta\<close> are fields of their own.
\<close>

record JobData =
  title_d :: jsval
  company_d :: string
  location_d :: string
  description_d :: jsval
  requirements :: "jsval list"
  responsibilities :: "jsval list"
  applyUrl :: jsval
  salary :: string
  ctc :: jsval
  jobType_d :: jsval
  postedAt :: jsval
  source_d :: string
  meta_jobId :: jsval
  meta_externalLink :: jsval
  meta_rawData :: jsval

text \<open>
  Modelled from the spec: the persistence collaborator for companies and jobs (the models
  \<^verbatim>\<open>Company\<close> and \<^verbatim>\<open>Job\<close> are imported from files that are not among the sources).
  Spec section 6 gives its contract: \<^verbatim>\<open>findCompany(name) -> Company?\<close>,
  \<^verbatim>\<open>createCompany(name, metadata) -> Company\<close>, \<^verbatim>\<open>findJob(identityTuple) -> Job?\<close>,
  \<^verbatim>\<open>upsertJob(...)\<close>; section 3 says a company is resolved by exact name and owns a stable
  identifier. The store is a list of company documents and a list of job documents; the
  identifier of a document is its position in its list, and a search returns the first
  match. The operations of this contract never throw, so the \<^verbatim>\<open>catch\<close> of line 683,
  which logs and skips a job whose persistence threw, is entered only from the log line
  of line 680.
\<close>

record CompanyDoc =
  company_name :: string
  metadata_source :: string
  metadata_createdVia :: string

record JobDoc =
  job_fields :: JobData
  companyId :: nat
  company_stored :: string
  sessionId_stored :: string
  bucket_stored :: string
  source_stored :: string
  status_stored :: string
  createdAt :: "int option"
  updatedAt :: int

record store =
  companyDocs :: "CompanyDoc list"
  jobDocs :: "JobDoc list"

fun findIndex :: "('a \<Rightarrow> bool) \<Rightarrow> 'a list \<Rightarrow> nat option" where
  "findIndex P [] = None"
| "findIndex P (x # xs) = (if P x then Some 0 else map_option Suc (findIndex P xs))"

definition findCompany :: "store \<Rightarrow> string \<Rightarrow> nat option" where
  "findCompany db name' = findIndex (\<lambda>c. company_name c = name') (companyDocs db)"

definition createCompany :: "store \<Rightarrow> string \<Rightarrow> nat \<times> store" where
  "createCompany db name' =
     (length (companyDocs db),
      db\<lparr>companyDocs := companyDocs db @
            [\<lparr>company_name = name', metadata_source = ''JSearch API'',
              metadata_createdVia = ''scraping''\<rparr>]\<rparr>)"

text \<open>The identity of a job: title, company identifier, location.\<close>

definition hasIdentity :: "jsval \<times> nat \<times> string \<Rightarrow> JobDoc \<Rightarrow> bool" where
  "hasIdentity ident doc =
     (case ident of (t, cid, l) \<Rightarrow>
        title_d (job_fields doc) = t \<and> companyId doc = cid \<and> location_d (job_fields doc) = l)"

definition findJob :: "store \<Rightarrow> jsval \<times> nat \<times> string \<Rightarrow> nat option" where
  "findJob db ident = findIndex (hasIdentity ident) (jobDocs db)"

text \<open>Lines 633 to 640: find or create the company.\<close>

definition resolveCompany :: "store \<Rightarrow> string \<Rightarrow> nat \<times> store" where
  "resolveCompany db name' =
     (case findCompany db name' of Some i \<Rightarrow> (i, db) | None \<Rightarrow> createCompany db name')"

text \<open>
  Lines 654 to 665, \<^verbatim>\<open>Job.findByIdAndUpdate\<close> with the fields of the job, the company, the
  session, the bucket and the time; and lines 669 to 679, \<^verbatim>\<open>Job.create\<close>.
\<close>

definition updatedDoc ::
  "JobData \<Rightarrow> nat \<Rightarrow> string \<Rightarrow> string \<Rightarrow> string \<Rightarrow> int \<Rightarrow> JobDoc \<Rightarrow> JobDoc" where
  "updatedDoc jobData cid cname bucket' sessionId' now doc =
     doc\<lparr>job_fields := jobData, companyId := cid, company_stored := cname,
         sessionId_stored := sessionId', bucket_stored := bucket',
         source_stored := source_d jobData, updatedAt := now\<rparr>"

definition createdDoc ::
  "JobData \<Rightarrow> nat \<Rightarrow> string \<Rightarrow> string \<Rightarrow> string \<Rightarrow> int \<Rightarrow> JobDoc" where
  "createdDoc jobData cid cname bucket' sessionId' now =
     \<lparr>job_fields = jobData, companyId = cid, company_stored = cname,
      sessionId_stored = sessionId', bucket_stored = bucket',
      source_stored = (if source_d jobData \<noteq> [] then source_d jobData else ''JSearch API''),
      status_stored = ''published'', createdAt = Some now, updatedAt = now\<rparr>"

text \<open>
  \<^verbatim>\<open>saveJobsToDatabase\<close>: the loop over the jobs, with the two counters and the store.
  Line 680 prints the title of the job just created, before the counter is incremented.
  When that conversion throws, the \<^verbatim>\<open>catch\<close> of line 683 prints the same title, throws
  again, and the exception leaves the function: the counters are \<open>None\<close>. The company name
  printed by lines 639 and 680 is a string.
\<close>

fun saveJobsLoop ::
  "JobData list \<Rightarrow> string \<Rightarrow> string \<Rightarrow> int \<Rightarrow> nat \<times> nat \<Rightarrow> store \<Rightarrow>
     (nat \<times> nat) option \<times> store" where
  "saveJobsLoop [] bucket' sessionId' now counts db = (Some counts, db)"
| "saveJobsLoop (jobData # others) bucket' sessionId' now counts db =
     (case counts of (newCount, updatedCount) \<Rightarrow>
       (case resolveCompany db (company_d jobData) of (cid, db1) \<Rightarrow>
         (case findJob db1 (title_d jobData, cid, location_d jobData) of
            Some existingJob \<Rightarrow>
              saveJobsLoop others bucket' sessionId' now (newCount, updatedCount + 1)
                (db1\<lparr>jobDocs := (jobDocs db1)
                       [existingJob := updatedDoc jobData cid
                                         (company_name (companyDocs db1 ! cid)) bucket' sessionId'
                                         now (jobDocs db1 ! existingJob)]\<rparr>)
          | None \<Rightarrow>
              (let db2 = db1\<lparr>jobDocs := jobDocs db1 @
                            [createdDoc jobData cid (company_name (companyDocs db1 ! cid)) bucket'
                               sessionId' now]\<rparr>
               in case logged [title_d jobData] of
                    None \<Rightarrow> (None, db2)
                  | Some u \<Rightarrow>
                      saveJobsLoop others bucket' sessionId' now (newCount + 1, updatedCount) db2))))"

definition saveJobsToDatabase ::
  "JobData list \<Rightarrow> string \<Rightarrow> string \<Rightarrow> int \<Rightarrow> store \<Rightarrow> (nat \<times> nat) option \<times> store" where
  "saveJobsToDatabase jobDatas bucket' sessionId' now db =
     saveJobsLoop jobDatas bucket' sessionId' now (0, 0) db"

section \<open>Ingestion orchestrator\<close>

text \<open>
  The body of the request of \<^verbatim>\<open>runCrawlers\<close> after the destructuring of line 357, where a
  field that is left out has taken its default, and the user of the request. The fields
  have the types the session schema declares for them.
\<close>

record crawlRequest =
  buckets :: "string list"
  filterIndianJobs_body :: bool
  country_body :: string
  location_body :: string
  userId :: "string option"
  userEmail :: "string option"

text \<open>The schema of \<^verbatim>\<open>ScrapeSession\<close>.\<close>

datatype sessionStatus = InProgress | Completed | Failed | Partial

record ScrapeSession =
  sessionId :: string
  bucketsRequested :: "string list"
  bucketsCompleted :: "string list"
  bucketsFailed :: "string list"
  status :: sessionStatus
  totalApiCalls :: nat
  totalJobsFound :: nat
  countryJobsFound :: nat
  countryJobsAdded :: nat
  newJobsAdded :: nat
  jobsUpdated :: nat
  startedAt :: int
  completedAt :: "int option"
  durationMs :: "int option"
  triggeredBy :: string
  triggeredByUserId :: string
  filterIndianJobs :: bool
  country_code :: jsval
  originalCountry :: string
  location_s :: string
  errorMessage :: "string option"

text \<open>
  The table of lines 366 to 377 and the lookup \<^verbatim>\<open>countryMap[country] || 'us'\<close> of line 380.
  The table is an object literal: for a name it inherits from \<^verbatim>\<open>Object.prototype\<close> the lookup
  yields the inherited value, a function or, for \<^verbatim>\<open>__proto__\<close>, the prototype object itself.
\<close>

definition countryMap :: "(string \<times> string) list" where
  "countryMap = [(''United States'', ''us''), (''Spain'', ''es''), (''United Kingdom'', ''uk''),
     (''Canada'', ''ca''), (''Australia'', ''au''), (''Germany'', ''de''), (''France'', ''fr''),
     (''Netherlands'', ''nl''), (''India'', ''in''), (''Singapore'', ''sg'')]"

definition mapCountry :: "string \<Rightarrow> jsval" where
  "mapCountry c =
     (case map_of countryMap c of
        Some code \<Rightarrow> JStr code
      | None \<Rightarrow> if c = ''__proto__'' then JObj []
                else if c \<in> set objectPrototypeKeys then JFunc c
                else JStr ''us'')"

text \<open>
  The search service that \<^verbatim>\<open>runCrawlers\<close> calls once for each bucket. It is a parameter of
  the orchestrator: \<open>None\<close> is a call that throws. The service of the module,
  \<^verbatim>\<open>jsearchService\<close>, never throws.
\<close>

type_synonym searchService = "JobSearchParams \<Rightarrow> world \<Rightarrow> ParsedJob list option \<times> world"

definition jsearchService :: "runtime \<Rightarrow> JSearchService \<Rightarrow> searchService" where
  "jsearchService rt svc params w =
     (case searchJobs rt svc params w of (found, w') \<Rightarrow> (Some found, w'))"

text \<open>The argument of the call of lines 469 to 475.\<close>

definition bucketParams :: "crawlRequest \<Rightarrow> jsval \<Rightarrow> string \<Rightarrow> JobSearchParams" where
  "bucketParams body mappedCountry bucket =
     \<lparr> query = bucket,
       location_param = Some (if filterIndianJobs_body body then location_body body
                              else ''United States''),
       country_param = (if filterIndianJobs_body body then mappedCountry else JStr ''us''),
       numPages = Some 10, pageSize = Some 50, page = None \<rparr>"

text \<open>
  The call \<^verbatim>\<open>filterJobsByCountry(jobs, mappedCountry)\<close> of line 489. With a mapped country
  that is not a string, line 635 calls \<^verbatim>\<open>toUpperCase\<close> on it and throws.
\<close>

definition filterByMapped :: "ParsedJob list \<Rightarrow> jsval \<Rightarrow> ParsedJob list option" where
  "filterByMapped found mappedCountry =
     (case mappedCountry of JStr c \<Rightarrow> filterJobsByCountry found c | _ \<Rightarrow> None)"

text \<open>
  Lines 495 to 513: the object saved for a job. The template literal of the salary
  converts three values to strings and can throw.
\<close>

definition transformJob :: "runtime \<Rightarrow> ParsedJob \<Rightarrow> JobData option" where
  "transformJob rt job =
     do {
       salary' \<leftarrow>
         (if truthy (maxSalary job) then
            do {
              lo \<leftarrow> toStr (jsOr (minSalary job) (JStr []));
              hi \<leftarrow> toStr (maxSalary job);
              period \<leftarrow> toStr (jsOr (salaryPeriod job) (JStr ''YEARLY''));
              Some (lo @ ''-'' @ hi @ '' '' @ period)
            }
          else Some []);
       Some \<lparr> title_d = jsOr (title job) (JStr ''Untitled''),
              company_d = (if company job \<noteq> [] then company job else ''Unknown Company''),
              location_d = (if location job \<noteq> [] then location job else ''Remote''),
              description_d = jsOr (description job) (JStr []),
              requirements = [],
              responsibilities = [],
              applyUrl = jsOr (jsOr (externalLink job) JUndefined) (JStr []),
              salary = salary',
              ctc = maxSalary job,
              jobType_d = jsOr (jobType job) (JStr ''Full-time''),
              postedAt = jsOr (postedDate job) (JStr (toISOString rt (dateNow rt))),
              source_d = (if source job \<noteq> [] then source job else ''JSearch API''),
              meta_jobId = jobId job,
              meta_externalLink = externalLink job,
              meta_rawData = rawData job \<rparr>
     }"

fun transformJobs :: "runtime \<Rightarrow> ParsedJob list \<Rightarrow> JobData list option" where
  "transformJobs rt [] = Some []"
| "transformJobs rt (job # rest) =
     do {
       transformed \<leftarrow> transformJob rt job;
       others \<leftarrow> transformJobs rt rest;
       Some (transformed # others)
     }"

text \<open>The values that the log line of line 515 converts to strings.\<close>

definition sampleFields :: "JobData list \<Rightarrow> jsval list" where
  "sampleFields transformedJobs =
     (case transformedJobs of [] \<Rightarrow> [] | first # others \<Rightarrow> [title_d first, applyUrl first])"

text \<open>The local variables of the background task (lines 444 to 451).\<close>

record tally =
  totalApiCalls_n :: nat
  totalJobsFound_n :: nat
  countryJobsFound_n :: nat
  countryJobsAdded_n :: nat
  newJobsAdded_n :: nat
  jobsUpdated_n :: nat
  bucketsCompleted_n :: "string list"
  bucketsFailed_n :: "string list"

definition emptyTally :: tally where
  "emptyTally = \<lparr> totalApiCalls_n = 0, totalJobsFound_n = 0, countryJobsFound_n = 0,
     countryJobsAdded_n = 0, newJobsAdded_n = 0, jobsUpdated_n = 0,
     bucketsCompleted_n = [], bucketsFailed_n = [] \<rparr>"

text \<open>
  The \<^verbatim>\<open>try\<close> block of one bucket, lines 463 to 525, without the final
  \<^verbatim>\<open>bucketsCompleted.push\<close>. The result is \<open>False\<close> when the block throws and \<open>True\<close> when it
  reaches its end or the \<^verbatim>\<open>continue\<close> of line 480; the counters keep what was added before a
  throw. Jobs are stamped with the clock of the runtime.
\<close>

definition bucketBody ::
  "runtime \<Rightarrow> searchService \<Rightarrow> crawlRequest \<Rightarrow> jsval \<Rightarrow> string \<Rightarrow> string \<Rightarrow>
     tally \<times> store \<times> world \<Rightarrow> bool \<times> tally \<times> store \<times> world" where
  "bucketBody rt search body mappedCountry sessionId' bucket st =
     (case st of (t, db, w) \<Rightarrow>
       (let t1 = t\<lparr>totalApiCalls_n := totalApiCalls_n t + 1\<rparr> in
        case search (bucketParams body mappedCountry bucket) w of
          (None, w1) \<Rightarrow> (False, t1, db, w1)
        | (Some found, w1) \<Rightarrow>
            if found = [] then (True, t1, db, w1)
            else
              (let t2 = t1\<lparr>totalJobsFound_n := totalJobsFound_n t1 + length found\<rparr> in
               case (if filterIndianJobs_body body then filterByMapped found mappedCountry
                     else Some found) of
                 None \<Rightarrow> (False, t2, db, w1)
               | Some filteredJobs \<Rightarrow>
                   (let t3 = (if filterIndianJobs_body body
                              then t2\<lparr>countryJobsFound_n :=
                                        countryJobsFound_n t2 + length filteredJobs\<rparr>
                              else t2) in
                    case transformJobs rt filteredJobs of
                      None \<Rightarrow> (False, t3, db, w1)
                    | Some transformedJobs \<Rightarrow>
                        (case logged (sampleFields transformedJobs) of
                           None \<Rightarrow> (False, t3, db, w1)
                         | Some u \<Rightarrow>
                             (case saveJobsToDatabase transformedJobs bucket sessionId'
                                     (dateNow rt) db of
                                (None, db1) \<Rightarrow> (False, t3, db1, w1)
                              | (Some (newCount, updatedCount), db1) \<Rightarrow>
                                  (True,
                                   t3\<lparr>newJobsAdded_n := newJobsAdded_n t3 + newCount,
                                      jobsUpdated_n := jobsUpdated_n t3 + updatedCount,
                                      countryJobsAdded_n := countryJobsAdded_n t3 + newCount\<rparr>,
                                   db1, w1)))))))"

text \<open>
  One round of the loop of line 461: the \<^verbatim>\<open>try\<close> block, then \<^verbatim>\<open>bucketsCompleted.push\<close>
  (lines 479 and 525), or the \<^verbatim>\<open>catch\<close> with \<^verbatim>\<open>bucketsFailed.push\<close> (line 528).
\<close>

definition scrapeBucket ::
  "runtime \<Rightarrow> searchService \<Rightarrow> crawlRequest \<Rightarrow> jsval \<Rightarrow> string \<Rightarrow> string \<Rightarrow>
     tally \<times> store \<times> world \<Rightarrow> tally \<times> store \<times> world" where
  "scrapeBucket rt search body mappedCountry sessionId' bucket st =
     (case bucketBody rt search body mappedCountry sessionId' bucket st of
        (ok, t, db, w) \<Rightarrow>
          (if ok then t\<lparr>bucketsCompleted_n := bucketsCompleted_n t @ [bucket]\<rparr>
           else t\<lparr>bucketsFailed_n := bucketsFailed_n t @ [bucket]\<rparr>,
           db, w))"

fun scrapeBuckets ::
  "runtime \<Rightarrow> searchService \<Rightarrow> crawlRequest \<Rightarrow> jsval \<Rightarrow> string \<Rightarrow> string list \<Rightarrow>
     tally \<times> store \<times> world \<Rightarrow> tally \<times> store \<times> world" where
  "scrapeBuckets rt search body mappedCountry sessionId' [] st = st"
| "scrapeBuckets rt search body mappedCountry sessionId' (bucket # rest) st =
     scrapeBuckets rt search body mappedCountry sessionId' rest
       (scrapeBucket rt search body mappedCountry sessionId' bucket st)"

text \<open>
  Modelled from the spec: the persistence collaborator for sessions and the audit trail
  (the models \<^verbatim>\<open>ScrapeSession\<close>, whose schema is among the sources, and \<^verbatim>\<open>AuditLog\<close> live
  on a database that is not). Spec section 6 gives \<^verbatim>\<open>createSession(...)\<close> and
  \<^verbatim>\<open>updateSession(id, patch)\<close>, and section 7 (d) names the failure to create a session.
  The sessions are a list, the identifier of a session is its position, and an update
  changes the fields of its patch. Each write of the orchestrator to this collaborator
  can fail: a flag of the environment says whether it does, and \<open>storeError\<close> is the text
  of the error. An audit entry keeps the actor, the action, and the session identifier
  and the status of its \<^verbatim>\<open>meta\<close>.
\<close>

record auditEntry =
  actor :: string
  action :: string
  audit_sessionId :: string
  audit_status :: string

record faults =
  sessionCreateFails :: bool
  auditStartedFails :: bool
  sessionUpdateFails :: bool
  auditCompletedFails :: bool
  verificationFails :: bool
  sessionFailedUpdateFails :: bool
  auditFailedFails :: bool

text \<open>
  What a run reads from its environment: the identifier that \<^verbatim>\<open>uuidv4\<close> returns, the
  readings of the clock at lines 402, 452, 532 and 591, and the faults of the store.
\<close>

record environment =
  uuidv4 :: string
  startedAtTime :: int
  startTime :: int
  completedAtTime :: int
  failedAtTime :: int
  storeFaults :: faults
  storeError :: string

record system =
  sessions :: "ScrapeSession list"
  auditLog :: "auditEntry list"
  jobStore :: store
  network :: world

datatype reply =
    BadRequest string
  | ServerError string
  | Started string "string list" bool int

definition actorOf :: "crawlRequest \<Rightarrow> string" where
  "actorOf body =
     (case userEmail body of None \<Rightarrow> ''system'' | Some e \<Rightarrow> if e = [] then ''system'' else e)"

definition statusName :: "sessionStatus \<Rightarrow> string" where
  "statusName s =
     (case s of InProgress \<Rightarrow> ''in_progress'' | Completed \<Rightarrow> ''completed''
      | Failed \<Rightarrow> ''failed'' | Partial \<Rightarrow> ''partial'')"

text \<open>
  Lines 396 to 415: the session as it is created. The call also passes
  \<^verbatim>\<open>indianJobsAdded: 0\<close>, which is not a field of the schema; \<^verbatim>\<open>countryJobsAdded\<close>, which the
  call leaves out, has the default 0 and \<^verbatim>\<open>errorMessage\<close> has none.
\<close>

definition newSession :: "environment \<Rightarrow> crawlRequest \<Rightarrow> jsval \<Rightarrow> ScrapeSession" where
  "newSession env body mappedCountry =
     \<lparr> sessionId = uuidv4 env,
       bucketsRequested = buckets body,
       bucketsCompleted = [],
       bucketsFailed = [],
       status = InProgress,
       totalApiCalls = 0,
       totalJobsFound = 0,
       countryJobsFound = 0,
       countryJobsAdded = 0,
       newJobsAdded = 0,
       jobsUpdated = 0,
       startedAt = startedAtTime env,
       completedAt = None,
       durationMs = None,
       triggeredBy = ''admin'',
       triggeredByUserId =
         (case userId body of None \<Rightarrow> ''system'' | Some i \<Rightarrow> if i = [] then ''system'' else i),
       filterIndianJobs = filterIndianJobs_body body,
       country_code = mappedCountry,
       originalCountry = country_body body,
       location_s = location_body body,
       errorMessage = None \<rparr>"

text \<open>The patch of lines 538 to 550, applied to a session.\<close>

definition completionPatch ::
  "environment \<Rightarrow> crawlRequest \<Rightarrow> tally \<Rightarrow> ScrapeSession \<Rightarrow> ScrapeSession" where
  "completionPatch env body t s =
     s\<lparr> status := (if bucketsFailed_n t = [] then Completed else Partial),
        bucketsCompleted := bucketsCompleted_n t,
        bucketsFailed := bucketsFailed_n t,
        completedAt := Some (completedAtTime env),
        totalApiCalls := totalApiCalls_n t,
        totalJobsFound := totalJobsFound_n t,
        countryJobsFound := (if filterIndianJobs_body body then countryJobsFound_n t else 0),
        countryJobsAdded := (if filterIndianJobs_body body then countryJobsAdded_n t else 0),
        newJobsAdded := newJobsAdded_n t,
        jobsUpdated := jobsUpdated_n t,
        durationMs := Some (completedAtTime env - startTime env) \<rparr>"

text \<open>
  The \<^verbatim>\<open>catch\<close> of lines 584 to 605: the session is marked failed, then the audit entry is
  written. A write that fails here ends the task.
\<close>

definition onScrapeError :: "environment \<Rightarrow> crawlRequest \<Rightarrow> nat \<Rightarrow> system \<Rightarrow> system" where
  "onScrapeError env body sid sys =
     (if sessionFailedUpdateFails (storeFaults env) then sys
      else
        (let sys1 = sys\<lparr>sessions := (sessions sys)
                       [sid := (sessions sys ! sid)
                          \<lparr>status := Failed, completedAt := Some (failedAtTime env),
                           errorMessage := Some (storeError env)\<rparr>]\<rparr>
         in if auditFailedFails (storeFaults env) then sys1
            else sys1\<lparr>auditLog := auditLog sys1 @
                   [\<lparr>actor = actorOf body, action = ''scrape_failed'',
                     audit_sessionId = uuidv4 env, audit_status = ''failed''\<rparr>]\<rparr>))"

text \<open>
  \<^verbatim>\<open>verifyScrapedJobsInDatabase\<close>: counts the stored jobs of the session and writes an audit
  entry that says whether they are at least 80 percent of the expected number. All of it
  is inside a \<^verbatim>\<open>try\<close> whose \<^verbatim>\<open>catch\<close> only logs.
\<close>

definition verifyScrapedJobsInDatabase ::
  "environment \<Rightarrow> string \<Rightarrow> nat \<Rightarrow> string \<Rightarrow> system \<Rightarrow> system" where
  "verifyScrapedJobsInDatabase env sessionId' expectedCount actor' sys =
     (if verificationFails (storeFaults env) then sys
      else
        (let jobsWithSession =
               length (filter (\<lambda>d. sessionId_stored d = sessionId') (jobDocs (jobStore sys)))
         in sys\<lparr>auditLog := auditLog sys @
               [\<lparr>actor = actor', action = ''scrape_completed'', audit_sessionId = sessionId',
                 audit_status = (if 4 * expectedCount \<le> 5 * jobsWithSession
                                 then ''passed'' else ''warning'')\<rparr>]\<rparr>))"

text \<open>
  The background task of lines 443 to 606, for the session at position \<open>sid\<close>. The log
  lines of lines 455, 457 and 554 print strings, numbers and the mapped country, and do not
  throw.
\<close>

definition backgroundTask ::
  "runtime \<Rightarrow> searchService \<Rightarrow> environment \<Rightarrow> crawlRequest \<Rightarrow> jsval \<Rightarrow> nat \<Rightarrow> system \<Rightarrow>
     system" where
  "backgroundTask rt search env body mappedCountry sid sys =
     (case scrapeBuckets rt search body mappedCountry (uuidv4 env) (buckets body)
             (emptyTally, jobStore sys, network sys) of
        (t, db, w) \<Rightarrow>
          (let sys1 = sys\<lparr>jobStore := db, network := w\<rparr> in
           if sessionUpdateFails (storeFaults env) then onScrapeError env body sid sys1
           else
             (let sys2 = sys1\<lparr>sessions := (sessions sys1)
                            [sid := completionPatch env body t (sessions sys1 ! sid)]\<rparr>
              in if auditCompletedFails (storeFaults env) then onScrapeError env body sid sys2
                 else
                   verifyScrapedJobsInDatabase env (uuidv4 env) (newJobsAdded_n t) (actorOf body)
                     (sys2\<lparr>auditLog := auditLog sys2 @
                        [\<lparr>actor = actorOf body, action = ''scrape_completed'',
                          audit_sessionId = uuidv4 env,
                          audit_status = statusName (if bucketsFailed_n t = [] then Completed
                                                     else Partial)\<rparr>]\<rparr>))))"

text \<open>
  \<^verbatim>\<open>runCrawlers\<close>: the reply to the request, and the system once the background task that
  the request has started is over. When the session or the first audit entry cannot be
  written, the \<^verbatim>\<open>catch\<close> of line 607 replies with status 500 and no task is started.
\<close>

definition runCrawlers ::
  "runtime \<Rightarrow> searchService \<Rightarrow> environment \<Rightarrow> crawlRequest \<Rightarrow> system \<Rightarrow> reply \<times> system" where
  "runCrawlers rt search env body sys =
     (if buckets body = [] then (BadRequest ''buckets must be a non-empty array'', sys)
      else
        (let mappedCountry = mapCountry (country_body body) in
         if sessionCreateFails (storeFaults env) then (ServerError (storeError env), sys)
         else
           (let sid = length (sessions sys);
                sys1 = sys\<lparr>sessions := sessions sys @ [newSession env body mappedCountry]\<rparr>
            in if auditStartedFails (storeFaults env) then (ServerError (storeError env), sys1)
               else
                 (Started (uuidv4 env) (buckets body) (filterIndianJobs_body body)
                    (startedAtTime env),
                  backgroundTask rt search env body mappedCountry sid
                    (sys1\<lparr>auditLog := auditLog sys1 @
                       [\<lparr>actor = actorOf body, action = ''scrape_started'',
                         audit_sessionId = uuidv4 env, audit_status = ''in_progress''\<rparr>]\<rparr>)))))"

text \<open>
  Notions for the statements about the store. The identity of a stored job is its title,
  the identifier of its company and its location; the identity that a job to be saved
  has in a store is the same triple, with the identifier under which the store knows the
  name of its company; a job is stored when the store holds a record of its identity. The
  key of a job is its title, the name of its company and its location.
\<close>

definition docIdentity :: "JobDoc \<Rightarrow> jsval \<times> nat \<times> string" where
  "docIdentity doc = (title_d (job_fields doc), companyId doc, location_d (job_fields doc))"

definition identityIn :: "store \<Rightarrow> JobData \<Rightarrow> (jsval \<times> nat \<times> string) option" where
  "identityIn db jobData =
     map_option (\<lambda>cid. (title_d jobData, cid, location_d jobData))
       (findCompany db (company_d jobData))"

definition isStored :: "store \<Rightarrow> JobData \<Rightarrow> bool" where
  "isStored db jobData =
     (case identityIn db jobData of
        None \<Rightarrow> False
      | Some ident \<Rightarrow> ident \<in> set (map docIdentity (jobDocs db)))"

definition jobKey :: "JobData \<Rightarrow> jsval \<times> string \<times> string" where
  "jobKey jobData = (title_d jobData, company_d jobData, location_d jobData)"

text \<open>
  A record is refreshed by a call of \<^verbatim>\<open>saveJobsToDatabase\<close> when it holds the fields of a job
  of the batch whose identity is the identity of the record, the name of the company of
  that job, and the session, the bucket and the time of the call.

  A record that the store held before the call is treated in place: the record at the
  same position afterwards has the same identity, status and time of creation, and it is
  refreshed, with the source of its job, when the batch has a job of its identity, and is
  the same record otherwise.

  A record that the call has added is inserted: it is refreshed, its status is
  \<open>published\<close>, its time of creation is the time of the call, and its source is the source of
  its job, or \<open>JSearch API\<close> when that is empty.
\<close>

definition refreshed ::
  "JobData list \<Rightarrow> string \<Rightarrow> string \<Rightarrow> int \<Rightarrow> store \<Rightarrow> JobDoc \<Rightarrow> bool" where
  "refreshed batch bucket' sessionId' now db doc =
     (job_fields doc \<in> set batch \<and>
      identityIn db (job_fields doc) = Some (docIdentity doc) \<and>
      company_stored doc = company_d (job_fields doc) \<and>
      sessionId_stored doc = sessionId' \<and>
      bucket_stored doc = bucket' \<and>
      updatedAt doc = now)"

definition inPlace ::
  "JobData list \<Rightarrow> string \<Rightarrow> string \<Rightarrow> int \<Rightarrow> store \<Rightarrow> JobDoc \<Rightarrow> JobDoc \<Rightarrow> bool" where
  "inPlace batch bucket' sessionId' now db before after =
     (docIdentity after = docIdentity before \<and>
      status_stored after = status_stored before \<and>
      createdAt after = createdAt before \<and>
      (if \<exists>jobData \<in> set batch. identityIn db jobData = Some (docIdentity before)
       then refreshed batch bucket' sessionId' now db after \<and>
            source_stored after = source_d (job_fields after)
       else after = before))"

definition inserted ::
  "JobData list \<Rightarrow> string \<Rightarrow> string \<Rightarrow> int \<Rightarrow> store \<Rightarrow> JobDoc \<Rightarrow> bool" where
  "inserted batch bucket' sessionId' now db doc =
     (refreshed batch bucket' sessionId' now db doc \<and>
      status_stored doc = ''published'' \<and>
      createdAt doc = Some now \<and>
      (source_stored doc = source_d (job_fields doc) \<or>
       source_d (job_fields doc) = [] \<and> source_stored doc = ''JSearch API''))"

text \<open>A store with nothing in it, and a job as \<^verbatim>\<open>runCrawlers\<close> passes it on, with a given external identifier.\<close>

definition emptyStore :: store where
  "emptyStore = \<lparr> companyDocs = [], jobDocs = [] \<rparr>"

definition sampleJobData :: "string \<Rightarrow> JobData" where
  "sampleJobData externalId =
     \<lparr> title_d = JStr ''Data Engineer'', company_d = ''Initech'', location_d = ''Pune, IN'',
       description_d = JStr [], requirements = [], responsibilities = [],
       applyUrl = JStr ''https://jobs.initech.com/1'', salary = [], ctc = JUndefined,
       jobType_d = JStr ''Full-time'', postedAt = JStr ''2026-01-01T00:00:00.000Z'',
       source_d = ''JSearch API'', meta_jobId = JStr externalId,
       meta_externalLink = JStr ''https://jobs.initech.com/1'', meta_rawData = JObj [] \<rparr>"

text \<open>
  A bucket throws when its \<^verbatim>\<open>try\<close> block does; it throws during the fetch when the call of
  the search service does, in the state the loop has reached.
\<close>

definition bucketThrows ::
  "runtime \<Rightarrow> searchService \<Rightarrow> crawlRequest \<Rightarrow> jsval \<Rightarrow> string \<Rightarrow> string \<Rightarrow>
     tally \<times> store \<times> world \<Rightarrow> bool" where
  "bucketThrows rt search body mappedCountry sessionId' bucket st =
     (\<not> fst (bucketBody rt search body mappedCountry sessionId' bucket st))"

definition fetchThrows :: "searchService \<Rightarrow> JobSearchParams \<Rightarrow> tally \<times> store \<times> world \<Rightarrow> bool" where
  "fetchThrows search params st = (fst (search params (snd (snd st))) = None)"

text \<open>
  A test double of the search service, which throws for one query and returns the same
  jobs for every other; the job that \<^verbatim>\<open>parseJobData\<close> makes of a raw job in Pune; an
  environment, a request and a system to run \<^verbatim>\<open>runCrawlers\<close> on.
\<close>

definition mockSearch :: "string \<Rightarrow> ParsedJob list \<Rightarrow> searchService" where
  "mockSearch failing found params w =
     (if query params = failing then (None, w) else (Some found, w))"

definition sampleParsed :: "ParsedJob list" where
  "sampleParsed = (case parseJobData puneJob of None \<Rightarrow> [] | Some job \<Rightarrow> [job])"

definition noFaults :: faults where
  "noFaults = \<lparr> sessionCreateFails = False, auditStartedFails = False,
     sessionUpdateFails = False, auditCompletedFails = False, verificationFails = False,
     sessionFailedUpdateFails = False, auditFailedFails = False \<rparr>"

definition sampleEnvironment :: "faults \<Rightarrow> environment" where
  "sampleEnvironment fl =
     \<lparr> uuidv4 = ''3f2b8c1e-5d47-4a90-9c6e-7b1a2d3e4f50'', startedAtTime = 1767225600000,
       startTime = 1767225600005, completedAtTime = 1767225660005,
       failedAtTime = 1767225660010, storeFaults = fl,
       storeError = ''MongoNetworkError: connection closed'' \<rparr>"

definition sampleBody :: "string list \<Rightarrow> crawlRequest" where
  "sampleBody bs =
     \<lparr> buckets = bs, filterIndianJobs_body = True, country_body = ''India'',
       location_body = ''India'', userId = Some ''admin-1'',
       userEmail = Some ''admin@example.com'' \<rparr>"

definition emptySystem :: system where
  "emptySystem = \<lparr> sessions = [], auditLog = [], jobStore = emptyStore, network = emptyWorld \<rparr>"

text \<open>
  A store that holds one job, and two batches of the same two jobs, in different orders
  and with different external identifiers.
\<close>

definition seededStore :: store where
  "seededStore =
     snd (saveJobsToDatabase [sampleJobData ''z0''] ''seed'' ''session-0'' 500 emptyStore)"

definition firstBatch :: "JobData list" where
  "firstBatch = [sampleJobData ''a1'', (sampleJobData ''a2'')\<lparr>title_d := JStr ''QA Engineer''\<rparr>]"

definition secondBatch :: "JobData list" where
  "secondBatch = [(sampleJobData ''b2'')\<lparr>title_d := JStr ''QA Engineer''\<rparr>, sampleJobData ''b1'']"

section \<open>Properties of the location classifier\<close>

text \<open>
  Claim C1. For the target country "us", the classifier is said to return false for a
  location whose only country signal is a non-US country keyword, such as
  "Berlin, Germany", and true for "New York, NY, USA". The code returns true for
  "Berlin, Germany": the state codes are searched as substrings, and "in", the code of
  Indiana, is a substring of "berlin".
\<close>

theorem C1_berlin_germany_is_classified_us:
  "isLocationInCountry ''us'' ''Berlin, Germany'' JUndefined JUndefined JUndefined = Some True"
  by code_simp

lemma new_york_is_classified_us:
  "isLocationInCountry ''us'' ''New York, NY, USA'' JUndefined JUndefined JUndefined = Some True"
  by code_simp

text \<open>
  Claim C2. For every target country and every call whose explicit country is a non-empty
  string that, put in lower case and trimmed by the methods the code calls, does not pass
  the test of lines 136 to 147 for this target, the classifier returns false, whatever
  the location, the city and the state are. The two methods are parameters: the
  statement holds for \<^verbatim>\<open>String.prototype.toLowerCase\<close> and \<^verbatim>\<open>String.prototype.trim\<close> on all
  strings.
\<close>

theorem C2_explicit_country_mismatch_rejects:
  assumes "explicitCountry \<noteq> []"
    and "\<not> countryMatches targetCountryIso (lowerCase targetCountryIso)
             (trimmed (lowerCase explicitCountry))"
  shows "isLocationInCountryWith lowerCase trimmed targetCountryIso loc
           (optStr cityOpt) (optStr stateOpt) (JStr explicitCountry) = Some False"
  using assms
  by (cases cityOpt; cases stateOpt;
      simp add: isLocationInCountryWith_def joinJs_def optStr_def Let_def)

theorem C2_explicit_country_mismatch_rejects_witness:
  "''Germany'' \<noteq> [] \<and>
   \<not> countryMatches ''in'' (toLowerCase ''in'') (trim (toLowerCase ''Germany'')) \<and>
   isLocationInCountry ''in'' ''Bangalore, IN-KA, Germany''
     (optStr (Some ''Bangalore'')) (optStr (Some ''IN-KA'')) (JStr ''Germany'') = Some False"
proof -
  have h1: "''Germany'' \<noteq> []"
    by simp
  have h2: "\<not> countryMatches ''in'' (toLowerCase ''in'') (trim (toLowerCase ''Germany''))"
    by code_simp
  show ?thesis
    using h1 h2
      C2_explicit_country_mismatch_rejects
        [where lowerCase = toLowerCase and trimmed = trim and targetCountryIso = "''in''"
           and explicitCountry = "''Germany''" and loc = "''Bangalore, IN-KA, Germany''"
           and cityOpt = "Some ''Bangalore''" and stateOpt = "Some ''IN-KA''"]
    by (simp add: isLocationInCountry_def)
qed

text \<open>Conversely, an explicit country that passes the test is accepted at once.\<close>

lemma explicit_country_match_accepts:
  assumes "explicitCountry \<noteq> []"
    and "countryMatches targetCountryIso (lowerCase targetCountryIso)
           (trimmed (lowerCase explicitCountry))"
  shows "isLocationInCountryWith lowerCase trimmed targetCountryIso loc
           (optStr cityOpt) (optStr stateOpt) (JStr explicitCountry) = Some True"
  using assms
  by (cases cityOpt; cases stateOpt;
      simp add: isLocationInCountryWith_def joinJs_def optStr_def Let_def)

section \<open>Properties of the response normalizer\<close>

lemma isText_jsOr_str: "isText a \<Longrightarrow> isStr b \<Longrightarrow> isStr (jsOr a b)"
  by (cases a; cases b; simp add: isText_def isStr_def jsOr_def)

lemma isStr_isText: "isStr a \<Longrightarrow> isText a"
  by (cases a; simp add: isText_def isStr_def)

lemma isText_jsOr: "isText a \<Longrightarrow> isText b \<Longrightarrow> isText (jsOr a b)"
  by (simp add: jsOr_def)

lemma isStr_JStr: "isStr (JStr s)" by (simp add: isStr_def)

lemma isStr_jsOr: "isStr a \<Longrightarrow> isStr b \<Longrightarrow> isStr (jsOr a b)"
  by (simp add: jsOr_def)

lemma toStr_text: "isText v \<Longrightarrow> toStr v \<noteq> None"
  by (cases v; simp add: isText_def)

lemma isStrE: "isStr v \<Longrightarrow> (\<And>s. v = JStr s \<Longrightarrow> P) \<Longrightarrow> P"
  by (cases v; simp add: isStr_def)

lemma extract_str:
  assumes "textFieldsOk j"
  shows "\<exists>c s k. extractLocationFields j = Some (c, s, k) \<and> isStr c \<and> isStr s \<and> isStr k"
proof -
  from assms have t: "isText (getProp j ''job_city'')" "isText (getProp j ''city'')"
    "isText (getProp j ''job_state'')" "isText (getProp j ''state'')"
    "isText (getProp j ''job_country'')" "isText (getProp j ''country'')"
    "isText (getProp j ''job_location'')"
    by (simp_all add: textFieldsOk_def textFields_def)
  define c where "c = jsOr (jsOr (getProp j ''job_city'') (getProp j ''city'')) (JStr [])"
  define s where "s = jsOr (jsOr (getProp j ''job_state'') (getProp j ''state'')) (JStr [])"
  define k where "k = jsOr (jsOr (getProp j ''job_country'') (getProp j ''country'')) (JStr [])"
  define r where "r = jsOr (getProp j ''job_location'') (JStr [])"
  have sc: "isStr c" "isStr s" "isStr k" "isStr r"
    unfolding c_def s_def k_def r_def using t
    by (auto intro!: isText_jsOr_str isText_jsOr isStr_JStr)
  from sc(4) obtain rs where rs: "r = JStr rs" by (rule isStrE)
  have "extractLocationFields j =
    (if truthy r \<and> \<not> truthy c \<and> \<not> truthy s then
          do {
            r \<leftarrow> asString r;
            let parts = map trim (split (CHR '','') r);
            Some (if 2 \<le> length parts then
                    (jsOr c (JStr (joinStrings '', '' (take (length parts - 2) parts))),
                     jsOr s (JStr (parts ! (length parts - 2))),
                     jsOr k (JStr (parts ! (length parts - 1))))
                  else if length parts = 1 then (jsOr c (JStr (parts ! 0)), s, k)
                  else (c, s, k))
          }
        else Some (c, s, k))"
    unfolding extractLocationFields_def c_def s_def k_def r_def Let_def by (rule refl)
  then show ?thesis
    using sc by (auto simp add: rs asString_def Let_def intro!: isStr_jsOr isStr_JStr)
qed

lemma logged_text: "list_all isText vs \<Longrightarrow> logged vs = Some ()"
  by (auto simp add: logged_def list_all_iff toStr_text)

lemma elemStrs_str: "list_all isStr vs \<Longrightarrow> elemStrs vs \<noteq> None"
  by (induction vs) (auto elim!: isStrE)

lemma buildLocation_str:
  "isStr c \<Longrightarrow> isStr s \<Longrightarrow> isStr k \<Longrightarrow> buildLocation c s k \<noteq> None"
  using elemStrs_str [of "filter truthy [c, s, k]"]
  by (auto simp add: buildLocation_def joinJs_def Let_def list_all_iff)

lemma extractCompanyName_text:
  assumes "isText (getProp j ''job_title'')" "isText (getProp j ''job_description'')"
  shows "extractCompanyName j \<noteq> None"
proof -
  have a: "truthy (getProp j ''job_title'') \<Longrightarrow> asString (getProp j ''job_title'') \<noteq> None"
    using assms(1) by (cases "getProp j ''job_title''"; simp add: isText_def asString_def)
  have b: "truthy (getProp j ''job_description'') \<Longrightarrow> asString (getProp j ''job_description'') \<noteq> None"
    using assms(2) by (cases "getProp j ''job_description''"; simp add: isText_def asString_def)
  show ?thesis
    unfolding extractCompanyName_def Let_def
    using a b by (auto simp add: bind_eq_None_conv)
qed

lemma extractApplyLink_text:
  assumes "textFieldsOk j" shows "isStr (extractApplyLink j)"
proof -
  from assms have t: "isText (getProp j ''job_apply_link'')" "isText (getProp j ''apply_link'')"
    "isText (getProp j ''job_url'')" "isText (getProp j ''google_link'')" "isText (getProp j ''link'')"
    by (simp_all add: textFieldsOk_def textFields_def)
  show ?thesis unfolding extractApplyLink_def using t
    by (auto intro!: isText_jsOr_str isText_jsOr isStr_JStr)
qed

lemma buildParsedJob_sel:
  "title (buildParsedJob j c s k loc nm u ph) = jsOr (jsOr (getProp j ''job_title'') (getProp j ''title'')) (JStr ''Untitled'')"
  "location (buildParsedJob j c s k loc nm u ph) = loc"
  "city (buildParsedJob j c s k loc nm u ph) = c"
  "state (buildParsedJob j c s k loc nm u ph) = s"
  "country (buildParsedJob j c s k loc nm u ph) = k"
  "externalLink (buildParsedJob j c s k loc nm u ph) = u"
  "source (buildParsedJob j c s k loc nm u ph) = (if truthy u \<and> \<not> ph then ''JSearch API'' else ''Fallback Data'')"
  by (simp_all add: buildParsedJob_def)

lemma parseJobDataBody_total:
  assumes ok: "textFieldsOk j"
  shows "parseJobDataBody j \<noteq> None"
proof -
  from ok have t: "isText (getProp j ''job_city'')" "isText (getProp j ''job_state'')"
    "isText (getProp j ''job_country'')" "isText (getProp j ''job_location'')"
    "isText (getProp j ''job_title'')" "isText (getProp j ''title'')"
    "isText (getProp j ''job_description'')"
    by (simp_all add: textFieldsOk_def textFields_def)
  have l1: "logged [getProp j ''job_city'', getProp j ''job_state'',
                  getProp j ''job_country'', getProp j ''job_location''] = Some ()"
    using t by (simp add: logged_text)
  from extract_str [OF ok] obtain c s k where
    e: "extractLocationFields j = Some (c, s, k)" and st: "isStr c" "isStr s" "isStr k" by blast
  from buildLocation_str [OF st] obtain loc where b: "buildLocation c s k = Some loc" by auto
  have l2: "logged [c, s, k] = Some ()" using st by (simp add: logged_text isStr_isText)
  from extractCompanyName_text [OF t(5) t(7)] obtain nm where cn: "extractCompanyName j = Some nm" by auto
  from extractApplyLink_text [OF ok] obtain u where u: "extractApplyLink j = JStr u" by (auto elim: isStrE)
  have ti: "isStr (jsOr (jsOr (getProp j ''job_title'') (getProp j ''title'')) (JStr ''Untitled''))"
    using t by (auto intro!: isText_jsOr_str isText_jsOr isStr_JStr)
  have l3: "logged (if source (buildParsedJob j c s k loc nm (JStr u) ph) = ''JSearch API''
       then [title (buildParsedJob j c s k loc nm (JStr u) ph)]
       else [title (buildParsedJob j c s k loc nm (JStr u) ph),
             externalLink (buildParsedJob j c s k loc nm (JStr u) ph)]) = Some ()" for ph
  proof -
    from ti have "isText (jsOr (jsOr (getProp j ''job_title'') (getProp j ''title'')) (JStr ''Untitled''))"
      by (rule isStr_isText)
    moreover have "isText (JStr u)" by (simp add: isText_def)
    ultimately show ?thesis
      by (simp add: buildParsedJob_sel logged_text)
  qed
  show ?thesis
    unfolding parseJobDataBody_def
    by (simp add: l1 e b l2 cn u jsIncludes_def l3 Let_def del: truthy.simps)
qed

lemma parseJobData_SomeD:
  assumes "parseJobData j = Some p"
  shows "\<exists>c s k. extractLocationFields j = Some (c, s, k) \<and> buildLocation c s k = Some (location p)
     \<and> city p = c \<and> state p = s \<and> country p = k"
    and "externalLink p = extractApplyLink j"
    and "source p = (if truthy (extractApplyLink j) \<and> jsIncludes (extractApplyLink j) ''example.com'' = Some False
                     then ''JSearch API'' else ''Fallback Data'')"
    and "truthy (extractApplyLink j) \<longrightarrow> jsIncludes (extractApplyLink j) ''example.com'' \<noteq> None"
  using assms
  unfolding parseJobData_def parseJobDataBody_def
  by (auto simp add: bind_eq_Some_conv Let_def buildParsedJob_sel split: if_splits)


lemma showNat_nonempty: "showNat n \<noteq> []"
  by (subst showNat.simps) simp

lemma toStr_nonempty:
  "truthy v \<Longrightarrow> \<not> isArray v \<Longrightarrow> toStr v = Some t \<Longrightarrow> t \<noteq> []"
  by (cases v) (auto simp add: isArray_def showInt_def showNat_nonempty split: if_splits)

lemma joinStrings_nonempty: "ss \<noteq> [] \<Longrightarrow> hd ss \<noteq> [] \<Longrightarrow> joinStrings sep ss \<noteq> []"
  by (induction sep ss rule: joinStrings.induct) auto

lemma elemStrs_hd:
  "elemStrs (v # vs) = Some ss \<Longrightarrow> truthy v \<Longrightarrow> ss \<noteq> [] \<and> toStr v = Some (hd ss)"
  by (cases v) (auto simp add: bind_eq_Some_conv split: if_splits)

lemma buildLocation_nonempty:
  assumes "buildLocation c s k = Some loc"
    and "\<not> isArray c" "\<not> isArray s" "\<not> isArray k"
  shows "loc \<noteq> []"
proof (cases "filter truthy [c, s, k]")
  case Nil
  with assms(1) show ?thesis by (auto simp add: buildLocation_def)
next
  case (Cons v vs)
  then have v: "truthy v" "v \<in> {c, s, k}"
    using filter_eq_ConsD [of truthy "[c, s, k]" v vs] by (auto simp add: Cons_eq_append_conv split: if_splits)
  then have na: "\<not> isArray v" using assms(2-4) by auto
  from assms(1) Cons obtain ss where ss: "elemStrs (v # vs) = Some ss" "loc = joinStrings '', '' ss"
    by (auto simp add: buildLocation_def joinJs_def)
  from elemStrs_hd [OF ss(1) v(1)] have "ss \<noteq> []" "toStr v = Some (hd ss)" by auto
  with toStr_nonempty [OF v(1) na] have "hd ss \<noteq> []" by auto
  with \<open>ss \<noteq> []\<close> ss(2) show ?thesis by (simp add: joinStrings_nonempty)
qed

text \<open>
  Claim C7, amended. For every raw job the normalizer accepts, the location is "Remote"
  when none of city, state and country is present, and otherwise the present ones,
  converted to strings and joined by ", "; it is non-empty whenever none of the three is
  an array, in particular whenever they are strings.
\<close>

theorem C7_location_from_parts:
  assumes "parseJobData jobData = Some p"
  shows "(filter truthy [city p, state p, country p] = [] \<longrightarrow> location p = ''Remote'') \<and>
         (filter truthy [city p, state p, country p] \<noteq> [] \<longrightarrow>
            joinJs '', '' (filter truthy [city p, state p, country p]) = Some (location p)) \<and>
         (\<not> isArray (city p) \<and> \<not> isArray (state p) \<and> \<not> isArray (country p) \<longrightarrow> location p \<noteq> [])"
proof -
  from parseJobData_SomeD(1) [OF assms]
  have b: "buildLocation (city p) (state p) (country p) = Some (location p)" by auto
  have "filter truthy [city p, state p, country p] = [] \<longrightarrow> location p = ''Remote''"
    using b unfolding buildLocation_def Let_def by (simp split: if_splits)
  moreover have "filter truthy [city p, state p, country p] \<noteq> [] \<longrightarrow>
            joinJs '', '' (filter truthy [city p, state p, country p]) = Some (location p)"
    using b unfolding buildLocation_def Let_def by (simp split: if_splits)
  moreover have "\<not> isArray (city p) \<and> \<not> isArray (state p) \<and> \<not> isArray (country p) \<longrightarrow> location p \<noteq> []"
    using buildLocation_nonempty [OF b] by blast
  ultimately show ?thesis by blast
qed

theorem C7_location_from_parts_witness:
  "parseJobData (JObj [(''job_city'', JStr ''Pune''), (''job_country'', JStr ''IN'')]) =
     Some \<lparr> title = JStr ''Untitled'', company = ''Unknown Company'', location = ''Pune, IN'',
            city = JStr ''Pune'', state = JStr [], country = JStr ''IN'', description = JStr [],
            minSalary = JUndefined, maxSalary = JUndefined, salaryPeriod = JStr ''YEARLY'',
            jobType = JStr ''Full-time'', postedDate = JUndefined, externalLink = JStr [],
            jobId = JUndefined, source = ''Fallback Data'', isRemote = JBool False,
            rawData = JObj [(''job_city'', JStr ''Pune''), (''job_country'', JStr ''IN'')] \<rparr> \<and>
   joinJs '', '' [JStr ''Pune'', JStr ''IN''] = Some ''Pune, IN'' \<and>
   \<not> isArray (JStr ''Pune'') \<and> \<not> isArray (JStr []) \<and> \<not> isArray (JStr ''IN'') \<and>
   ''Pune, IN'' \<noteq> []"
proof -
  have h: "parseJobData (JObj [(''job_city'', JStr ''Pune''), (''job_country'', JStr ''IN'')]) =
     Some \<lparr> title = JStr ''Untitled'', company = ''Unknown Company'', location = ''Pune, IN'',
            city = JStr ''Pune'', state = JStr [], country = JStr ''IN'', description = JStr [],
            minSalary = JUndefined, maxSalary = JUndefined, salaryPeriod = JStr ''YEARLY'',
            jobType = JStr ''Full-time'', postedDate = JUndefined, externalLink = JStr [],
            jobId = JUndefined, source = ''Fallback Data'', isRemote = JBool False,
            rawData = JObj [(''job_city'', JStr ''Pune''), (''job_country'', JStr ''IN'')] \<rparr>"
    by code_simp
  show ?thesis
    using h C7_location_from_parts [OF h]
    by (simp add: isArray_def)
qed

theorem C7_counterexample:
  "parseJobData (JObj [(''job_city'', JArr [])]) =
     Some \<lparr> title = JStr ''Untitled'', company = ''Unknown Company'', location = [],
            city = JArr [], state = JStr [], country = JStr [], description = JStr [],
            minSalary = JUndefined, maxSalary = JUndefined, salaryPeriod = JStr ''YEARLY'',
            jobType = JStr ''Full-time'', postedDate = JUndefined, externalLink = JStr [],
            jobId = JUndefined, source = ''Fallback Data'', isRemote = JBool False,
            rawData = JObj [(''job_city'', JArr [])] \<rparr>"
  by code_simp

text \<open>
  Claim C8, amended. For every normalized job whose apply link is a string (the empty
  string when no link field is present), the source label is "JSearch API" if and only if
  the link is non-empty and does not contain "example.com", and "Fallback Data" otherwise.
\<close>

theorem C8_source_label_of_string_link:
  assumes "parseJobData jobData = Some p"
    and "externalLink p = JStr url"
  shows "(source p = ''JSearch API'' \<longleftrightarrow> url \<noteq> [] \<and> \<not> includesStr url ''example.com'') \<and>
         (source p \<noteq> ''JSearch API'' \<longrightarrow> source p = ''Fallback Data'')"
proof -
  from parseJobData_SomeD(2) [OF assms(1)] assms(2)
  have u: "extractApplyLink jobData = JStr url" by simp
  show ?thesis
    using parseJobData_SomeD(3) [OF assms(1)]
    by (auto simp add: u jsIncludes_def)
qed

theorem C8_source_label_of_string_link_witness:
  "parseJobData (JObj [(''job_apply_link'', JStr ''https://jobs.initech.com/apply/7'')]) =
     Some \<lparr> title = JStr ''Untitled'', company = ''Unknown Company'', location = ''Remote'',
            city = JStr [], state = JStr [], country = JStr [], description = JStr [],
            minSalary = JUndefined, maxSalary = JUndefined, salaryPeriod = JStr ''YEARLY'',
            jobType = JStr ''Full-time'', postedDate = JUndefined,
            externalLink = JStr ''https://jobs.initech.com/apply/7'',
            jobId = JUndefined, source = ''JSearch API'', isRemote = JBool True,
            rawData = JObj [(''job_apply_link'', JStr ''https://jobs.initech.com/apply/7'')] \<rparr> \<and>
   ''https://jobs.initech.com/apply/7'' \<noteq> [] \<and>
   \<not> includesStr ''https://jobs.initech.com/apply/7'' ''example.com''"
proof -
  have h: "parseJobData (JObj [(''job_apply_link'', JStr ''https://jobs.initech.com/apply/7'')]) =
     Some \<lparr> title = JStr ''Untitled'', company = ''Unknown Company'', location = ''Remote'',
            city = JStr [], state = JStr [], country = JStr [], description = JStr [],
            minSalary = JUndefined, maxSalary = JUndefined, salaryPeriod = JStr ''YEARLY'',
            jobType = JStr ''Full-time'', postedDate = JUndefined,
            externalLink = JStr ''https://jobs.initech.com/apply/7'',
            jobId = JUndefined, source = ''JSearch API'', isRemote = JBool True,
            rawData = JObj [(''job_apply_link'', JStr ''https://jobs.initech.com/apply/7'')] \<rparr>"
    by code_simp
  show ?thesis
    using h C8_source_label_of_string_link [OF h, of "''https://jobs.initech.com/apply/7''"]
    by simp
qed

theorem C8_counterexample:
  "parseJobData (JObj [(''job_apply_link'', JArr [JStr ''https://example.com/jobs/0''])]) =
     Some \<lparr> title = JStr ''Untitled'', company = ''Unknown Company'', location = ''Remote'',
            city = JStr [], state = JStr [], country = JStr [], description = JStr [],
            minSalary = JUndefined, maxSalary = JUndefined, salaryPeriod = JStr ''YEARLY'',
            jobType = JStr ''Full-time'', postedDate = JUndefined,
            externalLink = JArr [JStr ''https://example.com/jobs/0''],
            jobId = JUndefined, source = ''JSearch API'', isRemote = JBool True,
            rawData = JObj [(''job_apply_link'', JArr [JStr ''https://example.com/jobs/0''])] \<rparr> \<and>
   toStr (JArr [JStr ''https://example.com/jobs/0'']) = Some ''https://example.com/jobs/0'' \<and>
   includesStr ''https://example.com/jobs/0'' ''example.com''"
  by code_simp

text \<open>
  Claim C9, amended. The normalizer returns null for a falsy input, and returns a record
  for every truthy input whose text fields are each absent, null or a string. (It also
  returns null when the body throws, which a field of another type can cause.)
\<close>

theorem C9_null_only_for_falsy_or_throwing:
  "(\<not> truthy jobData \<longrightarrow> parseJobData jobData = None) \<and>
   (truthy jobData \<and> textFieldsOk jobData \<longrightarrow> parseJobData jobData \<noteq> None)"
  using parseJobDataBody_total [of jobData]
  by (auto simp add: parseJobData_def)

theorem C9_null_only_for_falsy_or_throwing_witness:
  "parseJobData JNull = None \<and>
   truthy (JObj [(''job_title'', JStr ''Data Engineer''), (''job_location'', JStr ''Pune, MH, IN'')]) \<and>
   textFieldsOk (JObj [(''job_title'', JStr ''Data Engineer''), (''job_location'', JStr ''Pune, MH, IN'')]) \<and>
   parseJobData (JObj [(''job_title'', JStr ''Data Engineer''), (''job_location'', JStr ''Pune, MH, IN'')]) \<noteq> None"
proof -
  have h: "textFieldsOk (JObj [(''job_title'', JStr ''Data Engineer''), (''job_location'', JStr ''Pune, MH, IN'')])"
    by code_simp
  show ?thesis
    using h C9_null_only_for_falsy_or_throwing [of JNull]
      C9_null_only_for_falsy_or_throwing
        [of "JObj [(''job_title'', JStr ''Data Engineer''), (''job_location'', JStr ''Pune, MH, IN'')]"]
    by simp
qed

theorem C9_counterexample:
  "truthy (JObj [(''job_title'', JStr ''Data Engineer''), (''job_location'', JNum 5)]) \<and>
   parseJobData (JObj [(''job_title'', JStr ''Data Engineer''), (''job_location'', JNum 5)]) = None"
  by code_simp

section \<open>Properties of the paginated fetcher\<close>

lemma generateFallbackJobs_length:
  "length (fst (generateFallbackJobs rt params w)) = randomBelow rt 30 (draws w) + 20"
  by (simp add: generateFallbackJobs_def Let_def)

lemma generateFallbackJobs_bounds:
  "20 \<le> length (fst (generateFallbackJobs rt params w))"
  "length (fst (generateFallbackJobs rt params w)) < 50"
  by (simp_all add: generateFallbackJobs_length randomBelow_def)

lemma generateFallbackJobs_nonempty: "fst (generateFallbackJobs rt params w) \<noteq> []"
  using generateFallbackJobs_bounds(1) [of rt params w] by auto

lemma generateFallbackJobs_source:
  "list_all (\<lambda>j. source j = ''Fallback Data'') (fst (generateFallbackJobs rt params w))"
  by (simp add: generateFallbackJobs_def Let_def list_all_iff fallbackJob_def)


lemma finish_nonempty: "fst (finish rt params st) \<noteq> []"
  by (cases st) (simp add: finish_def generateFallbackJobs_nonempty)


lemma runPages_nonempty: "fst (runPages rt svc params ps st) \<noteq> []"
proof (induction ps arbitrary: st)
  case Nil
  show ?case by (simp add: finish_nonempty)
next
  case (Cons pageNo rest)
  obtain out w' jobs' where f: "fetchPage rt svc params pageNo st = (out, w', jobs')"
    by (cases "fetchPage rt svc params pageNo st") auto
  show ?case
    by (cases out) (simp_all add: f finish_nonempty generateFallbackJobs_nonempty Cons.IH)
qed

lemma searchJobs_nonempty: "fst (searchJobs rt svc params w) \<noteq> []"
  by (simp add: searchJobs_def runPages_nonempty generateFallbackJobs_nonempty)


lemma makeRequestWithRetry_failed:
  "\<not> isOk (fetch rt (length (requests w)) req) \<Longrightarrow>
   makeRequestWithRetry rt svc req retryCount w =
     (if retryCount < maxRetries svc
      then makeRequestWithRetry rt svc req (retryCount + 1) (w\<lparr>requests := requests w @ [req]\<rparr>)
      else (None, w\<lparr>requests := requests w @ [req]\<rparr>))"
  by (cases "fetch rt (length (requests w)) req";
      simp add: makeRequestWithRetry.simps [of rt svc req retryCount w] Let_def isOk_def)


lemma allAttemptsFail_nth:
  "allAttemptsFail rt svc req w \<Longrightarrow> i \<le> maxRetries svc \<Longrightarrow>
   \<not> isOk (fetch rt (length (requests w) + i) req)"
  by (simp add: allAttemptsFail_def list_all_iff del: upt_Suc)

lemma makeRequestWithRetry_None:
  assumes "allAttemptsFail rt svc req w"
  shows "\<exists>w'. makeRequestWithRetry rt svc req 0 w = (None, w') \<and> draws w' = draws w
      \<and> requests w' = requests w @ replicate (Suc (maxRetries svc)) req"
proof -
  have gen: "\<And>rc w1. rc \<le> maxRetries svc \<Longrightarrow> length (requests w1) = length (requests w) + rc \<Longrightarrow>
     \<exists>w'. makeRequestWithRetry rt svc req rc w1 = (None, w') \<and> draws w' = draws w1
      \<and> requests w' = requests w1 @ replicate (Suc (maxRetries svc - rc)) req"
  proof -
    fix rc w1
    show "rc \<le> maxRetries svc \<Longrightarrow> length (requests w1) = length (requests w) + rc \<Longrightarrow>
     \<exists>w'. makeRequestWithRetry rt svc req rc w1 = (None, w') \<and> draws w' = draws w1
      \<and> requests w' = requests w1 @ replicate (Suc (maxRetries svc - rc)) req"
    proof (induction "maxRetries svc - rc" arbitrary: rc w1)
      case 0
      then have rc: "rc = maxRetries svc" by simp
      have nok: "\<not> isOk (fetch rt (length (requests w1)) req)"
        using allAttemptsFail_nth [OF assms, of rc] 0 rc by simp
      show ?case
        using rc by (simp add: makeRequestWithRetry_failed [OF nok])
    next
      case (Suc k)
      then have lt: "rc < maxRetries svc" by simp
      have nok: "\<not> isOk (fetch rt (length (requests w1)) req)"
        using allAttemptsFail_nth [OF assms, of rc] Suc.prems by simp
      let ?w2 = "w1\<lparr>requests := requests w1 @ [req]\<rparr>"
      have step: "makeRequestWithRetry rt svc req rc w1 = makeRequestWithRetry rt svc req (rc + 1) ?w2"
        using lt by (simp add: makeRequestWithRetry_failed [OF nok])
      have "\<exists>w'. makeRequestWithRetry rt svc req (rc + 1) ?w2 = (None, w') \<and> draws w' = draws ?w2
          \<and> requests w' = requests ?w2 @ replicate (Suc (maxRetries svc - (rc + 1))) req"
        using Suc.hyps(2) Suc.prems lt by (intro Suc.hyps(1)) auto
      then obtain w' where w': "makeRequestWithRetry rt svc req (rc + 1) ?w2 = (None, w')"
        "draws w' = draws ?w2"
        "requests w' = requests ?w2 @ replicate (Suc (maxRetries svc - (rc + 1))) req" by blast
      have "requests w' = requests w1 @ replicate (Suc (maxRetries svc - rc)) req"
      proof -
        have "Suc (maxRetries svc - (rc + 1)) = maxRetries svc - rc" using lt by simp
        then have "requests w' = requests w1 @ [req] @ replicate (maxRetries svc - rc) req"
          using w'(3) by simp
        then show ?thesis by (simp add: replicate_append_same)
      qed
      with w' step show ?case by simp
    qed
  qed
  from gen [of 0 w] show ?thesis by simp
qed










lemma fetchPage_allFail:
  assumes "allAttemptsFail rt svc (pageRequest params pageNo) w"
  shows "\<exists>w'. fetchPage rt svc params pageNo (w, jobs) = (PageError, w', jobs) \<and>
     requests w' = requests w @ replicate (Suc (maxRetries svc)) (pageRequest params pageNo) \<and>
     draws w' = draws w"
  using makeRequestWithRetry_None [OF assms]
  by (auto simp add: fetchPage_def)

lemma upto_from_1: "1 \<le> n \<Longrightarrow> [1..n] = 1 # [2..n]"
  by (simp add: upto_rec1)






text \<open>
  Claim C3, amended. If every attempt of the request for the first page fails (an API
  key being configured, and the country a string or absent), the fetcher returns the
  output of the fallback generator, each job of it labelled "Fallback Data". If every attempt of the request for a later page fails, pagination
  stops there, and the jobs accepted so far are returned when there is at least one; when
  none has been accepted, the output of the fallback generator is returned instead.
\<close>

theorem C3_page_failure_fallback:
  "(apiKey svc \<noteq> [] \<and> isText (country_param params) \<and> 1 \<le> numPagesOf params \<and>
    allAttemptsFail rt svc (pageRequest params 1) w \<longrightarrow>
      (\<exists>w'. searchJobs rt svc params w = generateFallbackJobs rt params w' \<and>
            requests w' = requests w @ replicate (Suc (maxRetries svc)) (pageRequest params 1)) \<and>
      list_all (\<lambda>j. source j = ''Fallback Data'') (fst (searchJobs rt svc params w))) \<and>
   (pageNo \<noteq> 1 \<and> allAttemptsFail rt svc (pageRequest params pageNo) w \<longrightarrow>
      (\<exists>w'. runPages rt svc params (pageNo # rest) (w, jobs) =
              (if jobs = [] then generateFallbackJobs rt params w' else (jobs, w')) \<and>
            requests w' = requests w @ replicate (Suc (maxRetries svc)) (pageRequest params pageNo)))"
proof (intro conjI impI)
  assume a: "apiKey svc \<noteq> [] \<and> isText (country_param params) \<and> 1 \<le> numPagesOf params \<and>
    allAttemptsFail rt svc (pageRequest params 1) w"
  from fetchPage_allFail [of rt svc params 1 w "[]"] a obtain w' where
    w': "fetchPage rt svc params 1 (w, []) = (PageError, w', [])"
        "requests w' = requests w @ replicate (Suc (maxRetries svc)) (pageRequest params 1)"
    by blast
  have s: "searchJobs rt svc params w = generateFallbackJobs rt params w'"
    using a w'(1) by (simp add: searchJobs_def upto_from_1)
  with w'(2) show "\<exists>w'. searchJobs rt svc params w = generateFallbackJobs rt params w' \<and>
            requests w' = requests w @ replicate (Suc (maxRetries svc)) (pageRequest params 1)"
    by blast
  show "list_all (\<lambda>j. source j = ''Fallback Data'') (fst (searchJobs rt svc params w))"
    unfolding s by (rule generateFallbackJobs_source)
next
  assume a: "pageNo \<noteq> 1 \<and> allAttemptsFail rt svc (pageRequest params pageNo) w"
  from fetchPage_allFail [of rt svc params pageNo w jobs] a obtain w' where
    w': "fetchPage rt svc params pageNo (w, jobs) = (PageError, w', jobs)"
        "requests w' = requests w @ replicate (Suc (maxRetries svc)) (pageRequest params pageNo)"
    by blast
  have "runPages rt svc params (pageNo # rest) (w, jobs) =
              (if jobs = [] then generateFallbackJobs rt params w' else (jobs, w'))"
    using a w'(1) by (simp add: finish_def)
  with w'(2) show "\<exists>w'. runPages rt svc params (pageNo # rest) (w, jobs) =
              (if jobs = [] then generateFallbackJobs rt params w' else (jobs, w')) \<and>
            requests w' = requests w @ replicate (Suc (maxRetries svc)) (pageRequest params pageNo)"
    by blast
qed

theorem C3_page_failure_fallback_witness:
  "apiKey sampleService \<noteq> [] \<and> isText (country_param (sampleParams 2)) \<and>
   1 \<le> numPagesOf (sampleParams 2) \<and>
   allAttemptsFail (sampleRuntime (mockApi [None])) sampleService
     (pageRequest (sampleParams 2) 1) emptyWorld \<and>
   list_all (\<lambda>j. source j = ''Fallback Data'')
     (fst (searchJobs (sampleRuntime (mockApi [None])) sampleService (sampleParams 2) emptyWorld)) \<and>
   (2::int) \<noteq> 1 \<and>
   allAttemptsFail (sampleRuntime (mockApi [Some [puneJob], None])) sampleService
     (pageRequest (sampleParams 2) 2) \<lparr>requests = [pageRequest (sampleParams 2) 1], draws = 0\<rparr> \<and>
   snd (processJobs ''in'' [puneJob] []) \<noteq> [] \<and>
   fst (runPages (sampleRuntime (mockApi [Some [puneJob], None])) sampleService (sampleParams 2) [2]
          (\<lparr>requests = [pageRequest (sampleParams 2) 1], draws = 0\<rparr>,
           snd (processJobs ''in'' [puneJob] []))) = snd (processJobs ''in'' [puneJob] [])"
proof -
  have h1: "apiKey sampleService \<noteq> [] \<and> isText (country_param (sampleParams 2)) \<and>
     1 \<le> numPagesOf (sampleParams 2) \<and>
     allAttemptsFail (sampleRuntime (mockApi [None])) sampleService
       (pageRequest (sampleParams 2) 1) emptyWorld"
    by code_simp
  have h2: "(2::int) \<noteq> 1 \<and>
     allAttemptsFail (sampleRuntime (mockApi [Some [puneJob], None])) sampleService
       (pageRequest (sampleParams 2) 2) \<lparr>requests = [pageRequest (sampleParams 2) 1], draws = 0\<rparr>"
    by code_simp
  have h3: "snd (processJobs ''in'' [puneJob] []) \<noteq> []"
    by code_simp
  from h1 C3_page_failure_fallback
    [of sampleService "sampleParams 2" "sampleRuntime (mockApi [None])" emptyWorld]
  have c1: "list_all (\<lambda>j. source j = ''Fallback Data'')
     (fst (searchJobs (sampleRuntime (mockApi [None])) sampleService (sampleParams 2) emptyWorld))"
    by blast
  from h2 C3_page_failure_fallback
    [of sampleService "sampleParams 2" "sampleRuntime (mockApi [Some [puneJob], None])"
        "\<lparr>requests = [pageRequest (sampleParams 2) 1], draws = 0\<rparr>" 2 "[]"
        "snd (processJobs ''in'' [puneJob] [])"]
  obtain w' where "runPages (sampleRuntime (mockApi [Some [puneJob], None])) sampleService (sampleParams 2) [2]
          (\<lparr>requests = [pageRequest (sampleParams 2) 1], draws = 0\<rparr>,
           snd (processJobs ''in'' [puneJob] [])) =
       (if snd (processJobs ''in'' [puneJob] []) = []
        then generateFallbackJobs (sampleRuntime (mockApi [Some [puneJob], None])) (sampleParams 2) w'
        else (snd (processJobs ''in'' [puneJob] []), w'))"
    by blast
  with h3 have c2: "fst (runPages (sampleRuntime (mockApi [Some [puneJob], None])) sampleService (sampleParams 2) [2]
          (\<lparr>requests = [pageRequest (sampleParams 2) 1], draws = 0\<rparr>,
           snd (processJobs ''in'' [puneJob] []))) = snd (processJobs ''in'' [puneJob] [])"
    by simp
  from h1 h2 h3 c1 c2 show ?thesis by blast
qed

lemma sample_fallback_count:
  "length (fst (generateFallbackJobs (sampleRuntime f) params w)) = 20"
  by (simp add: generateFallbackJobs_length randomBelow_def sampleRuntime_def)

theorem C3_counterexample:
  "fetchPage (sampleRuntime (mockApi [Some [berlinJob], None])) sampleService (sampleParams 2) 1
     (emptyWorld, []) =
     (PageNext, \<lparr>requests = [pageRequest (sampleParams 2) 1], draws = 0\<rparr>, []) \<and>
   allAttemptsFail (sampleRuntime (mockApi [Some [berlinJob], None])) sampleService
     (pageRequest (sampleParams 2) 2) \<lparr>requests = [pageRequest (sampleParams 2) 1], draws = 0\<rparr> \<and>
   length (fst (searchJobs (sampleRuntime (mockApi [Some [berlinJob], None])) sampleService
                  (sampleParams 2) emptyWorld)) = 20"
proof -
  let ?rt = "sampleRuntime (mockApi [Some [berlinJob], None])"
  let ?w1 = "\<lparr>requests = [pageRequest (sampleParams 2) 1], draws = 0\<rparr>"
  have f1: "fetchPage ?rt sampleService (sampleParams 2) 1 (emptyWorld, []) = (PageNext, ?w1, [])"
    by code_simp
  have a2: "allAttemptsFail ?rt sampleService (pageRequest (sampleParams 2) 2) ?w1"
    by code_simp
  from fetchPage_allFail [OF a2, of "[]"] obtain w' where
    f2: "fetchPage ?rt sampleService (sampleParams 2) 2 (?w1, []) = (PageError, w', [])"
    by blast
  have k: "apiKey sampleService \<noteq> [] \<and> isText (country_param (sampleParams 2))" by code_simp
  have n: "[1..numPagesOf (sampleParams 2)] = [1, 2]" by code_simp
  have "searchJobs ?rt sampleService (sampleParams 2) emptyWorld =
          generateFallbackJobs ?rt (sampleParams 2) w'"
    using k by (simp add: searchJobs_def n f1 f2 finish_def)
  then have "length (fst (searchJobs ?rt sampleService (sampleParams 2) emptyWorld)) = 20"
    by (simp add: sample_fallback_count)
  with f1 a2 show ?thesis by blast
qed

text \<open>
  Claim C10. The search never returns an empty list. The fallback generator produces
  between 20 and 50 jobs, and its output is what the search returns when no API key is
  configured, when line 257 throws on a country that is neither a string nor absent (the
  top-level \<^verbatim>\<open>catch\<close>), when the first page fails, and when the loop over the pages ends
  with no accepted job.
\<close>

theorem C10_search_never_empty:
  "fst (searchJobs rt svc params w) \<noteq> [] \<and>
   20 \<le> length (fst (generateFallbackJobs rt params w0)) \<and>
   length (fst (generateFallbackJobs rt params w0)) \<le> 50 \<and>
   (apiKey svc = [] \<longrightarrow> searchJobs rt svc params w = generateFallbackJobs rt params w) \<and>
   (\<not> isText (country_param params) \<longrightarrow>
      searchJobs rt svc params w = generateFallbackJobs rt params w) \<and>
   (apiKey svc \<noteq> [] \<and> isText (country_param params) \<and> 1 \<le> numPagesOf params \<and>
    fetchPage rt svc params 1 (w, []) = (PageError, w', jobs') \<longrightarrow>
      searchJobs rt svc params w = generateFallbackJobs rt params w') \<and>
   (fetchPage rt svc params pageNo st = (PageBreak, w', []) \<longrightarrow>
      runPages rt svc params (pageNo # rest) st = generateFallbackJobs rt params w') \<and>
   runPages rt svc params [] (w0, []) = generateFallbackJobs rt params w0"
proof -
  have "length (fst (generateFallbackJobs rt params w0)) \<le> 50"
    using generateFallbackJobs_bounds(2) [of rt params w0] by simp
  moreover have "apiKey svc \<noteq> [] \<and> isText (country_param params) \<and> 1 \<le> numPagesOf params \<and>
    fetchPage rt svc params 1 (w, []) = (PageError, w', jobs') \<longrightarrow>
      searchJobs rt svc params w = generateFallbackJobs rt params w'"
    by (simp add: searchJobs_def upto_from_1)
  moreover have "fetchPage rt svc params pageNo st = (PageBreak, w', []) \<longrightarrow>
      runPages rt svc params (pageNo # rest) st = generateFallbackJobs rt params w'"
    by (simp add: finish_def)
  ultimately show ?thesis
    using searchJobs_nonempty [of rt svc params w] generateFallbackJobs_bounds(1) [of rt params w0]
    by (simp add: searchJobs_def finish_def)
qed


theorem C10_search_never_empty_witness:
  "apiKey (sampleService\<lparr>apiKey := []\<rparr>) = [] \<and>
   searchJobs (sampleRuntime (mockApi [])) (sampleService\<lparr>apiKey := []\<rparr>) (sampleParams 5) emptyWorld =
     generateFallbackJobs (sampleRuntime (mockApi [])) (sampleParams 5) emptyWorld \<and>
   fst (searchJobs (sampleRuntime (mockApi [])) (sampleService\<lparr>apiKey := []\<rparr>) (sampleParams 5)
          emptyWorld) \<noteq> [] \<and>
   apiKey sampleService \<noteq> [] \<and> isText (country_param (sampleParams 5)) \<and>
   1 \<le> numPagesOf (sampleParams 5) \<and>
   fetchPage (sampleRuntime (mockApi [None])) sampleService (sampleParams 5) 1 (emptyWorld, []) =
     (PageError, \<lparr>requests = replicate 4 (pageRequest (sampleParams 5) 1), draws = 0\<rparr>, []) \<and>
   searchJobs (sampleRuntime (mockApi [None])) sampleService (sampleParams 5) emptyWorld =
     generateFallbackJobs (sampleRuntime (mockApi [None])) (sampleParams 5)
       \<lparr>requests = replicate 4 (pageRequest (sampleParams 5) 1), draws = 0\<rparr> \<and>
   fetchPage (sampleRuntime (mockApi [Some [berlinJob]])) sampleService (sampleParams 5) 2
     (\<lparr>requests = [pageRequest (sampleParams 5) 1], draws = 0\<rparr>, []) =
     (PageBreak, \<lparr>requests = [pageRequest (sampleParams 5) 1, pageRequest (sampleParams 5) 2],
                  draws = 0\<rparr>, []) \<and>
   runPages (sampleRuntime (mockApi [Some [berlinJob]])) sampleService (sampleParams 5) [2, 3, 4, 5]
     (\<lparr>requests = [pageRequest (sampleParams 5) 1], draws = 0\<rparr>, []) =
     generateFallbackJobs (sampleRuntime (mockApi [Some [berlinJob]])) (sampleParams 5)
       \<lparr>requests = [pageRequest (sampleParams 5) 1, pageRequest (sampleParams 5) 2], draws = 0\<rparr>"
proof -
  let ?s0 = "sampleService\<lparr>apiKey := []\<rparr>"
  let ?w4 = "\<lparr>requests = replicate 4 (pageRequest (sampleParams 5) 1), draws = 0\<rparr>"
  let ?w1 = "\<lparr>requests = [pageRequest (sampleParams 5) 1], draws = 0\<rparr>"
  let ?w2 = "\<lparr>requests = [pageRequest (sampleParams 5) 1, pageRequest (sampleParams 5) 2], draws = 0\<rparr>"
  have h0: "apiKey ?s0 = []" by simp
  have h1: "apiKey sampleService \<noteq> [] \<and> isText (country_param (sampleParams 5)) \<and>
    1 \<le> numPagesOf (sampleParams 5)" by code_simp
  have h2: "fetchPage (sampleRuntime (mockApi [None])) sampleService (sampleParams 5) 1 (emptyWorld, []) =
     (PageError, ?w4, [])" by code_simp
  have h3: "fetchPage (sampleRuntime (mockApi [Some [berlinJob]])) sampleService (sampleParams 5) 2
     (?w1, []) = (PageBreak, ?w2, [])" by code_simp
  note c = C10_search_never_empty
  from h0 c [of "sampleRuntime (mockApi [])" ?s0 "sampleParams 5" emptyWorld]
  have a: "searchJobs (sampleRuntime (mockApi [])) ?s0 (sampleParams 5) emptyWorld =
     generateFallbackJobs (sampleRuntime (mockApi [])) (sampleParams 5) emptyWorld \<and>
     fst (searchJobs (sampleRuntime (mockApi [])) ?s0 (sampleParams 5) emptyWorld) \<noteq> []"
    by blast
  from h1 h2 c [of "sampleRuntime (mockApi [None])" sampleService "sampleParams 5" emptyWorld _ ?w4 "[]"]
  have b: "searchJobs (sampleRuntime (mockApi [None])) sampleService (sampleParams 5) emptyWorld =
     generateFallbackJobs (sampleRuntime (mockApi [None])) (sampleParams 5) ?w4"
    by blast
  from h3 c [of "sampleRuntime (mockApi [Some [berlinJob]])" sampleService "sampleParams 5" _ _ ?w2 _
      2 "(?w1, [])" "[3, 4, 5]"]
  have d: "runPages (sampleRuntime (mockApi [Some [berlinJob]])) sampleService (sampleParams 5) [2, 3, 4, 5]
     (?w1, []) = generateFallbackJobs (sampleRuntime (mockApi [Some [berlinJob]])) (sampleParams 5) ?w2"
    by blast
  from h0 h1 h2 h3 a b d show ?thesis by blast
qed




section \<open>Properties of the persistence of jobs\<close>

text \<open>
  The titles that reach \<^verbatim>\<open>saveJobsToDatabase\<close> can be printed: \<^verbatim>\<open>parseJobData\<close> has
  printed the title of every job it returns, the titles of the generator are strings, and
  \<^verbatim>\<open>runCrawlers\<close> passes the title on.
\<close>

lemma parseJobData_title_printable:
  assumes "parseJobData raw = Some job"
  shows "toStr (title job) \<noteq> None"
  using assms
  by (auto simp add: parseJobData_def parseJobDataBody_def logged_def Let_def
        split: if_splits Option.bind_splits prod.splits)

lemma fallbackJob_title_printable:
  "toStr (title (fallbackJob rt params k i)) \<noteq> None"
  by (simp add: fallbackJob_def Let_def)

lemma transformJob_title:
  assumes "transformJob rt job = Some d"
  shows "title_d d = jsOr (title job) (JStr ''Untitled'')"
  using assms by (auto simp add: transformJob_def split: if_splits Option.bind_splits)

lemma transformJob_title_printable:
  assumes "toStr (title job) \<noteq> None" and "transformJob rt job = Some d"
  shows "toStr (title_d d) \<noteq> None"
  using assms transformJob_title [OF assms(2)] by (simp add: jsOr_def)

lemma findIndex_Some:
  "findIndex P xs = Some i \<Longrightarrow> i < length xs \<and> P (xs ! i)"
proof (induction xs arbitrary: i)
  case Nil then show ?case by simp
next
  case (Cons x xs)
  show ?case
  proof (cases "P x")
    case True with Cons.prems show ?thesis by auto
  next
    case False
    with Cons.prems obtain k where k: "findIndex P xs = Some k" "i = Suc k" by auto
    from Cons.IH [OF k(1)] k(2) show ?thesis by simp
  qed
qed

lemma findIndex_None: "findIndex P xs = None \<longleftrightarrow> (\<forall>x\<in>set xs. \<not> P x)"
  by (induction xs) auto

lemma findIndex_append_new:
  "findIndex P xs = None \<Longrightarrow> P x \<Longrightarrow> findIndex P (xs @ [x]) = Some (length xs)"
  by (induction xs) (auto split: if_splits)

lemma findIndex_append_old:
  "findIndex P xs = Some i \<Longrightarrow> findIndex P (xs @ ys) = Some i"
  by (induction xs arbitrary: i) (auto split: if_splits)

lemma resolveCompany_found:
  assumes "resolveCompany db n = (cid, db1)"
  shows "findCompany db1 n = Some cid" and "jobDocs db1 = jobDocs db"
    and "cid < length (companyDocs db1)" and "company_name (companyDocs db1 ! cid) = n"
proof -
  show a: "findCompany db1 n = Some cid"
  proof (cases "findCompany db n")
    case None
    with assms have "cid = length (companyDocs db)"
      "companyDocs db1 = companyDocs db @
            [\<lparr>company_name = n, metadata_source = ''JSearch API'', metadata_createdVia = ''scraping''\<rparr>]"
      by (auto simp add: resolveCompany_def createCompany_def)
    with None show ?thesis
      by (simp add: findCompany_def findIndex_append_new)
  next
    case (Some i)
    with assms show ?thesis by (simp add: resolveCompany_def)
  qed
  show "jobDocs db1 = jobDocs db"
    using assms by (auto simp add: resolveCompany_def createCompany_def split: option.splits)
  from findIndex_Some [OF a [unfolded findCompany_def]]
  show "cid < length (companyDocs db1)" "company_name (companyDocs db1 ! cid) = n" by simp_all
qed

lemma resolveCompany_again:
  assumes "findCompany db n = Some cid"
  shows "resolveCompany db n = (cid, db)"
  using assms by (simp add: resolveCompany_def)

lemma findCompany_jobDocs_update [simp]:
  "findCompany (db\<lparr>jobDocs := ds\<rparr>) n = findCompany db n"
  by (simp add: findCompany_def)

lemma saveOne_existing:
  assumes "resolveCompany db (company_d jobData) = (cid, db1)"
    and "findJob db1 (title_d jobData, cid, location_d jobData) = Some i"
  shows "saveJobsToDatabase [jobData] b sid now db =
     (Some (0, 1), db1\<lparr>jobDocs := (jobDocs db1)
         [i := updatedDoc jobData cid (company_d jobData) b sid now (jobDocs db1 ! i)]\<rparr>)"
  using assms resolveCompany_found(4) [OF assms(1)]
  by (simp add: saveJobsToDatabase_def)

lemma saveOne_new:
  assumes "resolveCompany db (company_d jobData) = (cid, db1)"
    and "findJob db1 (title_d jobData, cid, location_d jobData) = None"
    and "toStr (title_d jobData) \<noteq> None"
  shows "saveJobsToDatabase [jobData] b sid now db =
     (Some (1, 0), db1\<lparr>jobDocs := jobDocs db1 @ [createdDoc jobData cid (company_d jobData) b sid now]\<rparr>)"
  using assms resolveCompany_found(4) [OF assms(1)]
  by (simp add: saveJobsToDatabase_def logged_def)

lemma saveOne_new_unprintable:
  assumes "resolveCompany db (company_d jobData) = (cid, db1)"
    and "findJob db1 (title_d jobData, cid, location_d jobData) = None"
    and "toStr (title_d jobData) = None"
  shows "saveJobsToDatabase [jobData] b sid now db =
     (None, db1\<lparr>jobDocs := jobDocs db1 @ [createdDoc jobData cid (company_d jobData) b sid now]\<rparr>)"
  using assms resolveCompany_found(4) [OF assms(1)]
  by (simp add: saveJobsToDatabase_def logged_def)

lemma filter_update_same:
  "i < length xs \<Longrightarrow> P (xs ! i) \<Longrightarrow> P y \<Longrightarrow>
     length (filter P (xs[i := y])) = length (filter P xs)"
proof (induction xs arbitrary: i)
  case Nil then show ?case by simp
next
  case (Cons x xs)
  show ?case
  proof (cases i)
    case 0 with Cons.prems show ?thesis by simp
  next
    case (Suc k)
    with Cons.prems have "length (filter P (xs[k := y])) = length (filter P xs)"
      by (intro Cons.IH) simp_all
    with Suc show ?thesis by simp
  qed
qed

lemma hasIdentity_createdDoc:
  "hasIdentity (title_d jobData, cid, location_d jobData) (createdDoc jobData cid cn b sid now)"
  by (simp add: hasIdentity_def createdDoc_def)

lemma hasIdentity_updatedDoc:
  "hasIdentity (title_d jobData, cid, location_d jobData) (updatedDoc jobData cid cn b sid now doc)"
  by (simp add: hasIdentity_def updatedDoc_def)

text \<open>
  The loop of \<^verbatim>\<open>saveJobsToDatabase\<close>, one job at a time: the job updates the record of its
  identity, or a record is added for it.
\<close>

lemma hasIdentity_docIdentity: "hasIdentity ident d \<longleftrightarrow> docIdentity d = ident"
  by (cases ident) (auto simp add: hasIdentity_def docIdentity_def)

lemma findJob_SomeD:
  assumes "findJob db ident = Some i"
  shows "i < length (jobDocs db) \<and> docIdentity (jobDocs db ! i) = ident"
  using findIndex_Some [OF assms [unfolded findJob_def]] by (simp add: hasIdentity_docIdentity)

lemma findJob_None_iff:
  "findJob db ident = None \<longleftrightarrow> ident \<notin> set (map docIdentity (jobDocs db))"
  by (auto simp add: findJob_def findIndex_None hasIdentity_docIdentity)

lemma findCompany_SomeD:
  assumes "findCompany db name' = Some c"
  shows "c < length (companyDocs db) \<and> company_name (companyDocs db ! c) = name'"
  using findIndex_Some [OF assms [unfolded findCompany_def]] by simp

lemma docIdentity_updatedDoc:
  "docIdentity (updatedDoc job c nm b s now d) = (title_d job, c, location_d job)"
  by (simp add: docIdentity_def updatedDoc_def)

lemma docIdentity_createdDoc:
  "docIdentity (createdDoc job c nm b s now) = (title_d job, c, location_d job)"
  by (simp add: docIdentity_def createdDoc_def)

lemma map_update_same:
  "i < length xs \<Longrightarrow> f y = f (xs ! i) \<Longrightarrow> map f (xs[i := y]) = map f xs"
  by (simp add: map_update list_update_same_conv)


lemma resolveCompany_stable:
  assumes "resolveCompany db n = (c, dbc)" and "findCompany db name' = Some k"
  shows "findCompany dbc name' = Some k"
  using assms
  by (auto simp add: resolveCompany_def createCompany_def findCompany_def findIndex_append_old
        split: option.splits)

lemma save_step:
  assumes pr: "toStr (title_d job) \<noteq> None"
  obtains (updated) db1 c i where
      "\<And>rest n u. saveJobsLoop (job # rest) b s now (n, u) db =
          saveJobsLoop rest b s now (n, u + 1) db1"
      "findCompany db1 (company_d job) = Some c"
      "i < length (jobDocs db)"
      "docIdentity (jobDocs db ! i) = (title_d job, c, location_d job)"
      "jobDocs db1 = (jobDocs db)[i := updatedDoc job c (company_d job) b s now (jobDocs db ! i)]"
      "\<And>name' k. findCompany db name' = Some k \<Longrightarrow> findCompany db1 name' = Some k"
  | (created) db1 c where
      "\<And>rest n u. saveJobsLoop (job # rest) b s now (n, u) db =
          saveJobsLoop rest b s now (n + 1, u) db1"
      "findCompany db1 (company_d job) = Some c"
      "(title_d job, c, location_d job) \<notin> set (map docIdentity (jobDocs db))"
      "jobDocs db1 = jobDocs db @ [createdDoc job c (company_d job) b s now]"
      "\<And>name' k. findCompany db name' = Some k \<Longrightarrow> findCompany db1 name' = Some k"
      "\<not> isStored db job"
proof -
  obtain c dbc where r: "resolveCompany db (company_d job) = (c, dbc)"
    by (cases "resolveCompany db (company_d job)") auto
  note f = resolveCompany_found [OF r]
  show thesis
  proof (cases "findJob dbc (title_d job, c, location_d job)")
    case None
    let ?db1 = "dbc\<lparr>jobDocs := jobDocs dbc @ [createdDoc job c (company_d job) b s now]\<rparr>"
    have step: "saveJobsLoop (job # rest) b s now (n, u) db =
        saveJobsLoop rest b s now (n + 1, u) ?db1" for rest n u
      using r None f(4) pr by (simp add: logged_def)
    have notin: "(title_d job, c, location_d job) \<notin> set (map docIdentity (jobDocs db))"
      using None f(2) by (simp add: findJob_None_iff)
    have ns: "\<not> isStored db job"
    proof
      assume "isStored db job"
      then obtain c0 where c0: "findCompany db (company_d job) = Some c0"
        and mem: "(title_d job, c0, location_d job) \<in> set (map docIdentity (jobDocs db))"
        by (auto simp add: isStored_def identityIn_def split: option.splits)
      from resolveCompany_again [OF c0] r have "c = c0" by simp
      with mem notin show False by simp
    qed
    show thesis
    proof (rule created [of ?db1 c])
      show "saveJobsLoop (job # rest) b s now (n, u) db =
          saveJobsLoop rest b s now (n + 1, u) ?db1" for rest n u by (rule step)
      show "findCompany ?db1 (company_d job) = Some c" using f(1) by simp
      show "(title_d job, c, location_d job) \<notin> set (map docIdentity (jobDocs db))"
        by (rule notin)
      show "jobDocs ?db1 = jobDocs db @ [createdDoc job c (company_d job) b s now]"
        using f(2) by simp
      show "findCompany ?db1 name' = Some k" if "findCompany db name' = Some k" for name' k
        using resolveCompany_stable [OF r that] by simp
      show "\<not> isStored db job" by (rule ns)
    qed
  next
    case (Some i)
    let ?db1 = "dbc\<lparr>jobDocs := (jobDocs dbc)
       [i := updatedDoc job c (company_d job) b s now (jobDocs dbc ! i)]\<rparr>"
    have step: "saveJobsLoop (job # rest) b s now (n, u) db =
        saveJobsLoop rest b s now (n, u + 1) ?db1" for rest n u
      using r Some f(4) by simp
    from findJob_SomeD [OF Some] f(2)
    have i: "i < length (jobDocs db)"
      and idt: "docIdentity (jobDocs db ! i) = (title_d job, c, location_d job)" by simp_all
    show thesis
    proof (rule updated [of ?db1 c i])
      show "saveJobsLoop (job # rest) b s now (n, u) db =
          saveJobsLoop rest b s now (n, u + 1) ?db1" for rest n u by (rule step)
      show "findCompany ?db1 (company_d job) = Some c" using f(1) by simp
      show "i < length (jobDocs db)" by (rule i)
      show "docIdentity (jobDocs db ! i) = (title_d job, c, location_d job)" by (rule idt)
      show "jobDocs ?db1 =
          (jobDocs db)[i := updatedDoc job c (company_d job) b s now (jobDocs db ! i)]"
        using f(2) by simp
      show "findCompany ?db1 name' = Some k" if "findCompany db name' = Some k" for name' k
        using resolveCompany_stable [OF r that] by simp
    qed
  qed
qed

lemma identityIn_stable:
  assumes "\<And>name' k. findCompany db name' = Some k \<Longrightarrow> findCompany db' name' = Some k"
    and "identityIn db j = Some x"
  shows "identityIn db' j = Some x"
  using assms by (auto simp add: identityIn_def)

lemma refreshed_mono:
  assumes "refreshed batch b s now db d" and "set batch \<subseteq> set batch'"
    and "\<And>name' k. findCompany db name' = Some k \<Longrightarrow> findCompany db' name' = Some k"
  shows "refreshed batch' b s now db' d"
  using assms identityIn_stable [of db db' "job_fields d" "docIdentity d"]
  by (auto simp add: refreshed_def)

lemma refreshed_updatedDoc:
  assumes "findCompany db (company_d job) = Some c" and "job \<in> set batch"
  shows "refreshed batch b s now db (updatedDoc job c (company_d job) b s now d)"
  using assms by (simp add: refreshed_def updatedDoc_def identityIn_def docIdentity_def)

lemma refreshed_createdDoc:
  assumes "findCompany db (company_d job) = Some c" and "job \<in> set batch"
  shows "refreshed batch b s now db (createdDoc job c (company_d job) b s now)"
  using assms by (simp add: refreshed_def createdDoc_def identityIn_def docIdentity_def)


text \<open>What a call of \<^verbatim>\<open>saveJobsToDatabase\<close> does to the store, by induction on its batch.\<close>

lemma isStored_mono:
  assumes "\<And>name' k. findCompany db name' = Some k \<Longrightarrow> findCompany db' name' = Some k"
    and "set (map docIdentity (jobDocs db)) \<subseteq> set (map docIdentity (jobDocs db'))"
    and "isStored db j"
  shows "isStored db' j"
proof -
  from assms(3) obtain x where x: "identityIn db j = Some x"
    and mem: "x \<in> set (map docIdentity (jobDocs db))"
    by (auto simp add: isStored_def split: option.splits)
  from identityIn_stable [OF assms(1) x] have "identityIn db' j = Some x" by simp
  with mem assms(2) show ?thesis by (auto simp add: isStored_def)
qed

lemma isStored_I:
  assumes "findCompany db (company_d j) = Some c"
    and "(title_d j, c, location_d j) \<in> set (map docIdentity (jobDocs db))"
  shows "isStored db j"
  using assms by (simp add: isStored_def identityIn_def)

lemma inserted_mono:
  assumes "inserted rest b s now db d"
  shows "inserted (job # rest) b s now db d"
  using assms by (auto simp add: inserted_def refreshed_def)

lemma inPlace_after_update:
  assumes ip: "inPlace rest b s now db' d1 d'"
    and d1: "d1 = (if hit then updatedDoc job c (company_d job) b s now d else d)"
    and idt: "hit \<longleftrightarrow> docIdentity d = (title_d job, c, location_d job)"
    and fc: "findCompany db' (company_d job) = Some c"
  shows "inPlace (job # rest) b s now db' d d'"
proof (cases hit)
  case True
  then have d1': "d1 = updatedDoc job c (company_d job) b s now d" using d1 by simp
  have same: "docIdentity d1 = docIdentity d" "status_stored d1 = status_stored d"
    "createdAt d1 = createdAt d"
    using True idt by (simp_all add: d1' docIdentity_updatedDoc) (simp_all add: updatedDoc_def)
  have hitj: "identityIn db' job = Some (docIdentity d)"
    using True idt fc by (simp add: identityIn_def)
  show ?thesis
  proof (cases "\<exists>j\<in>set rest. identityIn db' j = Some (docIdentity d)")
    case True
    with ip same show ?thesis
      by (auto simp add: inPlace_def refreshed_def)
  next
    case False
    with ip same have "d' = d1" by (auto simp add: inPlace_def)
    with d1' refreshed_updatedDoc [OF fc, where batch = "job # rest" and b = b and s = s and now = now and d = d] hitj same
    show ?thesis by (simp add: inPlace_def) (simp add: updatedDoc_def)
  qed
next
  case False
  then have d1': "d1 = d" using d1 by simp
  have nohit: "identityIn db' job \<noteq> Some (docIdentity d)"
    using False idt fc by (auto simp add: identityIn_def)
  show ?thesis
  proof (cases "\<exists>j\<in>set rest. identityIn db' j = Some (docIdentity d)")
    case True
    with ip d1' have "refreshed rest b s now db' d'"
      and rest: "docIdentity d' = docIdentity d" "status_stored d' = status_stored d"
        "createdAt d' = createdAt d" "source_stored d' = source_d (job_fields d')"
      by (simp_all add: inPlace_def)
    then have "refreshed (job # rest) b s now db' d'" by (simp add: refreshed_def)
    with True rest show ?thesis by (simp add: inPlace_def)
  next
    case False
    with ip d1' have "d' = d" by (simp add: inPlace_def)
    with False nohit show ?thesis by (simp add: inPlace_def)
  qed
qed

lemma inserted_from_created:
  assumes ip: "inPlace rest b s now db' (createdDoc job c (company_d job) b s now) d'"
    and fc: "findCompany db' (company_d job) = Some c"
  shows "inserted (job # rest) b s now db' d'"
proof (cases "\<exists>j\<in>set rest. identityIn db' j =
          Some (docIdentity (createdDoc job c (company_d job) b s now))")
  case True
  with ip show ?thesis
    by (auto simp add: inPlace_def inserted_def refreshed_def createdDoc_def)
next
  case False
  with ip have "d' = createdDoc job c (company_d job) b s now" by (auto simp add: inPlace_def)
  with refreshed_createdDoc [OF fc, where batch = "job # rest" and b = b and s = s and now = now]
  show ?thesis by (simp add: inserted_def) (simp add: createdDoc_def)
qed

lemma saveJobsLoop_run:
  assumes "distinct (map docIdentity (jobDocs db))"
    and "\<forall>j\<in>set batch. toStr (title_d j) \<noteq> None"
    and "saveJobsLoop batch b s now (n, u) db = (r, db')"
  shows "(\<exists>dn du. r = Some (n + dn, u + du) \<and> dn + du = length batch \<and>
            length (jobDocs db') = length (jobDocs db) + dn \<and>
            ((\<forall>j\<in>set batch. isStored db j) \<longrightarrow> dn = 0)) \<and>
         distinct (map docIdentity (jobDocs db')) \<and>
         (\<forall>name' k. findCompany db name' = Some k \<longrightarrow> findCompany db' name' = Some k) \<and>
         set (map docIdentity (jobDocs db)) \<subseteq> set (map docIdentity (jobDocs db')) \<and>
         (\<forall>j\<in>set batch. isStored db' j) \<and>
         (\<forall>i<length (jobDocs db). inPlace batch b s now db' (jobDocs db ! i) (jobDocs db' ! i)) \<and>
         (\<forall>i. length (jobDocs db) \<le> i \<and> i < length (jobDocs db') \<longrightarrow>
              inserted batch b s now db' (jobDocs db' ! i))"
  using assms
proof (induction batch arbitrary: n u db)
  case Nil
  then show ?case by (auto simp add: inPlace_def)
next
  case (Cons job rest)
  have pr: "toStr (title_d job) \<noteq> None" and prs: "\<forall>j\<in>set rest. toStr (title_d j) \<noteq> None"
    using Cons.prems(2) by simp_all
  note dist = Cons.prems(1)
  let ?ident = "\<lambda>c. (title_d job, c, location_d job)"
  show ?case
  proof (rule save_step [OF pr, where b = b and s = s and now = now and db = db], goal_cases)
    case (1 db1 c i)
    note updated = 1
    have run_rest: "saveJobsLoop rest b s now (n, u + 1) db1 = (r, db')"
      using Cons.prems(3) updated(1) by simp
    have ids1: "map docIdentity (jobDocs db1) = map docIdentity (jobDocs db)"
      using updated(3,4,5) by (simp add: map_update_same docIdentity_updatedDoc)
    have len1: "length (jobDocs db1) = length (jobDocs db)" using updated(5) by simp
    have dist1: "distinct (map docIdentity (jobDocs db1))" using dist ids1 by simp
    from Cons.IH [OF dist1 prs run_rest]
    obtain dn du where cnt: "r = Some (n + dn, u + 1 + du)" "dn + du = length rest"
        "length (jobDocs db') = length (jobDocs db1) + dn"
        "(\<forall>j\<in>set rest. isStored db1 j) \<longrightarrow> dn = 0"
      and d': "distinct (map docIdentity (jobDocs db'))"
      and c': "\<And>name' k. findCompany db1 name' = Some k \<Longrightarrow> findCompany db' name' = Some k"
      and sub': "set (map docIdentity (jobDocs db1)) \<subseteq> set (map docIdentity (jobDocs db'))"
      and s': "\<forall>j\<in>set rest. isStored db' j"
      and f': "\<And>i. i < length (jobDocs db1) \<Longrightarrow>
                 inPlace rest b s now db' (jobDocs db1 ! i) (jobDocs db' ! i)"
      and g': "\<And>i. length (jobDocs db1) \<le> i \<Longrightarrow> i < length (jobDocs db') \<Longrightarrow>
                 inserted rest b s now db' (jobDocs db' ! i)"
      by (auto simp add: add.assoc)
    have fc': "findCompany db' (company_d job) = Some c" using c' updated(2) by simp
    have stored1: "isStored db1 job"
    proof (rule isStored_I [OF updated(2)])
      have "?ident c \<in> set (map docIdentity (jobDocs db))"
        using updated(3,4) by (metis length_map nth_map nth_mem)
      then show "?ident c \<in> set (map docIdentity (jobDocs db1))" using ids1 by simp
    qed
    have mono1: "isStored db1 j" if "isStored db j" for j
      using isStored_mono [of db db1 j] updated(6) ids1 that by simp
    have "\<exists>dn' du'. r = Some (n + dn', u + du') \<and> dn' + du' = length (job # rest) \<and>
            length (jobDocs db') = length (jobDocs db) + dn' \<and>
            ((\<forall>j\<in>set (job # rest). isStored db j) \<longrightarrow> dn' = 0)"
    proof (intro exI conjI)
      show "r = Some (n + dn, u + (du + 1))" using cnt(1) by simp
      show "dn + (du + 1) = length (job # rest)" using cnt(2) by simp
      show "length (jobDocs db') = length (jobDocs db) + dn" using cnt(3) len1 by simp
      show "(\<forall>j\<in>set (job # rest). isStored db j) \<longrightarrow> dn = 0"
        using cnt(4) mono1 by simp
    qed
    moreover note d'
    moreover have "\<forall>name' k. findCompany db name' = Some k \<longrightarrow> findCompany db' name' = Some k"
      using updated(6) c' by blast
    moreover have "set (map docIdentity (jobDocs db)) \<subseteq> set (map docIdentity (jobDocs db'))"
      using sub' ids1 by simp
    moreover have "\<forall>j\<in>set (job # rest). isStored db' j"
      using s' isStored_mono [of db1 db' job] c' sub' stored1 by simp
    moreover have "\<forall>k<length (jobDocs db).
        inPlace (job # rest) b s now db' (jobDocs db ! k) (jobDocs db' ! k)"
    proof (intro allI impI)
      fix k assume k: "k < length (jobDocs db)"
      have hit: "k = i \<longleftrightarrow> docIdentity (jobDocs db ! k) = ?ident c"
      proof
        assume "k = i" with updated(4) show "docIdentity (jobDocs db ! k) = ?ident c" by simp
      next
        assume "docIdentity (jobDocs db ! k) = ?ident c"
        with updated(4) have "map docIdentity (jobDocs db) ! k = map docIdentity (jobDocs db) ! i"
          using k updated(3) by simp
        with nth_eq_iff_index_eq [OF dist, of k i] k updated(3) show "k = i" by simp
      qed
      have d1: "jobDocs db1 ! k =
          (if k = i then updatedDoc job c (company_d job) b s now (jobDocs db ! k)
           else jobDocs db ! k)"
        using updated(5) k by (simp add: nth_list_update)
      from inPlace_after_update [OF f' d1 hit fc'] k len1
      show "inPlace (job # rest) b s now db' (jobDocs db ! k) (jobDocs db' ! k)" by simp
    qed
    moreover have "\<forall>k. length (jobDocs db) \<le> k \<and> k < length (jobDocs db') \<longrightarrow>
        inserted (job # rest) b s now db' (jobDocs db' ! k)"
      using g' len1 inserted_mono by simp
    ultimately show ?case by blast
  next
    case (2 db1 c)
    note created = 2
    have run_rest: "saveJobsLoop rest b s now (n + 1, u) db1 = (r, db')"
      using Cons.prems(3) created(1) by simp
    have ids1: "map docIdentity (jobDocs db1) = map docIdentity (jobDocs db) @ [?ident c]"
      using created(4) by (simp add: docIdentity_createdDoc)
    have len1: "length (jobDocs db1) = length (jobDocs db) + 1" using created(4) by simp
    have dist1: "distinct (map docIdentity (jobDocs db1))" using dist ids1 created(3) by simp
    from Cons.IH [OF dist1 prs run_rest]
    obtain dn du where cnt: "r = Some (n + 1 + dn, u + du)" "dn + du = length rest"
        "length (jobDocs db') = length (jobDocs db1) + dn"
      and d': "distinct (map docIdentity (jobDocs db'))"
      and c': "\<And>name' k. findCompany db1 name' = Some k \<Longrightarrow> findCompany db' name' = Some k"
      and sub': "set (map docIdentity (jobDocs db1)) \<subseteq> set (map docIdentity (jobDocs db'))"
      and s': "\<forall>j\<in>set rest. isStored db' j"
      and f': "\<And>i. i < length (jobDocs db1) \<Longrightarrow>
                 inPlace rest b s now db' (jobDocs db1 ! i) (jobDocs db' ! i)"
      and g': "\<And>i. length (jobDocs db1) \<le> i \<Longrightarrow> i < length (jobDocs db') \<Longrightarrow>
                 inserted rest b s now db' (jobDocs db' ! i)"
      by (auto simp add: add.assoc)
    have fc': "findCompany db' (company_d job) = Some c" using c' created(2) by simp
    have stored1: "isStored db1 job"
      by (rule isStored_I [OF created(2)]) (simp add: ids1)
    have "\<exists>dn' du'. r = Some (n + dn', u + du') \<and> dn' + du' = length (job # rest) \<and>
            length (jobDocs db') = length (jobDocs db) + dn' \<and>
            ((\<forall>j\<in>set (job # rest). isStored db j) \<longrightarrow> dn' = 0)"
    proof (intro exI conjI)
      show "r = Some (n + (dn + 1), u + du)" using cnt(1) by simp
      show "(dn + 1) + du = length (job # rest)" using cnt(2) by simp
      show "length (jobDocs db') = length (jobDocs db) + (dn + 1)" using cnt(3) len1 by simp
      show "(\<forall>j\<in>set (job # rest). isStored db j) \<longrightarrow> dn + 1 = 0"
        using created(6) by simp
    qed
    moreover note d'
    moreover have "\<forall>name' k. findCompany db name' = Some k \<longrightarrow> findCompany db' name' = Some k"
      using created(5) c' by blast
    moreover have "set (map docIdentity (jobDocs db)) \<subseteq> set (map docIdentity (jobDocs db'))"
      using sub' ids1 by auto
    moreover have "\<forall>j\<in>set (job # rest). isStored db' j"
      using s' isStored_mono [of db1 db' job] c' sub' stored1 by simp
    moreover have "\<forall>k<length (jobDocs db).
        inPlace (job # rest) b s now db' (jobDocs db ! k) (jobDocs db' ! k)"
    proof (intro allI impI)
      fix k assume k: "k < length (jobDocs db)"
      have nohit: "False \<longleftrightarrow> docIdentity (jobDocs db ! k) = ?ident c"
        using created(3) k by (metis length_map nth_map nth_mem)
      have d1: "jobDocs db1 ! k =
          (if False then updatedDoc job c (company_d job) b s now (jobDocs db ! k)
           else jobDocs db ! k)"
        using created(4) k by (simp add: nth_append)
      have "k < length (jobDocs db1)" using k len1 by simp
      from inPlace_after_update [OF f' [OF this] d1 nohit fc']
      show "inPlace (job # rest) b s now db' (jobDocs db ! k) (jobDocs db' ! k)" .
    qed
    moreover have "\<forall>k. length (jobDocs db) \<le> k \<and> k < length (jobDocs db') \<longrightarrow>
        inserted (job # rest) b s now db' (jobDocs db' ! k)"
    proof (intro allI impI)
      fix k assume k: "length (jobDocs db) \<le> k \<and> k < length (jobDocs db')"
      show "inserted (job # rest) b s now db' (jobDocs db' ! k)"
      proof (cases "k = length (jobDocs db)")
        case True
        have "jobDocs db1 ! k = createdDoc job c (company_d job) b s now"
          using created(4) True by simp
        moreover have "k < length (jobDocs db1)" using True len1 by simp
        ultimately have "inPlace rest b s now db' (createdDoc job c (company_d job) b s now)
            (jobDocs db' ! k)"
          using f' [of k] by simp
        then show ?thesis using fc' by (rule inserted_from_created)
      next
        case False
        with k len1 have "length (jobDocs db1) \<le> k" by simp
        from g' [OF this] k show ?thesis by (simp add: inserted_mono)
      qed
    qed
    ultimately show ?case by blast
  qed
qed


lemma isStored_key:
  assumes "jobKey j = jobKey j'"
  shows "isStored db j = isStored db j'"
  using assms by (simp add: isStored_def identityIn_def jobKey_def)

lemma distinct_filter_one:
  assumes "distinct (map f xs)" and "y \<in> set (map f xs)"
  shows "length (filter (\<lambda>x. f x = y) xs) = 1"
  using assms
proof (induction xs)
  case Nil then show ?case by simp
next
  case (Cons x xs)
  show ?case
  proof (cases "f x = y")
    case True
    with Cons.prems have "y \<notin> set (map f xs)" by auto
    then have "filter (\<lambda>x. f x = y) xs = []" by (auto simp add: filter_empty_conv)
    with True show ?thesis by simp
  next
    case False
    with Cons show ?thesis by auto
  qed
qed

lemma isStored_exactly_one:
  assumes "distinct (map docIdentity (jobDocs db))" and "isStored db j"
  shows "\<exists>cid. findCompany db (company_d j) = Some cid \<and>
           length (filter (hasIdentity (title_d j, cid, location_d j)) (jobDocs db)) = 1"
proof -
  from assms(2) obtain cid where c: "findCompany db (company_d j) = Some cid"
    and mem: "(title_d j, cid, location_d j) \<in> set (map docIdentity (jobDocs db))"
    by (auto simp add: isStored_def identityIn_def split: option.splits)
  have "hasIdentity (title_d j, cid, location_d j) =
      (\<lambda>d. docIdentity d = (title_d j, cid, location_d j))"
    by (rule ext) (rule hasIdentity_docIdentity)
  with distinct_filter_one [OF assms(1) mem] c show ?thesis by simp
qed

text \<open>
  Claim C4. A batch of jobs is saved into a store in which no two records have the same
  identity, and then a second batch, each job of which has the title, the company name
  and the location of a job of the first batch; the two calls of \<^verbatim>\<open>saveJobsToDatabase\<close> may
  belong to different buckets and sessions, and the jobs of the second batch may differ
  from those of the first in every other field, the external job identifier among them.
  The titles are ones that can be printed, as the titles that \<^verbatim>\<open>runCrawlers\<close> passes are.

  The first call counts every job of its batch, as new or as updated; the store grows by
  as many records as it counts new jobs, and by none when every job of the batch is stored
  already. Each record that the store held is treated in place, and each record added is
  inserted: it has the status \<open>published\<close> and the session of the call. The second call
  counts no new job and counts every job of its batch as updated, the store does not grow,
  and each record is treated in place: at its position, with its identity, its status and
  its time of creation, it holds the fields of the job of the second batch, with the
  session, the bucket and the time of the second call. Afterwards the store holds, for
  every job of the two batches, exactly one record of its identity.
\<close>

theorem C4_dedup_by_title_company_location:
  assumes nodup: "distinct (map docIdentity (jobDocs db))"
    and printable: "\<forall>jobData \<in> set batch1. toStr (title_d jobData) \<noteq> None"
    and again: "\<forall>jobData \<in> set batch2. jobKey jobData \<in> jobKey ` set batch1"
    and first: "saveJobsToDatabase batch1 bucket1 session1 now1 db = (counts1, db2)"
    and second: "saveJobsToDatabase batch2 bucket2 session2 now2 db2 = (counts2, db3)"
  shows
    "(\<exists>newCount updatedCount.
        counts1 = Some (newCount, updatedCount) \<and>
        newCount + updatedCount = length batch1 \<and>
        length (jobDocs db2) = length (jobDocs db) + newCount \<and>
        ((\<forall>jobData \<in> set batch1. isStored db jobData) \<longrightarrow> newCount = 0)) \<and>
     (\<forall>i < length (jobDocs db).
        inPlace batch1 bucket1 session1 now1 db2 (jobDocs db ! i) (jobDocs db2 ! i)) \<and>
     (\<forall>i. length (jobDocs db) \<le> i \<and> i < length (jobDocs db2) \<longrightarrow>
        inserted batch1 bucket1 session1 now1 db2 (jobDocs db2 ! i)) \<and>
     counts2 = Some (0, length batch2) \<and>
     length (jobDocs db3) = length (jobDocs db2) \<and>
     (\<forall>i < length (jobDocs db2).
        inPlace batch2 bucket2 session2 now2 db3 (jobDocs db2 ! i) (jobDocs db3 ! i)) \<and>
     (\<forall>jobData \<in> set batch1 \<union> set batch2.
        \<exists>cid. findCompany db3 (company_d jobData) = Some cid \<and>
          length (filter (hasIdentity (title_d jobData, cid, location_d jobData))
                    (jobDocs db3)) = 1)"
proof -
  have run1: "saveJobsLoop batch1 bucket1 session1 now1 (0, 0) db = (counts1, db2)"
    using first by (simp add: saveJobsToDatabase_def)
  have run2: "saveJobsLoop batch2 bucket2 session2 now2 (0, 0) db2 = (counts2, db3)"
    using second by (simp add: saveJobsToDatabase_def)
  from saveJobsLoop_run [OF nodup printable run1]
  obtain n1 u1 where c1: "counts1 = Some (n1, u1)" "n1 + u1 = length batch1"
      "length (jobDocs db2) = length (jobDocs db) + n1"
      "(\<forall>jobData \<in> set batch1. isStored db jobData) \<longrightarrow> n1 = 0"
    and dist2: "distinct (map docIdentity (jobDocs db2))"
    and stored2: "\<forall>jobData \<in> set batch1. isStored db2 jobData"
    and old1: "\<forall>i < length (jobDocs db).
        inPlace batch1 bucket1 session1 now1 db2 (jobDocs db ! i) (jobDocs db2 ! i)"
    and new1: "\<forall>i. length (jobDocs db) \<le> i \<and> i < length (jobDocs db2) \<longrightarrow>
        inserted batch1 bucket1 session1 now1 db2 (jobDocs db2 ! i)"
    by auto
  have printable2: "\<forall>jobData \<in> set batch2. toStr (title_d jobData) \<noteq> None"
  proof
    fix j assume "j \<in> set batch2"
    with again obtain j1 where "j1 \<in> set batch1" "jobKey j = jobKey j1" by auto
    with printable show "toStr (title_d j) \<noteq> None" by (auto simp add: jobKey_def)
  qed
  have known2: "\<forall>jobData \<in> set batch2. isStored db2 jobData"
  proof
    fix j assume "j \<in> set batch2"
    with again obtain j1 where "j1 \<in> set batch1" "jobKey j = jobKey j1" by auto
    with stored2 isStored_key [of j j1 db2] show "isStored db2 j" by simp
  qed
  from saveJobsLoop_run [OF dist2 printable2 run2] known2
  obtain n2 u2 where c2: "counts2 = Some (n2, u2)" "n2 + u2 = length batch2"
      "length (jobDocs db3) = length (jobDocs db2) + n2" "n2 = 0"
    and dist3: "distinct (map docIdentity (jobDocs db3))"
    and comp3: "\<And>name' k. findCompany db2 name' = Some k \<Longrightarrow> findCompany db3 name' = Some k"
    and sub3: "set (map docIdentity (jobDocs db2)) \<subseteq> set (map docIdentity (jobDocs db3))"
    and stored3: "\<forall>jobData \<in> set batch2. isStored db3 jobData"
    and old2: "\<forall>i < length (jobDocs db2).
        inPlace batch2 bucket2 session2 now2 db3 (jobDocs db2 ! i) (jobDocs db3 ! i)"
    by auto
  have one: "\<forall>jobData \<in> set batch1 \<union> set batch2.
        \<exists>cid. findCompany db3 (company_d jobData) = Some cid \<and>
          length (filter (hasIdentity (title_d jobData, cid, location_d jobData))
                    (jobDocs db3)) = 1"
  proof
    fix j assume "j \<in> set batch1 \<union> set batch2"
    then have "isStored db3 j"
      using stored3 stored2 isStored_mono [of db2 db3 j] comp3 sub3 by auto
    with dist3 show "\<exists>cid. findCompany db3 (company_d j) = Some cid \<and>
          length (filter (hasIdentity (title_d j, cid, location_d j)) (jobDocs db3)) = 1"
      by (rule isStored_exactly_one)
  qed
  have "\<exists>newCount updatedCount.
        counts1 = Some (newCount, updatedCount) \<and>
        newCount + updatedCount = length batch1 \<and>
        length (jobDocs db2) = length (jobDocs db) + newCount \<and>
        ((\<forall>jobData \<in> set batch1. isStored db jobData) \<longrightarrow> newCount = 0)"
    using c1 by blast
  moreover note old1 new1
  moreover have "counts2 = Some (0, length batch2)" using c2 by simp
  moreover have "length (jobDocs db3) = length (jobDocs db2)" using c2 by simp
  moreover note old2 one
  ultimately show ?thesis by blast
qed


theorem C4_dedup_by_title_company_location_witness:
  "distinct (map docIdentity (jobDocs seededStore)) \<and>
   list_all (\<lambda>jobData. toStr (title_d jobData) \<noteq> None) firstBatch \<and>
   set (map jobKey secondBatch) \<subseteq> set (map jobKey firstBatch) \<and>
   map meta_jobId firstBatch = [JStr ''a1'', JStr ''a2''] \<and>
   map meta_jobId secondBatch = [JStr ''b2'', JStr ''b1''] \<and>
   length (jobDocs seededStore) = 1 \<and>
   fst (saveJobsToDatabase firstBatch ''engineer'' ''session-1'' 1000 seededStore) = Some (1, 1) \<and>
   length (jobDocs (snd (saveJobsToDatabase firstBatch ''engineer'' ''session-1'' 1000
                           seededStore))) = 2 \<and>
   sessionId_stored (jobDocs (snd (saveJobsToDatabase firstBatch ''engineer'' ''session-1'' 1000
                                     seededStore)) ! 0) = ''session-1'' \<and>
   status_stored (jobDocs (snd (saveJobsToDatabase firstBatch ''engineer'' ''session-1'' 1000
                                     seededStore)) ! 1) = ''published'' \<and>
   fst (saveJobsToDatabase secondBatch ''developer'' ''session-2'' 2000
          (snd (saveJobsToDatabase firstBatch ''engineer'' ''session-1'' 1000 seededStore))) =
     Some (0, 2) \<and>
   length (jobDocs (snd (saveJobsToDatabase secondBatch ''developer'' ''session-2'' 2000
          (snd (saveJobsToDatabase firstBatch ''engineer'' ''session-1'' 1000 seededStore))))) =
     2 \<and>
   sessionId_stored (jobDocs (snd (saveJobsToDatabase secondBatch ''developer'' ''session-2'' 2000
          (snd (saveJobsToDatabase firstBatch ''engineer'' ''session-1'' 1000 seededStore))))
        ! 0) = ''session-2'' \<and>
   bucket_stored (jobDocs (snd (saveJobsToDatabase secondBatch ''developer'' ''session-2'' 2000
          (snd (saveJobsToDatabase firstBatch ''engineer'' ''session-1'' 1000 seededStore))))
        ! 0) = ''developer'' \<and>
   meta_jobId (job_fields (jobDocs (snd (saveJobsToDatabase secondBatch ''developer''
          ''session-2'' 2000
          (snd (saveJobsToDatabase firstBatch ''engineer'' ''session-1'' 1000 seededStore))))
        ! 0)) = JStr ''b1'' \<and>
   createdAt (jobDocs (snd (saveJobsToDatabase secondBatch ''developer'' ''session-2'' 2000
          (snd (saveJobsToDatabase firstBatch ''engineer'' ''session-1'' 1000 seededStore))))
        ! 0) = Some 500 \<and>
   length (filter (hasIdentity (JStr ''Data Engineer'', 0, ''Pune, IN''))
     (jobDocs (snd (saveJobsToDatabase secondBatch ''developer'' ''session-2'' 2000
          (snd (saveJobsToDatabase firstBatch ''engineer'' ''session-1'' 1000 seededStore))))))
     = 1"
proof -
  let ?r1 = "saveJobsToDatabase firstBatch ''engineer'' ''session-1'' 1000 seededStore"
  let ?r2 = "saveJobsToDatabase secondBatch ''developer'' ''session-2'' 2000 (snd ?r1)"
  have nodup: "distinct (map docIdentity (jobDocs seededStore))" by code_simp
  have printable: "\<forall>jobData \<in> set firstBatch. toStr (title_d jobData) \<noteq> None" by code_simp
  have again: "\<forall>jobData \<in> set secondBatch. jobKey jobData \<in> jobKey ` set firstBatch"
    by code_simp
  have first: "?r1 = (fst ?r1, snd ?r1)" by simp
  have second: "?r2 = (fst ?r2, snd ?r2)" by simp
  note main = C4_dedup_by_title_company_location [OF nodup printable again first second]
  have ids: "map meta_jobId firstBatch = [JStr ''a1'', JStr ''a2'']"
    "map meta_jobId secondBatch = [JStr ''b2'', JStr ''b1'']" by code_simp+
  have len0: "length (jobDocs seededStore) = 1" by code_simp
  have c1: "fst ?r1 = Some (1, 1)" by code_simp
  have len1: "length (jobDocs (snd ?r1)) = 2" by code_simp
  have hit1: "\<exists>jobData \<in> set firstBatch.
      identityIn (snd ?r1) jobData = Some (docIdentity (jobDocs seededStore ! 0))" by code_simp
  from main len0 have "inPlace firstBatch ''engineer'' ''session-1'' 1000 (snd ?r1)
      (jobDocs seededStore ! 0) (jobDocs (snd ?r1) ! 0)" by simp
  with hit1 have s1: "sessionId_stored (jobDocs (snd ?r1) ! 0) = ''session-1''"
    by (simp add: inPlace_def refreshed_def)
  from main len0 len1 have "inserted firstBatch ''engineer'' ''session-1'' 1000 (snd ?r1)
      (jobDocs (snd ?r1) ! 1)" by simp
  then have p1: "status_stored (jobDocs (snd ?r1) ! 1) = ''published''"
    by (simp add: inserted_def)
  have lb: "length secondBatch = 2" by code_simp
  from main lb have c2: "fst ?r2 = Some (0, 2)" by simp
  from main len1 have len2: "length (jobDocs (snd ?r2)) = 2" by simp
  have hit2: "\<exists>jobData \<in> set secondBatch.
      identityIn (snd ?r2) jobData = Some (docIdentity (jobDocs (snd ?r1) ! 0))" by code_simp
  from main len1 have "inPlace secondBatch ''developer'' ''session-2'' 2000 (snd ?r2)
      (jobDocs (snd ?r1) ! 0) (jobDocs (snd ?r2) ! 0)" by simp
  with hit2 have s2: "sessionId_stored (jobDocs (snd ?r2) ! 0) = ''session-2''"
    and b2: "bucket_stored (jobDocs (snd ?r2) ! 0) = ''developer''"
    and k2: "createdAt (jobDocs (snd ?r2) ! 0) = createdAt (jobDocs (snd ?r1) ! 0)"
    by (simp_all add: inPlace_def refreshed_def)
  have k1: "createdAt (jobDocs (snd ?r1) ! 0) = Some 500" by code_simp
  have e2: "meta_jobId (job_fields (jobDocs (snd ?r2) ! 0)) = JStr ''b1''" by code_simp
  have mem: "sampleJobData ''a1'' \<in> set firstBatch \<union> set secondBatch" by code_simp
  have cid: "findCompany (snd ?r2) (company_d (sampleJobData ''a1'')) = Some 0" by code_simp
  have ttl: "title_d (sampleJobData ''a1'') = JStr ''Data Engineer''"
    "location_d (sampleJobData ''a1'') = ''Pune, IN''" by code_simp+
  from main mem obtain cid' where
    "findCompany (snd ?r2) (company_d (sampleJobData ''a1'')) = Some cid'"
    "length (filter (hasIdentity (title_d (sampleJobData ''a1''), cid',
        location_d (sampleJobData ''a1''))) (jobDocs (snd ?r2))) = 1" by blast
  with cid ttl have one: "length (filter (hasIdentity (JStr ''Data Engineer'', 0, ''Pune, IN''))
      (jobDocs (snd ?r2))) = 1" by simp
  have printable': "list_all (\<lambda>jobData. toStr (title_d jobData) \<noteq> None) firstBatch"
    using printable by (simp add: list_all_iff)
  have again': "set (map jobKey secondBatch) \<subseteq> set (map jobKey firstBatch)"
    using again by auto
  from nodup printable' again' ids len0 c1 len1 s1 p1 c2 len2 s2 b2 e2 k1 k2 one
  show ?thesis by simp
qed

section \<open>Properties of the ingestion orchestrator\<close>

text \<open>The service of the module never throws: \<^verbatim>\<open>searchJobs\<close> catches everything.\<close>

lemma jsearchService_never_throws:
  "\<not> fetchThrows (jsearchService rt svc) params st"
  by (simp add: fetchThrows_def jsearchService_def split: prod.splits)

lemma bucketBody_lists:
  assumes "bucketBody rt search body m sid b (t, db, w) = (ok, t', db', w')"
  shows "bucketsCompleted_n t' = bucketsCompleted_n t \<and> bucketsFailed_n t' = bucketsFailed_n t"
  using assms
  by (auto simp add: bucketBody_def Let_def split: prod.splits option.splits if_splits)

lemma scrapeBucket_lists:
  assumes "scrapeBucket rt search body m sid b (t, db, w) = (t', db', w')"
  shows "(if bucketThrows rt search body m sid b (t, db, w)
          then bucketsFailed_n t' = bucketsFailed_n t @ [b] \<and>
               bucketsCompleted_n t' = bucketsCompleted_n t
          else bucketsCompleted_n t' = bucketsCompleted_n t @ [b] \<and>
               bucketsFailed_n t' = bucketsFailed_n t)"
proof -
  obtain ok t1 db1 w1 where bb: "bucketBody rt search body m sid b (t, db, w) = (ok, t1, db1, w1)"
    by (cases "bucketBody rt search body m sid b (t, db, w)") auto
  from bucketBody_lists [OF bb] bb assms show ?thesis
    by (auto simp add: scrapeBucket_def bucketThrows_def split: if_splits)
qed

lemma fetchThrows_bucketThrows:
  "fetchThrows search (bucketParams body m b) st \<Longrightarrow> bucketThrows rt search body m sid b st"
  by (cases st)
     (auto simp add: fetchThrows_def bucketThrows_def bucketBody_def Let_def split: prod.splits)

lemma scrapeBuckets_counts:
  "scrapeBuckets rt search body m sid bs (t, db, w) = (t', db', w') \<Longrightarrow>
     count_list (bucketsCompleted_n t') x + count_list (bucketsFailed_n t') x =
     count_list (bucketsCompleted_n t) x + count_list (bucketsFailed_n t) x + count_list bs x"
proof (induction bs arbitrary: t db w)
  case Nil then show ?case by simp
next
  case (Cons b bs)
  obtain t1 db1 w1 where s: "scrapeBucket rt search body m sid b (t, db, w) = (t1, db1, w1)"
    by (cases "scrapeBucket rt search body m sid b (t, db, w)") auto
  with Cons.prems have "scrapeBuckets rt search body m sid bs (t1, db1, w1) = (t', db', w')"
    by simp
  from Cons.IH [OF this] scrapeBucket_lists [OF s] show ?case
    by (auto split: if_splits)
qed

lemma scrapeBuckets_throwing:
  assumes "\<forall>w. fst (search (bucketParams body m x) w) = None"
  shows "scrapeBuckets rt search body m sid bs (t, db, w) = (t', db', w') \<Longrightarrow>
     x \<notin> set (bucketsCompleted_n t) \<Longrightarrow> x \<notin> set (bucketsCompleted_n t')"
proof (induction bs arbitrary: t db w)
  case Nil then show ?case by simp
next
  case (Cons b bs)
  obtain t1 db1 w1 where s: "scrapeBucket rt search body m sid b (t, db, w) = (t1, db1, w1)"
    by (cases "scrapeBucket rt search body m sid b (t, db, w)") auto
  with Cons.prems have run: "scrapeBuckets rt search body m sid bs (t1, db1, w1) = (t', db', w')"
    by simp
  have "x \<notin> set (bucketsCompleted_n t1)"
  proof (cases "b = x")
    case True
    have "fetchThrows search (bucketParams body m b) (t, db, w)"
      using assms True by (simp add: fetchThrows_def)
    then have "bucketThrows rt search body m sid b (t, db, w)"
      by (rule fetchThrows_bucketThrows)
    with scrapeBucket_lists [OF s] Cons.prems(2) show ?thesis by simp
  next
    case False
    with scrapeBucket_lists [OF s] Cons.prems(2) show ?thesis by (auto split: if_splits)
  qed
  with Cons.IH [OF run] show ?case by simp
qed

lemma count_list_pos: "0 < count_list xs x \<longleftrightarrow> x \<in> set xs"
  by (induction xs) auto

lemma runCrawlers_final:
  assumes "buckets body \<noteq> []"
    and "\<not> sessionCreateFails (storeFaults env)" and "\<not> auditStartedFails (storeFaults env)"
    and "\<not> sessionUpdateFails (storeFaults env)" and "\<not> auditCompletedFails (storeFaults env)"
  shows "sessions (snd (runCrawlers rt search env body sys)) ! length (sessions sys) =
     completionPatch env body
       (fst (scrapeBuckets rt search body (mapCountry (country_body body)) (uuidv4 env)
               (buckets body) (emptyTally, jobStore sys, network sys)))
       (newSession env body (mapCountry (country_body body)))"
  using assms
  by (simp add: runCrawlers_def backgroundTask_def verifyScrapedJobsInDatabase_def Let_def
        split: prod.splits)

lemma completionPatch_sel:
  "status (completionPatch env body t s) = (if bucketsFailed_n t = [] then Completed else Partial)"
  "bucketsCompleted (completionPatch env body t s) = bucketsCompleted_n t"
  "bucketsFailed (completionPatch env body t s) = bucketsFailed_n t"
  by (simp_all add: completionPatch_def)

text \<open>
  The session after a run in which every write of the main path succeeds.
\<close>

lemma session_after_successful_writes:
  assumes nonempty: "buckets body \<noteq> []"
    and created: "\<not> sessionCreateFails (storeFaults env)"
    and started: "\<not> auditStartedFails (storeFaults env)"
    and updated: "\<not> sessionUpdateFails (storeFaults env)"
    and audited: "\<not> auditCompletedFails (storeFaults env)"
    and run: "runCrawlers rt search env body sys = (answer, sys')"
    and final: "final = sessions sys' ! length (sessions sys)"
    and m: "m = mapCountry (country_body body)"
    and s0: "s0 = (emptyTally, jobStore sys, network sys)"
  shows
    "status final = (if bucketsFailed final = [] then Completed else Partial) \<and>
     (\<forall>b. count_list (bucketsCompleted final) b + count_list (bucketsFailed final) b =
          count_list (buckets body) b) \<and>
     (\<forall>b \<in> set (buckets body).
        (\<forall>w. fst (search (bucketParams body m b) w) = None) \<longrightarrow>
          b \<in> set (bucketsFailed final) \<and> b \<notin> set (bucketsCompleted final)) \<and>
     (\<forall>b1 b2 b3.
        buckets body = [b1, b2, b3] \<and>
        \<not> bucketThrows rt search body m (uuidv4 env) b1 s0 \<and>
        fetchThrows search (bucketParams body m b2)
          (scrapeBucket rt search body m (uuidv4 env) b1 s0) \<and>
        \<not> bucketThrows rt search body m (uuidv4 env) b3
            (scrapeBucket rt search body m (uuidv4 env) b2
               (scrapeBucket rt search body m (uuidv4 env) b1 s0)) \<longrightarrow>
          status final = Partial \<and> bucketsCompleted final = [b1, b3] \<and>
          bucketsFailed final = [b2])"
proof -
  obtain t db w where loop:
    "scrapeBuckets rt search body m (uuidv4 env) (buckets body) s0 = (t, db, w)"
    by (cases "scrapeBuckets rt search body m (uuidv4 env) (buckets body) s0") auto
  have fin: "final = completionPatch env body t (newSession env body m)"
    using runCrawlers_final [OF nonempty created started updated audited, of rt search sys]
      run final loop m s0 by simp
  have loop': "scrapeBuckets rt search body m (uuidv4 env) (buckets body)
      (emptyTally, jobStore sys, network sys) = (t, db, w)"
    using loop s0 by simp
  have counts: "count_list (bucketsCompleted_n t) b + count_list (bucketsFailed_n t) b =
      count_list (buckets body) b" for b
    using scrapeBuckets_counts [OF loop', of b] by (simp add: emptyTally_def)
  have a: "status final = (if bucketsFailed final = [] then Completed else Partial)"
    by (simp add: fin completionPatch_sel)
  have b: "\<forall>b. count_list (bucketsCompleted final) b + count_list (bucketsFailed final) b =
          count_list (buckets body) b"
    using counts by (simp add: fin completionPatch_sel)
  have c: "\<forall>b \<in> set (buckets body).
        (\<forall>w. fst (search (bucketParams body m b) w) = None) \<longrightarrow>
          b \<in> set (bucketsFailed final) \<and> b \<notin> set (bucketsCompleted final)"
  proof (intro ballI impI)
    fix b assume inb: "b \<in> set (buckets body)"
      and th: "\<forall>w. fst (search (bucketParams body m b) w) = None"
    have nc: "b \<notin> set (bucketsCompleted_n t)"
      using scrapeBuckets_throwing [OF th loop'] by (simp add: emptyTally_def)
    then have "count_list (bucketsCompleted_n t) b = 0"
      using count_list_pos [of "bucketsCompleted_n t" b] by simp
    with counts [of b] inb have "0 < count_list (bucketsFailed_n t) b"
      using count_list_pos [of "buckets body" b] by simp
    then have "b \<in> set (bucketsFailed_n t)" by (simp add: count_list_pos)
    with nc show "b \<in> set (bucketsFailed final) \<and> b \<notin> set (bucketsCompleted final)"
      by (simp add: fin completionPatch_sel)
  qed
  have d: "\<forall>b1 b2 b3.
        buckets body = [b1, b2, b3] \<and>
        \<not> bucketThrows rt search body m (uuidv4 env) b1 s0 \<and>
        fetchThrows search (bucketParams body m b2)
          (scrapeBucket rt search body m (uuidv4 env) b1 s0) \<and>
        \<not> bucketThrows rt search body m (uuidv4 env) b3
            (scrapeBucket rt search body m (uuidv4 env) b2
               (scrapeBucket rt search body m (uuidv4 env) b1 s0)) \<longrightarrow>
          status final = Partial \<and> bucketsCompleted final = [b1, b3] \<and>
          bucketsFailed final = [b2]"
  proof (intro allI impI)
    fix b1 b2 b3
    assume h: "buckets body = [b1, b2, b3] \<and>
        \<not> bucketThrows rt search body m (uuidv4 env) b1 s0 \<and>
        fetchThrows search (bucketParams body m b2)
          (scrapeBucket rt search body m (uuidv4 env) b1 s0) \<and>
        \<not> bucketThrows rt search body m (uuidv4 env) b3
            (scrapeBucket rt search body m (uuidv4 env) b2
               (scrapeBucket rt search body m (uuidv4 env) b1 s0))"
    obtain t1 db1 w1 where s1:
      "scrapeBucket rt search body m (uuidv4 env) b1 (emptyTally, jobStore sys, network sys) =
         (t1, db1, w1)"
      by (cases "scrapeBucket rt search body m (uuidv4 env) b1
                   (emptyTally, jobStore sys, network sys)") auto
    obtain t2 db2 w2 where s2:
      "scrapeBucket rt search body m (uuidv4 env) b2 (t1, db1, w1) = (t2, db2, w2)"
      by (cases "scrapeBucket rt search body m (uuidv4 env) b2 (t1, db1, w1)") auto
    obtain t3 db3 w3 where s3:
      "scrapeBucket rt search body m (uuidv4 env) b3 (t2, db2, w2) = (t3, db3, w3)"
      by (cases "scrapeBucket rt search body m (uuidv4 env) b3 (t2, db2, w2)") auto
    have t3: "t = t3" using loop' h s1 s2 s3 by simp
    have l1: "bucketsCompleted_n t1 = [b1] \<and> bucketsFailed_n t1 = []"
      using scrapeBucket_lists [OF s1] h s0 by (simp add: emptyTally_def)
    have "bucketThrows rt search body m (uuidv4 env) b2 (t1, db1, w1)"
      using h s0 s1 fetchThrows_bucketThrows [of search body m b2 "(t1, db1, w1)"] by simp
    then have l2: "bucketsCompleted_n t2 = [b1] \<and> bucketsFailed_n t2 = [b2]"
      using scrapeBucket_lists [OF s2] l1 by simp
    have "\<not> bucketThrows rt search body m (uuidv4 env) b3 (t2, db2, w2)"
      using h s0 s1 s2 by simp
    then have l3: "bucketsCompleted_n t3 = [b1, b3] \<and> bucketsFailed_n t3 = [b2]"
      using scrapeBucket_lists [OF s3] l2 by simp
    show "status final = Partial \<and> bucketsCompleted final = [b1, b3] \<and>
          bucketsFailed final = [b2]"
      using l3 t3 by (simp add: fin completionPatch_sel)
  qed
  from a b c d show ?thesis by blast
qed


text \<open>
  The session after a run in which a write after the loop fails: the \<^verbatim>\<open>catch\<close> of line 584
  marks it failed, unless its own update of the session fails too.
\<close>

lemma session_after_failed_writes:
  assumes "buckets body \<noteq> []"
    and "\<not> sessionCreateFails (storeFaults env)" and "\<not> auditStartedFails (storeFaults env)"
    and "final = sessions (snd (runCrawlers rt search env body sys)) ! length (sessions sys)"
  shows
    "(sessionUpdateFails (storeFaults env) \<or> auditCompletedFails (storeFaults env)) \<and>
     \<not> sessionFailedUpdateFails (storeFaults env) \<longrightarrow>
       status final = Failed \<and> errorMessage final = Some (storeError env)"
    "sessionUpdateFails (storeFaults env) \<and> sessionFailedUpdateFails (storeFaults env) \<longrightarrow>
       status final = InProgress \<and> bucketsCompleted final = [] \<and> bucketsFailed final = []"
    "\<not> sessionUpdateFails (storeFaults env) \<and> auditCompletedFails (storeFaults env) \<and>
     sessionFailedUpdateFails (storeFaults env) \<longrightarrow>
       status final = (if bucketsFailed final = [] then Completed else Partial)"
  using assms
  by (auto simp add: runCrawlers_def backgroundTask_def onScrapeError_def completionPatch_def
        newSession_def Let_def split: prod.splits)

text \<open>
  Claim C5, amended. Take a run of \<^verbatim>\<open>runCrawlers\<close> on a non-empty list of buckets in which
  the session is created and the audit entry of the start is written.

  When the update of the session and the audit entry after the loop are written too, the
  final status of the session is \<open>completed\<close> exactly when its list of failed buckets is
  empty, and \<open>partial\<close> otherwise; every bucket of the request is in exactly one of the two
  lists, as often as it was requested; a bucket whose search throws is in the list of
  failed buckets and not in the list of completed ones, whatever its place in the request;
  and with three buckets of which the first and the third do not throw and the second
  throws during the fetch, the status is \<open>partial\<close>, the completed buckets are the first and
  the third, and the failed bucket is the second.

  When the update of the session or the audit entry after the loop cannot be written, and
  the update of the \<^verbatim>\<open>catch\<close> of line 584 can, the final status is \<open>failed\<close> and the session
  holds the text of the error. When the update of the \<^verbatim>\<open>catch\<close> cannot be written either, the
  session stays as the last write that succeeded has left it: \<open>in_progress\<close> with empty
  lists when that is its creation, \<open>completed\<close> or \<open>partial\<close> when that is the update after
  the loop.
\<close>

theorem C5_session_status_after_buckets:
  assumes nonempty: "buckets body \<noteq> []"
    and created: "\<not> sessionCreateFails (storeFaults env)"
    and started: "\<not> auditStartedFails (storeFaults env)"
    and run: "runCrawlers rt search env body sys = (answer, sys')"
    and final: "final = sessions sys' ! length (sessions sys)"
    and m: "m = mapCountry (country_body body)"
    and s0: "s0 = (emptyTally, jobStore sys, network sys)"
  shows
    "(\<not> sessionUpdateFails (storeFaults env) \<and> \<not> auditCompletedFails (storeFaults env) \<longrightarrow>
       status final = (if bucketsFailed final = [] then Completed else Partial) \<and>
       (\<forall>b. count_list (bucketsCompleted final) b + count_list (bucketsFailed final) b =
            count_list (buckets body) b) \<and>
       (\<forall>b \<in> set (buckets body).
          (\<forall>w. fst (search (bucketParams body m b) w) = None) \<longrightarrow>
            b \<in> set (bucketsFailed final) \<and> b \<notin> set (bucketsCompleted final)) \<and>
       (\<forall>b1 b2 b3.
          buckets body = [b1, b2, b3] \<and>
          \<not> bucketThrows rt search body m (uuidv4 env) b1 s0 \<and>
          fetchThrows search (bucketParams body m b2)
            (scrapeBucket rt search body m (uuidv4 env) b1 s0) \<and>
          \<not> bucketThrows rt search body m (uuidv4 env) b3
              (scrapeBucket rt search body m (uuidv4 env) b2
                 (scrapeBucket rt search body m (uuidv4 env) b1 s0)) \<longrightarrow>
            status final = Partial \<and> bucketsCompleted final = [b1, b3] \<and>
            bucketsFailed final = [b2])) \<and>
     ((sessionUpdateFails (storeFaults env) \<or> auditCompletedFails (storeFaults env)) \<and>
      \<not> sessionFailedUpdateFails (storeFaults env) \<longrightarrow>
        status final = Failed \<and> errorMessage final = Some (storeError env)) \<and>
     (sessionUpdateFails (storeFaults env) \<and> sessionFailedUpdateFails (storeFaults env) \<longrightarrow>
        status final = InProgress \<and> bucketsCompleted final = [] \<and> bucketsFailed final = []) \<and>
     (\<not> sessionUpdateFails (storeFaults env) \<and> auditCompletedFails (storeFaults env) \<and>
      sessionFailedUpdateFails (storeFaults env) \<longrightarrow>
        status final = (if bucketsFailed final = [] then Completed else Partial))"
proof -
  have fin: "final = sessions (snd (runCrawlers rt search env body sys)) ! length (sessions sys)"
    using run final by simp
  have ok: "\<not> sessionUpdateFails (storeFaults env) \<and> \<not> auditCompletedFails (storeFaults env) \<longrightarrow>
       status final = (if bucketsFailed final = [] then Completed else Partial) \<and>
       (\<forall>b. count_list (bucketsCompleted final) b + count_list (bucketsFailed final) b =
            count_list (buckets body) b) \<and>
       (\<forall>b \<in> set (buckets body).
          (\<forall>w. fst (search (bucketParams body m b) w) = None) \<longrightarrow>
            b \<in> set (bucketsFailed final) \<and> b \<notin> set (bucketsCompleted final)) \<and>
       (\<forall>b1 b2 b3.
          buckets body = [b1, b2, b3] \<and>
          \<not> bucketThrows rt search body m (uuidv4 env) b1 s0 \<and>
          fetchThrows search (bucketParams body m b2)
            (scrapeBucket rt search body m (uuidv4 env) b1 s0) \<and>
          \<not> bucketThrows rt search body m (uuidv4 env) b3
              (scrapeBucket rt search body m (uuidv4 env) b2
                 (scrapeBucket rt search body m (uuidv4 env) b1 s0)) \<longrightarrow>
            status final = Partial \<and> bucketsCompleted final = [b1, b3] \<and>
            bucketsFailed final = [b2])"
  proof
    assume w: "\<not> sessionUpdateFails (storeFaults env) \<and> \<not> auditCompletedFails (storeFaults env)"
    then have u: "\<not> sessionUpdateFails (storeFaults env)"
      and a: "\<not> auditCompletedFails (storeFaults env)" by simp_all
    from session_after_successful_writes [OF nonempty created started u a run final m s0]
    show "status final = (if bucketsFailed final = [] then Completed else Partial) \<and>
       (\<forall>b. count_list (bucketsCompleted final) b + count_list (bucketsFailed final) b =
            count_list (buckets body) b) \<and>
       (\<forall>b \<in> set (buckets body).
          (\<forall>w. fst (search (bucketParams body m b) w) = None) \<longrightarrow>
            b \<in> set (bucketsFailed final) \<and> b \<notin> set (bucketsCompleted final)) \<and>
       (\<forall>b1 b2 b3.
          buckets body = [b1, b2, b3] \<and>
          \<not> bucketThrows rt search body m (uuidv4 env) b1 s0 \<and>
          fetchThrows search (bucketParams body m b2)
            (scrapeBucket rt search body m (uuidv4 env) b1 s0) \<and>
          \<not> bucketThrows rt search body m (uuidv4 env) b3
              (scrapeBucket rt search body m (uuidv4 env) b2
                 (scrapeBucket rt search body m (uuidv4 env) b1 s0)) \<longrightarrow>
            status final = Partial \<and> bucketsCompleted final = [b1, b3] \<and>
            bucketsFailed final = [b2])" .
  qed
  from ok session_after_failed_writes [OF nonempty created started fin]
  show ?thesis by blast
qed

theorem C5_session_status_after_buckets_witness:
  "buckets (sampleBody [''bucket1'', ''bucket2'', ''bucket3'']) \<noteq> [] \<and>
   \<not> sessionCreateFails (storeFaults (sampleEnvironment noFaults)) \<and>
   \<not> auditStartedFails (storeFaults (sampleEnvironment noFaults)) \<and>
   \<not> sessionUpdateFails (storeFaults (sampleEnvironment noFaults)) \<and>
   \<not> auditCompletedFails (storeFaults (sampleEnvironment noFaults)) \<and>
   ''bucket2'' \<in> set (buckets (sampleBody [''bucket1'', ''bucket2'', ''bucket3''])) \<and>
   (\<forall>w. fst (mockSearch ''bucket2'' sampleParsed
                (bucketParams (sampleBody [''bucket1'', ''bucket2'', ''bucket3''])
                   (mapCountry (country_body (sampleBody [''bucket1'', ''bucket2'', ''bucket3''])))
                   ''bucket2'') w) = None) \<and>
   \<not> bucketThrows (sampleRuntime (mockApi [])) (mockSearch ''bucket2'' sampleParsed)
       (sampleBody [''bucket1'', ''bucket2'', ''bucket3''])
       (mapCountry (country_body (sampleBody [''bucket1'', ''bucket2'', ''bucket3''])))
       (uuidv4 (sampleEnvironment noFaults)) ''bucket1''
       (emptyTally, jobStore emptySystem, network emptySystem) \<and>
   status (sessions (snd (runCrawlers (sampleRuntime (mockApi []))
             (mockSearch ''bucket2'' sampleParsed) (sampleEnvironment noFaults)
             (sampleBody [''bucket1'', ''bucket2'', ''bucket3'']) emptySystem))
           ! length (sessions emptySystem)) = Partial \<and>
   bucketsCompleted (sessions (snd (runCrawlers (sampleRuntime (mockApi []))
             (mockSearch ''bucket2'' sampleParsed) (sampleEnvironment noFaults)
             (sampleBody [''bucket1'', ''bucket2'', ''bucket3'']) emptySystem))
           ! length (sessions emptySystem)) = [''bucket1'', ''bucket3''] \<and>
   bucketsFailed (sessions (snd (runCrawlers (sampleRuntime (mockApi []))
             (mockSearch ''bucket2'' sampleParsed) (sampleEnvironment noFaults)
             (sampleBody [''bucket1'', ''bucket2'', ''bucket3'']) emptySystem))
           ! length (sessions emptySystem)) = [''bucket2''] \<and>
   ''bucket2'' \<in> set (bucketsFailed (sessions (snd (runCrawlers (sampleRuntime (mockApi []))
             (mockSearch ''bucket2'' sampleParsed) (sampleEnvironment noFaults)
             (sampleBody [''bucket1'', ''bucket2'', ''bucket3'']) emptySystem))
           ! length (sessions emptySystem))) \<and>
   auditCompletedFails (storeFaults (sampleEnvironment (noFaults\<lparr>auditCompletedFails := True\<rparr>))) \<and>
   \<not> sessionFailedUpdateFails
       (storeFaults (sampleEnvironment (noFaults\<lparr>auditCompletedFails := True\<rparr>))) \<and>
   status (sessions (snd (runCrawlers (sampleRuntime (mockApi []))
             (mockSearch ''bucket2'' sampleParsed)
             (sampleEnvironment (noFaults\<lparr>auditCompletedFails := True\<rparr>))
             (sampleBody [''bucket1'', ''bucket2'', ''bucket3'']) emptySystem))
           ! length (sessions emptySystem)) = Failed \<and>
   status (sessions (snd (runCrawlers (sampleRuntime (mockApi []))
             (mockSearch ''bucket2'' sampleParsed)
             (sampleEnvironment
                (noFaults\<lparr>sessionUpdateFails := True, sessionFailedUpdateFails := True\<rparr>))
             (sampleBody [''bucket1'', ''bucket2'', ''bucket3'']) emptySystem))
           ! length (sessions emptySystem)) = InProgress \<and>
   status (sessions (snd (runCrawlers (sampleRuntime (mockApi []))
             (mockSearch ''bucket2'' sampleParsed)
             (sampleEnvironment
                (noFaults\<lparr>auditCompletedFails := True, sessionFailedUpdateFails := True\<rparr>))
             (sampleBody [''bucket1'', ''bucket2'', ''bucket3'']) emptySystem))
           ! length (sessions emptySystem)) = Partial"
proof -
  let ?rt = "sampleRuntime (mockApi [])"
  let ?search = "mockSearch ''bucket2'' sampleParsed"
  let ?env = "sampleEnvironment noFaults"
  let ?body = "sampleBody [''bucket1'', ''bucket2'', ''bucket3'']"
  let ?m = "mapCountry (country_body ?body)"
  let ?s0 = "(emptyTally, jobStore emptySystem, network emptySystem)"
  let ?R = "runCrawlers ?rt ?search ?env ?body emptySystem"
  let ?final = "sessions (snd ?R) ! length (sessions emptySystem)"
  have nonempty: "buckets ?body \<noteq> []" by code_simp
  have created: "\<not> sessionCreateFails (storeFaults ?env)" by code_simp
  have started: "\<not> auditStartedFails (storeFaults ?env)" by code_simp
  have updated: "\<not> sessionUpdateFails (storeFaults ?env)" by code_simp
  have audited: "\<not> auditCompletedFails (storeFaults ?env)" by code_simp
  have run: "?R = (fst ?R, snd ?R)" by simp
  have inb: "''bucket2'' \<in> set (buckets ?body)" by code_simp
  have q: "query (bucketParams ?body ?m ''bucket2'') = ''bucket2''"
    by (simp add: bucketParams_def)
  have th: "\<forall>w. fst (?search (bucketParams ?body ?m ''bucket2'') w) = None"
    using q by (simp add: mockSearch_def)
  have h1: "\<not> bucketThrows ?rt ?search ?body ?m (uuidv4 ?env) ''bucket1'' ?s0" by code_simp
  have h2: "fetchThrows ?search (bucketParams ?body ?m ''bucket2'')
          (scrapeBucket ?rt ?search ?body ?m (uuidv4 ?env) ''bucket1'' ?s0)" by code_simp
  have h3: "\<not> bucketThrows ?rt ?search ?body ?m (uuidv4 ?env) ''bucket3''
            (scrapeBucket ?rt ?search ?body ?m (uuidv4 ?env) ''bucket2''
               (scrapeBucket ?rt ?search ?body ?m (uuidv4 ?env) ''bucket1'' ?s0))" by code_simp
  have b: "buckets ?body = [''bucket1'', ''bucket2'', ''bucket3'']" by code_simp
  from C5_session_status_after_buckets [OF nonempty created started run refl refl refl]
       updated audited inb th h1 h2 h3 b
  have main: "status ?final = Partial \<and> bucketsCompleted ?final = [''bucket1'', ''bucket3''] \<and>
        bucketsFailed ?final = [''bucket2''] \<and> ''bucket2'' \<in> set (bucketsFailed ?final)"
    by blast
  let ?envA = "sampleEnvironment (noFaults\<lparr>auditCompletedFails := True\<rparr>)"
  let ?RA = "runCrawlers ?rt ?search ?envA ?body emptySystem"
  have createdA: "\<not> sessionCreateFails (storeFaults ?envA)" by code_simp
  have startedA: "\<not> auditStartedFails (storeFaults ?envA)" by code_simp
  have auditA: "auditCompletedFails (storeFaults ?envA)" by code_simp
  have catchA: "\<not> sessionFailedUpdateFails (storeFaults ?envA)" by code_simp
  have runA: "?RA = (fst ?RA, snd ?RA)" by simp
  from C5_session_status_after_buckets [OF nonempty createdA startedA runA refl refl refl]
       auditA catchA
  have failedA: "status (sessions (snd ?RA) ! length (sessions emptySystem)) = Failed"
    by blast
  let ?envB = "sampleEnvironment
                (noFaults\<lparr>sessionUpdateFails := True, sessionFailedUpdateFails := True\<rparr>)"
  let ?RB = "runCrawlers ?rt ?search ?envB ?body emptySystem"
  have createdB: "\<not> sessionCreateFails (storeFaults ?envB)" by code_simp
  have startedB: "\<not> auditStartedFails (storeFaults ?envB)" by code_simp
  have updateB: "sessionUpdateFails (storeFaults ?envB)" by code_simp
  have catchB: "sessionFailedUpdateFails (storeFaults ?envB)" by code_simp
  have runB: "?RB = (fst ?RB, snd ?RB)" by simp
  from C5_session_status_after_buckets [OF nonempty createdB startedB runB refl refl refl]
       updateB catchB
  have stuckB: "status (sessions (snd ?RB) ! length (sessions emptySystem)) = InProgress"
    by blast
  let ?envC = "sampleEnvironment
                (noFaults\<lparr>auditCompletedFails := True, sessionFailedUpdateFails := True\<rparr>)"
  let ?RC = "runCrawlers ?rt ?search ?envC ?body emptySystem"
  have createdC: "\<not> sessionCreateFails (storeFaults ?envC)" by code_simp
  have startedC: "\<not> auditStartedFails (storeFaults ?envC)" by code_simp
  have updateC: "\<not> sessionUpdateFails (storeFaults ?envC)" by code_simp
  have auditC: "auditCompletedFails (storeFaults ?envC)" by code_simp
  have catchC: "sessionFailedUpdateFails (storeFaults ?envC)" by code_simp
  have listC: "bucketsFailed (sessions (snd ?RC) ! length (sessions emptySystem)) \<noteq> []"
    by code_simp
  have runC: "?RC = (fst ?RC, snd ?RC)" by simp
  from C5_session_status_after_buckets [OF nonempty createdC startedC runC refl refl refl]
       updateC auditC catchC
  have "status (sessions (snd ?RC) ! length (sessions emptySystem)) =
      (if bucketsFailed (sessions (snd ?RC) ! length (sessions emptySystem)) = []
       then Completed else Partial)"
    by blast
  with listC have keptC: "status (sessions (snd ?RC) ! length (sessions emptySystem)) = Partial"
    by simp
  from main failedA stuckB keptC nonempty created started updated audited inb th h1 auditA catchA
  show ?thesis by blast
qed



text \<open>
  The creation of the session is not enough for this: when it succeeds and the audit
  entry after the loop cannot be written, the \<^verbatim>\<open>catch\<close> of line 584 marks the session
  \<open>failed\<close>, although its only bucket has completed and none has failed.
\<close>

theorem C5_counterexample:
  "\<not> sessionCreateFails
       (storeFaults (sampleEnvironment (noFaults\<lparr>auditCompletedFails := True\<rparr>))) \<and>
   fst (runCrawlers (sampleRuntime (mockApi [])) (mockSearch [] sampleParsed)
          (sampleEnvironment (noFaults\<lparr>auditCompletedFails := True\<rparr>))
          (sampleBody [''engineer'']) emptySystem) =
     Started ''3f2b8c1e-5d47-4a90-9c6e-7b1a2d3e4f50'' [''engineer''] True 1767225600000 \<and>
   bucketsCompleted (sessions (snd (runCrawlers (sampleRuntime (mockApi []))
       (mockSearch [] sampleParsed)
       (sampleEnvironment (noFaults\<lparr>auditCompletedFails := True\<rparr>))
       (sampleBody [''engineer'']) emptySystem)) ! 0) = [''engineer''] \<and>
   bucketsFailed (sessions (snd (runCrawlers (sampleRuntime (mockApi []))
       (mockSearch [] sampleParsed)
       (sampleEnvironment (noFaults\<lparr>auditCompletedFails := True\<rparr>))
       (sampleBody [''engineer'']) emptySystem)) ! 0) = [] \<and>
   status (sessions (snd (runCrawlers (sampleRuntime (mockApi []))
       (mockSearch [] sampleParsed)
       (sampleEnvironment (noFaults\<lparr>auditCompletedFails := True\<rparr>))
       (sampleBody [''engineer'']) emptySystem)) ! 0) = Failed"
  by code_simp

end
